theory Spec2Isabelle
  imports Main "HOL-Library.Sublist" "HOL-Library.AList"
begin

chapter \<open>C++ syntax diagrams: the catalog, the filter and the renderer's fallback\<close>

text \<open>
  The program shows the grammar of C++ (Annex A of the standard) as railroad diagrams, each
  with its EBNF text. This theory embeds the parts of it that carry logic:
  \<^item> the filter of rule names of the application (\<open>filterNames\<close>);
  \<^item> \<open>diagramToSvgString\<close>, which turns a diagram object into a string and falls back when
    the object does not support the export;
  \<^item> the two grammar modules, each with its map \<open>rules\<close> from rule names to diagram
    factories, its section lists \<open>SECTION_RULES\<close> and its \<open>createRuleDiagram\<close>;
  \<^item> the EBNF texts \<open>EBNF_DEFINITIONS\<close> with \<open>getEbnfDefinition\<close> and \<open>getEbnfRuleNames\<close>.
\<close>


section \<open>JavaScript strings\<close>

text \<open>
  Strings are lists of code units. The model covers code units below 256 (the names of the
  grammar are ASCII), where \<open>String.prototype.trim\<close> and \<open>String.prototype.toLowerCase\<close>
  are as follows: \<open>trim\<close> strips TAB, LF, VT, FF, CR, SPACE and NO-BREAK SPACE from both ends,
  and \<open>toLowerCase\<close> maps \<open>A\<close>..\<open>Z\<close> and the Latin-1 capitals \<open>0xC0\<close>..\<open>0xDE\<close> (without the
  multiplication sign \<open>0xD7\<close>) to the code unit 32 above and leaves every other code unit as
  it is.
\<close>

definition is_white_space :: "char \<Rightarrow> bool" where
  "is_white_space c \<longleftrightarrow>
     c \<in> set [CHR 0x09, CHR 0x0A, CHR 0x0B, CHR 0x0C, CHR 0x0D, CHR 0x20, CHR 0xA0]"

definition trim :: "string \<Rightarrow> string" where
  "trim s = rev (dropWhile is_white_space (rev (dropWhile is_white_space s)))"

definition lower_char :: "char \<Rightarrow> char" where
  "lower_char c =
     (let n = (of_char c :: nat)
      in if (65 \<le> n \<and> n \<le> 90) \<or> (192 \<le> n \<and> n \<le> 222 \<and> n \<noteq> 215)
         then char_of (n + 32) else c)"

definition toLowerCase :: "string \<Rightarrow> string" where
  "toLowerCase s = map lower_char s"

text \<open>\<open>s.includes(q)\<close>: \<open>q\<close> occurs in \<open>s\<close> as a contiguous run of code units.\<close>

fun includes_str :: "string \<Rightarrow> string \<Rightarrow> bool" where
  "includes_str [] q = (q = [])"
| "includes_str (c # cs) q = (prefix q (c # cs) \<or> includes_str cs q)"

section \<open>The rule filter of the application (\<open>App\<close>)\<close>

text \<open>
  \<^verbatim>\<open>
  const filterNames = (names: string[]) => {
    const q = query.trim().toLowerCase();
    if (!q) return names;
    return names.filter((n) => n.toLowerCase().includes(q));
  };
  \<close>
  The closure reads the component's state \<open>query\<close>; here it is the first argument.
\<close>

definition filterNames :: "string \<Rightarrow> string list \<Rightarrow> string list" where
  "filterNames query names =
     (let q = toLowerCase (trim query)
      in if q = [] then names
         else filter (\<lambda>n. includes_str (toLowerCase n) q) names)"

section \<open>Serialising a diagram: \<open>diagramToSvgString\<close>\<close>

text \<open>
  The argument has the type \<open>any\<close>. What the function observes of it is: whether it is
  falsy; whether its property \<open>toSVG\<close> is a function and what a call of it does; whether its
  property \<open>toString\<close> is a function and what \<open>String(diagram.toString())\<close> does. A call
  either returns a value or throws one. Reading a property is taken not to throw.

  Of a thrown value \<open>e\<close> the handler reads \<open>e?.message ?? String(e)\<close> inside a template
  literal: the message when there is one, the string conversion of \<open>e\<close> otherwise. A value
  for which that conversion itself throws (an object without a usable \<open>toString\<close>, a symbol
  as message) is \<open>Thrown_unprintable\<close>.
\<close>

datatype js_thrown =
  Thrown_with_message string
| Thrown_value string
| Thrown_unprintable

datatype 'a js_outcome = Returns 'a | Throws js_thrown

text \<open>
  What \<open>diagram.toSVG()\<close> may return: a primitive string; an object with a \<open>nodeType\<close>
  property (a DOM node), of which the function reads \<open>outerHTML\<close> (a string, or \<open>None\<close> when
  it is \<open>null\<close> or \<open>undefined\<close>) and which \<open>new XMLSerializer().serializeToString\<close> turns
  into a string or fails on; anything else.
\<close>

datatype svg_value =
  Svg_string string
| Svg_element (outerHTML: "string option") (serializeToString: "string js_outcome")
| Svg_other

text \<open>
  The argument: \<open>undefined\<close>, \<open>null\<close>, another falsy value (\<open>false\<close>, \<open>0\<close>, \<open>NaN\<close>, the
  empty string), or a truthy value with its two methods (\<open>None\<close>: the property is not a
  function).
\<close>

datatype diagram_value =
  Js_undefined
| Js_null
| Js_falsy
| Js_object (toSVG: "svg_value js_outcome option") (toString: "string js_outcome option")

text \<open>The methods the function invokes, in the order of the calls.\<close>

datatype export_call = Call_toSVG | Call_serializeToString | Call_toString

datatype js_uncaught = Uncaught

text \<open>
  \<^verbatim>\<open>
  try {
    if (typeof diagram.toSVG === "function") {
      const svg = diagram.toSVG();
      if (typeof svg === "string") return svg;
      if (svg && typeof svg === "object" && "nodeType" in svg) {
        const el: Element = svg;
        return el.outerHTML ?? new XMLSerializer().serializeToString(el);
      }
      return "<!-- toSVG() returned unexpected value -->";
    }
    if (typeof diagram.toString === "function") {
      return String(diagram.toString());
    }
    return "<!-- Diagram does not support toSVG/toString -->";
  }
  \<close>
\<close>

definition try_block ::
  "svg_value js_outcome option \<Rightarrow> string js_outcome option \<Rightarrow> export_call list \<times> string js_outcome"
where
  "try_block to_svg to_string =
     (case to_svg of
        Some call \<Rightarrow>
          (case call of
             Throws e \<Rightarrow> ([Call_toSVG], Throws e)
           | Returns (Svg_string s) \<Rightarrow> ([Call_toSVG], Returns s)
           | Returns (Svg_element (Some html) ser) \<Rightarrow> ([Call_toSVG], Returns html)
           | Returns (Svg_element None ser) \<Rightarrow> ([Call_toSVG, Call_serializeToString], ser)
           | Returns Svg_other \<Rightarrow>
               ([Call_toSVG], Returns ''<!-- toSVG() returned unexpected value -->''))
      | None \<Rightarrow>
          (case to_string of
             Some call \<Rightarrow> ([Call_toString], call)
           | None \<Rightarrow> ([], Returns ''<!-- Diagram does not support toSVG/toString -->'')))"

text \<open>
  \<^verbatim>\<open>
  catch (e: any) {
    return `<!-- Render error: ${e?.message ?? String(e)} -->`;
  }
  \<close>
\<close>

definition error_text :: "js_thrown \<Rightarrow> string option" where
  "error_text e =
     (case e of
        Thrown_with_message m \<Rightarrow> Some m
      | Thrown_value s \<Rightarrow> Some s
      | Thrown_unprintable \<Rightarrow> None)"

definition catch_block :: "js_thrown \<Rightarrow> js_uncaught + string" where
  "catch_block e =
     (case error_text e of
        Some m \<Rightarrow> Inr (''<!-- Render error: '' @ m @ '' -->'')
      | None \<Rightarrow> Inl Uncaught)"

text \<open>
  \<open>diagramToSvgString\<close> returns the calls it made and either its string (\<open>Inr\<close>) or an
  exception that leaves it (\<open>Inl\<close>).
\<close>

definition diagramToSvgString :: "diagram_value \<Rightarrow> export_call list \<times> (js_uncaught + string)" where
  "diagramToSvgString diagram =
     (case diagram of
        Js_object to_svg to_string \<Rightarrow>
          (case try_block to_svg to_string of
             (calls, Returns s) \<Rightarrow> (calls, Inr s)
           | (calls, Throws e) \<Rightarrow> (calls, catch_block e))
      | _ \<Rightarrow> ([], Inr ''<!-- empty diagram -->''))"


section \<open>Railroad diagram nodes\<close>

text \<open>
  Both grammar modules build their diagrams with the primitives of the package
  \<open>@prantlf/railroad-diagrams\<close>, imported as \<open>RR\<close>. The package is not part of the
  repository: it is a parameter of the model. A node is modelled by the primitive that built
  it and the arguments it was given: \<open>Diagram\<close>, \<open>Sequence\<close> and \<open>Stack\<close> take their items,
  \<open>Choice\<close> the index of the default branch and the alternatives, \<open>Optional\<close>,
  \<open>OneOrMore\<close> and \<open>ZeroOrMore\<close> one item, \<open>Terminal\<close>, \<open>NonTerminal\<close> and \<open>Comment\<close>
  their text. The grammar modules use no other form of call.
\<close>

datatype rr_node =
  Diagram "rr_node list"
| Sequence "rr_node list"
| Choice int "rr_node list"
| Optional rr_node
| OneOrMore rr_node
| ZeroOrMore rr_node
| Terminal string
| NonTerminal string
| Stack "rr_node list"
| Comment string






abbreviation T :: "string \<Rightarrow> rr_node" where
  "T s \<equiv> Terminal s"

abbreviation NT :: "string \<Rightarrow> rr_node" where
  "NT s \<equiv> NonTerminal s"

abbreviation K :: "string \<Rightarrow> rr_node" where
  "K s \<equiv> Terminal s"



text \<open>
  A factory is an arrow function without parameters: \<open>Arrow body\<close> is \<open>() => body\<close>, and
  \<open>Arrow_const bound body\<close> is \<open>() => { const x = bound; return body; }\<close>, where \<open>body\<close>
  mentions \<open>x\<close> (one rule of the second module is written so). \<open>invoke RR factory\<close> is the
  call \<open>factory()\<close>. The constant is evaluated first; the node it is bound to is the tree
  \<open>bound\<close> itself, and the package answers a repeated request as it did before.
\<close>

datatype factory =
  Arrow rr_node
| Arrow_const rr_node "rr_node \<Rightarrow> rr_node"


section \<open>JavaScript maps and object literals\<close>

text \<open>
  A \<open>Map\<close> keeps its entries in insertion order; \<open>set\<close> on a key that is present replaces
  the value where the entry stands, and appends the entry otherwise. An object literal
  defines its properties in the same way, a repeated key overwriting the earlier value.
\<close>

definition Map_set :: "('k \<times> 'v) list \<Rightarrow> 'k \<Rightarrow> 'v \<Rightarrow> ('k \<times> 'v) list" where
  "Map_set m k v = AList.update k v m"

definition Map_get :: "('k \<times> 'v) list \<Rightarrow> 'k \<Rightarrow> 'v option" where
  "Map_get m k = map_of m k"

definition Map_keys :: "('k \<times> 'v) list \<Rightarrow> 'k list" where
  "Map_keys m = map fst m"

definition object_literal :: "('k \<times> 'v) list \<Rightarrow> ('k \<times> 'v) list" where
  "object_literal props = fold (\<lambda>(k, v) obj. AList.update k v obj) props []"

text \<open>The sections of the grammar (the type \<open>SectionId\<close>).\<close>

datatype SectionId =
  Keywords | Lexical | Literals | Basics | Expressions | Statements | Declarations
| Modules | Classes | Overloading | Templates | Exceptions | Preprocessing


section \<open>The first grammar module (\<open>cpp-syntax-diagrams.ts\<close>)\<close>

text \<open>
  The module that its first comment names \<open>cpp-syntax-diagrams.ts\<close>. Its constants carry
  the suffix \<open>_sd\<close> here, since the second module declares the same names.
  \<^verbatim>\<open>const rules = new Map<string, () => any>();\<close>
  is filled by one \<open>rules.set(name, () => ...)\<close> call per rule.
\<close>

text \<open>The \<open>rules.set\<close> calls of the section \<open>keywords\<close>, in the order of the source.\<close>

definition rules_keywords_sd :: "(string \<times> factory) list" where
  \<open>rules_keywords_sd =
    [(''typedef-name'', Arrow (Diagram [Choice 0 [NT ''identifier'', NT ''simple-template-id'']])),
     (''namespace-name'', Arrow (Diagram [Choice 0 [NT ''identifier'', NT ''namespace-alias'']])),
     (''namespace-alias'', Arrow (Diagram [NT ''identifier''])),
     (''class-name'', Arrow (Diagram [Choice 0 [NT ''identifier'', NT ''simple-template-id'']])),
     (''enum-name'', Arrow (Diagram [NT ''identifier''])),
     (''template-name'', Arrow (Diagram [NT ''identifier'']))]\<close>

text \<open>The \<open>rules.set\<close> calls of the section \<open>lexical\<close>, in the order of the source.\<close>

definition rules_lexical_sd :: "(string \<times> factory) list" where
  \<open>rules_lexical_sd =
    [(''n-char'', Arrow (Diagram [Comment ''any char except } or new-line''])),
     (''n-char-sequence'', Arrow (Diagram [OneOrMore (NT ''n-char'')])),
     (''named-universal-character'', Arrow
       (Diagram [Sequence [T (CHR 0x5C # ''N{''), NT ''n-char-sequence'', T ''}'']])),
     (''hex-quad'', Arrow
       (Diagram
          [Sequence
             [NT ''hexadecimal-digit'', NT ''hexadecimal-digit'', NT ''hexadecimal-digit'',
              NT ''hexadecimal-digit'']])),
     (''simple-hexadecimal-digit-sequence'', Arrow
       (Diagram [OneOrMore (NT ''hexadecimal-digit'')])),
     (''universal-character-name'', Arrow
       (Diagram
          [Choice 0
             [Sequence [T (CHR 0x5C # ''u''), NT ''hex-quad''],
              Sequence [T (CHR 0x5C # ''U''), NT ''hex-quad'', NT ''hex-quad''],
              Sequence [T (CHR 0x5C # ''u{''), NT ''simple-hexadecimal-digit-sequence'', T ''}''],
              NT ''named-universal-character'']])),
     (''preprocessing-token'', Arrow
       (Diagram
          [Choice 0
             [NT ''header-name'', NT ''import-keyword'', NT ''module-keyword'',
              NT ''export-keyword'', NT ''identifier'', NT ''pp-number'',
              NT ''character-literal'', NT ''user-defined-character-literal'',
              NT ''string-literal'', NT ''user-defined-string-literal'',
              NT ''preprocessing-op-or-punc'', Comment ''non-whitespace char'']])),
     (''token'', Arrow
       (Diagram
          [Choice 0
             [NT ''identifier'', NT ''keyword'', NT ''literal'', NT ''operator-or-punctuator'']])),
     (''header-name'', Arrow
       (Diagram
          [Choice 0
             [Sequence [T ''<'', NT ''h-char-sequence'', T ''>''],
              Sequence [T ''"'', NT ''q-char-sequence'', T ''"'']]])),
     (''h-char-sequence'', Arrow (Diagram [OneOrMore (NT ''h-char'')])),
     (''h-char'', Arrow (Diagram [Comment ''any char except new-line or >''])),
     (''q-char-sequence'', Arrow (Diagram [OneOrMore (NT ''q-char'')])),
     (''q-char'', Arrow (Diagram [Comment ''any char except new-line or "''])),
     (''pp-number'', Arrow
       (Diagram
          [Sequence
             [Choice 0 [NT ''digit'', Sequence [T ''.'', NT ''digit'']],
              ZeroOrMore
                (Choice 0
                   [NT ''identifier-continue'', Sequence [T [CHR 0x27], NT ''digit''],
                    Sequence [T [CHR 0x27], NT ''nondigit''],
                    Sequence [Choice 0 [T ''e'', T ''E'', T ''p'', T ''P''], NT ''sign''],
                    T ''.''])]])),
     (''identifier'', Arrow
       (Diagram [Sequence [NT ''identifier-start'', ZeroOrMore (NT ''identifier-continue'')]])),
     (''identifier-start'', Arrow
       (Diagram [Choice 0 [NT ''nondigit'', Comment ''Unicode XID_Start'']])),
     (''identifier-continue'', Arrow
       (Diagram [Choice 0 [NT ''digit'', NT ''nondigit'', Comment ''Unicode XID_Continue'']])),
     (''nondigit'', Arrow (Diagram [Choice 0 [T ''a-z'', T ''A-Z'', T ''_'']])),
     (''digit'', Arrow
       (Diagram
          [Choice 0
             [T ''0'', T ''1'', T ''2'', T ''3'', T ''4'', T ''5'', T ''6'', T ''7'', T ''8'',
              T ''9'']])),
     (''keyword'', Arrow
       (Diagram
          [Choice 0
             [Comment ''any identifier in Table 5'', NT ''import-keyword'', NT ''module-keyword'',
              NT ''export-keyword'']])),
     (''preprocessing-op-or-punc'', Arrow
       (Diagram [Choice 0 [NT ''preprocessing-operator'', NT ''operator-or-punctuator'']])),
     (''preprocessing-operator'', Arrow
       (Diagram [Choice 0 [T ''#'', T ''##'', T ''%:'', T ''%:%:'']])),
     (''operator-or-punctuator'', Arrow
       (Diagram
          [Choice 0
             [T ''{'', T ''}'', T ''['', T '']'', T ''('', T '')'', T ''<:'', T '':>'', T ''<%'',
              T ''%>'', T '';'', T '':'', T ''...'', T ''?'', T ''::'', T ''.'', T ''.*'',
              T ''->'', T ''->*'', T ''~'', T ''!'', T ''+'', T ''-'', T ''*'', T ''/'', T ''%'',
              T ''^'', T ''&'', T ''|'', T ''='', T ''+='', T ''-='', T ''*='', T ''/='',
              T ''%='', T ''^='', T ''&='', T ''|='', T ''=='', T ''!='', T ''<'', T ''>'',
              T ''<='', T ''>='', T ''<=>'', T ''&&'', T ''||'', T ''<<'', T ''>>'', T ''<<='',
              T ''>>='', T ''++'', T ''--'', T '','', K ''and'', K ''or'', K ''xor'', K ''not'',
              K ''bitand'', K ''bitor'', K ''compl'', K ''and_eq'', K ''or_eq'', K ''xor_eq'',
              K ''not_eq'']]))]\<close>

text \<open>The \<open>rules.set\<close> calls of the section \<open>literals\<close>, in the order of the source.\<close>

definition rules_literals_sd :: "(string \<times> factory) list" where
  \<open>rules_literals_sd =
    [(''literal'', Arrow
       (Diagram
          [Choice 0
             [NT ''integer-literal'', NT ''character-literal'', NT ''floating-point-literal'',
              NT ''string-literal'', NT ''boolean-literal'', NT ''pointer-literal'',
              NT ''user-defined-literal'']])),
     (''integer-literal'', Arrow
       (Diagram
          [Sequence
             [Choice 0
                [NT ''binary-literal'', NT ''octal-literal'', NT ''decimal-literal'',
                 NT ''hexadecimal-literal''],
              Optional (NT ''integer-suffix'')]])),
     (''binary-literal'', Arrow
       (Diagram
          [Sequence
             [Choice 0 [T ''0b'', T ''0B''], NT ''binary-digit'',
              ZeroOrMore (Sequence [Optional (T [CHR 0x27]), NT ''binary-digit''])]])),
     (''octal-literal'', Arrow
       (Diagram
          [Choice 0
             [T ''0'',
              Sequence
                [T ''0'', OneOrMore (Sequence [Optional (T [CHR 0x27]), NT ''octal-digit''])]]])),
     (''decimal-literal'', Arrow
       (Diagram
          [Sequence
             [NT ''nonzero-digit'', ZeroOrMore (Sequence [Optional (T [CHR 0x27]), NT ''digit''])]])),
     (''hexadecimal-literal'', Arrow
       (Diagram [Sequence [NT ''hexadecimal-prefix'', NT ''hexadecimal-digit-sequence'']])),
     (''binary-digit'', Arrow (Diagram [Choice 0 [T ''0'', T ''1'']])),
     (''octal-digit'', Arrow
       (Diagram
          [Choice 0 [T ''0'', T ''1'', T ''2'', T ''3'', T ''4'', T ''5'', T ''6'', T ''7'']])),
     (''nonzero-digit'', Arrow
       (Diagram
          [Choice 0
             [T ''1'', T ''2'', T ''3'', T ''4'', T ''5'', T ''6'', T ''7'', T ''8'', T ''9'']])),
     (''hexadecimal-prefix'', Arrow (Diagram [Choice 0 [T ''0x'', T ''0X'']])),
     (''hexadecimal-digit-sequence'', Arrow
       (Diagram
          [Sequence
             [NT ''hexadecimal-digit'',
              ZeroOrMore (Sequence [Optional (T [CHR 0x27]), NT ''hexadecimal-digit''])]])),
     (''hexadecimal-digit'', Arrow
       (Diagram
          [Choice 0
             [T ''0'', T ''1'', T ''2'', T ''3'', T ''4'', T ''5'', T ''6'', T ''7'', T ''8'',
              T ''9'', T ''a'', T ''b'', T ''c'', T ''d'', T ''e'', T ''f'', T ''A'', T ''B'',
              T ''C'', T ''D'', T ''E'', T ''F'']])),
     (''integer-suffix'', Arrow
       (Diagram
          [Choice 0
             [Sequence
                [NT ''unsigned-suffix'',
                 Optional
                   (Choice 0 [NT ''long-suffix'', NT ''long-long-suffix'', NT ''size-suffix''])],
              Sequence [NT ''long-suffix'', Optional (NT ''unsigned-suffix'')],
              Sequence [NT ''long-long-suffix'', Optional (NT ''unsigned-suffix'')],
              Sequence [NT ''size-suffix'', Optional (NT ''unsigned-suffix'')]]])),
     (''unsigned-suffix'', Arrow (Diagram [Choice 0 [T ''u'', T ''U'']])),
     (''long-suffix'', Arrow (Diagram [Choice 0 [T ''l'', T ''L'']])),
     (''long-long-suffix'', Arrow (Diagram [Choice 0 [T ''ll'', T ''LL'']])),
     (''size-suffix'', Arrow (Diagram [Choice 0 [T ''z'', T ''Z'']])),
     (''character-literal'', Arrow
       (Diagram
          [Sequence
             [Optional (NT ''encoding-prefix''), T [CHR 0x27], NT ''c-char-sequence'',
              T [CHR 0x27]]])),
     (''encoding-prefix'', Arrow (Diagram [Choice 0 [T ''u8'', T ''u'', T ''U'', T ''L'']])),
     (''c-char-sequence'', Arrow (Diagram [OneOrMore (NT ''c-char'')])),
     (''c-char'', Arrow
       (Diagram
          [Choice 0
             [NT ''basic-c-char'', NT ''escape-sequence'', NT ''universal-character-name'']])),
     (''basic-c-char'', Arrow
       (Diagram
          [Comment (''any char except '' @ CHR 0x27 # '', '' @ CHR 0x5C # '', or new-line'')])),
     (''escape-sequence'', Arrow
       (Diagram
          [Choice 0
             [NT ''simple-escape-sequence'', NT ''numeric-escape-sequence'',
              NT ''conditional-escape-sequence'']])),
     (''simple-escape-sequence'', Arrow
       (Diagram [Sequence [T [CHR 0x5C], NT ''simple-escape-sequence-char'']])),
     (''simple-escape-sequence-char'', Arrow
       (Diagram
          [Choice 0
             [T [CHR 0x27], T ''"'', T ''?'', T [CHR 0x5C], T ''a'', T ''b'', T ''f'', T ''n'',
              T ''r'', T ''t'', T ''v'']])),
     (''numeric-escape-sequence'', Arrow
       (Diagram [Choice 0 [NT ''octal-escape-sequence'', NT ''hexadecimal-escape-sequence'']])),
     (''simple-octal-digit-sequence'', Arrow (Diagram [OneOrMore (NT ''octal-digit'')])),
     (''octal-escape-sequence'', Arrow
       (Diagram
          [Choice 0
             [Sequence [T [CHR 0x5C], NT ''octal-digit''],
              Sequence [T [CHR 0x5C], NT ''octal-digit'', NT ''octal-digit''],
              Sequence [T [CHR 0x5C], NT ''octal-digit'', NT ''octal-digit'', NT ''octal-digit''],
              Sequence [T (CHR 0x5C # ''o{''), NT ''simple-octal-digit-sequence'', T ''}'']]])),
     (''hexadecimal-escape-sequence'', Arrow
       (Diagram
          [Choice 0
             [Sequence [T (CHR 0x5C # ''x''), NT ''simple-hexadecimal-digit-sequence''],
              Sequence [T (CHR 0x5C # ''x{''), NT ''simple-hexadecimal-digit-sequence'', T ''}'']]])),
     (''conditional-escape-sequence'', Arrow
       (Diagram [Sequence [T [CHR 0x5C], NT ''conditional-escape-sequence-char'']])),
     (''conditional-escape-sequence-char'', Arrow
       (Diagram [Comment ''basic char not octal/escape/N/o/u/U/x''])),
     (''floating-point-literal'', Arrow
       (Diagram
          [Choice 0
             [NT ''decimal-floating-point-literal'', NT ''hexadecimal-floating-point-literal'']])),
     (''decimal-floating-point-literal'', Arrow
       (Diagram
          [Choice 0
             [Sequence
                [NT ''fractional-constant'', Optional (NT ''exponent-part''),
                 Optional (NT ''floating-point-suffix'')],
              Sequence
                [NT ''digit-sequence'', NT ''exponent-part'',
                 Optional (NT ''floating-point-suffix'')]]])),
     (''hexadecimal-floating-point-literal'', Arrow
       (Diagram
          [Choice 0
             [Sequence
                [NT ''hexadecimal-prefix'', NT ''hexadecimal-fractional-constant'',
                 NT ''binary-exponent-part'', Optional (NT ''floating-point-suffix'')],
              Sequence
                [NT ''hexadecimal-prefix'', NT ''hexadecimal-digit-sequence'',
                 NT ''binary-exponent-part'', Optional (NT ''floating-point-suffix'')]]])),
     (''fractional-constant'', Arrow
       (Diagram
          [Choice 0
             [Sequence [Optional (NT ''digit-sequence''), T ''.'', NT ''digit-sequence''],
              Sequence [NT ''digit-sequence'', T ''.'']]])),
     (''hexadecimal-fractional-constant'', Arrow
       (Diagram
          [Choice 0
             [Sequence
                [Optional (NT ''hexadecimal-digit-sequence''), T ''.'',
                 NT ''hexadecimal-digit-sequence''],
              Sequence [NT ''hexadecimal-digit-sequence'', T ''.'']]])),
     (''exponent-part'', Arrow
       (Diagram
          [Sequence [Choice 0 [T ''e'', T ''E''], Optional (NT ''sign''), NT ''digit-sequence'']])),
     (''binary-exponent-part'', Arrow
       (Diagram
          [Sequence [Choice 0 [T ''p'', T ''P''], Optional (NT ''sign''), NT ''digit-sequence'']])),
     (''sign'', Arrow (Diagram [Choice 0 [T ''+'', T ''-'']])),
     (''digit-sequence'', Arrow
       (Diagram
          [Sequence [NT ''digit'', ZeroOrMore (Sequence [Optional (T [CHR 0x27]), NT ''digit''])]])),
     (''floating-point-suffix'', Arrow
       (Diagram
          [Choice 0
             [T ''f'', T ''l'', T ''f16'', T ''f32'', T ''f64'', T ''f128'', T ''bf16'', T ''F'',
              T ''L'', T ''F16'', T ''F32'', T ''F64'', T ''F128'', T ''BF16'']])),
     (''string-literal'', Arrow
       (Diagram
          [Choice 0
             [Sequence
                [Optional (NT ''encoding-prefix''), T ''"'', Optional (NT ''s-char-sequence''),
                 T ''"''],
              Sequence [Optional (NT ''encoding-prefix''), T ''R'', NT ''raw-string'']]])),
     (''s-char-sequence'', Arrow (Diagram [OneOrMore (NT ''s-char'')])),
     (''s-char'', Arrow
       (Diagram
          [Choice 0
             [NT ''basic-s-char'', NT ''escape-sequence'', NT ''universal-character-name'']])),
     (''basic-s-char'', Arrow
       (Diagram [Comment (''any char except ", '' @ CHR 0x5C # '', or new-line'')])),
     (''raw-string'', Arrow
       (Diagram
          [Sequence
             [T ''"'', Optional (NT ''d-char-sequence''), T ''('',
              Optional (NT ''r-char-sequence''), T '')'', Optional (NT ''d-char-sequence''),
              T ''"'']])),
     (''r-char-sequence'', Arrow (Diagram [OneOrMore (NT ''r-char'')])),
     (''r-char'', Arrow (Diagram [Comment ''any char except ) + d-char-seq + "''])),
     (''d-char-sequence'', Arrow (Diagram [OneOrMore (NT ''d-char'')])),
     (''d-char'', Arrow
       (Diagram [Comment (''basic char except space/parens/'' @ CHR 0x5C # ''/tabs/newline'')])),
     (''boolean-literal'', Arrow (Diagram [Choice 0 [K ''false'', K ''true'']])),
     (''pointer-literal'', Arrow (Diagram [K ''nullptr''])),
     (''user-defined-literal'', Arrow
       (Diagram
          [Choice 0
             [NT ''user-defined-integer-literal'', NT ''user-defined-floating-point-literal'',
              NT ''user-defined-string-literal'', NT ''user-defined-character-literal'']])),
     (''user-defined-integer-literal'', Arrow
       (Diagram
          [Sequence
             [Choice 0
                [NT ''decimal-literal'', NT ''octal-literal'', NT ''hexadecimal-literal'',
                 NT ''binary-literal''],
              NT ''ud-suffix'']])),
     (''user-defined-floating-point-literal'', Arrow
       (Diagram
          [Choice 0
             [Sequence
                [NT ''fractional-constant'', Optional (NT ''exponent-part''), NT ''ud-suffix''],
              Sequence [NT ''digit-sequence'', NT ''exponent-part'', NT ''ud-suffix''],
              Sequence
                [NT ''hexadecimal-prefix'', NT ''hexadecimal-fractional-constant'',
                 NT ''binary-exponent-part'', NT ''ud-suffix''],
              Sequence
                [NT ''hexadecimal-prefix'', NT ''hexadecimal-digit-sequence'',
                 NT ''binary-exponent-part'', NT ''ud-suffix'']]])),
     (''user-defined-string-literal'', Arrow
       (Diagram [Sequence [NT ''string-literal'', NT ''ud-suffix'']])),
     (''user-defined-character-literal'', Arrow
       (Diagram [Sequence [NT ''character-literal'', NT ''ud-suffix'']])),
     (''ud-suffix'', Arrow (Diagram [NT ''identifier'']))]\<close>

text \<open>The \<open>rules.set\<close> calls of the section \<open>basics\<close>, in the order of the source.\<close>

definition rules_basics_sd :: "(string \<times> factory) list" where
  \<open>rules_basics_sd =
    [(''translation-unit'', Arrow
       (Diagram
          [Choice 0
             [Optional (NT ''declaration-seq''),
              Sequence
                [Optional (NT ''global-module-fragment''), NT ''module-declaration'',
                 Optional (NT ''declaration-seq''), Optional (NT ''private-module-fragment'')]]]))]\<close>

text \<open>The \<open>rules.set\<close> calls of the section \<open>expressions\<close>, in the order of the source.\<close>

definition rules_expressions_sd :: "(string \<times> factory) list" where
  \<open>rules_expressions_sd =
    [(''primary-expression'', Arrow
       (Diagram
          [Choice 0
             [NT ''literal'', K ''this'', Sequence [T ''('', NT ''expression'', T '')''],
              NT ''id-expression'', NT ''lambda-expression'', NT ''fold-expression'',
              NT ''requires-expression'']])),
     (''id-expression'', Arrow (Diagram [Choice 0 [NT ''unqualified-id'', NT ''qualified-id'']])),
     (''unqualified-id'', Arrow
       (Diagram
          [Choice 0
             [NT ''identifier'', NT ''operator-function-id'', NT ''conversion-function-id'',
              NT ''literal-operator-id'', Sequence [T ''~'', NT ''type-name''],
              Sequence [T ''~'', NT ''decltype-specifier''], NT ''template-id'']])),
     (''qualified-id'', Arrow
       (Diagram
          [Sequence
             [NT ''nested-name-specifier'', Optional (K ''template''), NT ''unqualified-id'']])),
     (''nested-name-specifier'', Arrow
       (Diagram
          [Sequence
             [Choice 0
                [T ''::'', Sequence [NT ''type-name'', T ''::''],
                 Sequence [NT ''namespace-name'', T ''::''],
                 Sequence [NT ''decltype-specifier'', T ''::'']],
              ZeroOrMore
                (Choice 0
                   [Sequence [NT ''identifier'', T ''::''],
                    Sequence [Optional (K ''template''), NT ''simple-template-id'', T ''::'']])]])),
     (''lambda-expression'', Arrow
       (Diagram
          [Choice 0
             [Sequence
                [NT ''lambda-introducer'', Optional (NT ''attribute-specifier-seq''),
                 NT ''lambda-declarator'', NT ''compound-statement''],
              Sequence
                [NT ''lambda-introducer'', T ''<'', NT ''template-parameter-list'', T ''>'',
                 Optional (NT ''requires-clause''), Optional (NT ''attribute-specifier-seq''),
                 NT ''lambda-declarator'', NT ''compound-statement'']]])),
     (''lambda-introducer'', Arrow
       (Diagram [Sequence [T ''['', Optional (NT ''lambda-capture''), T '']'']])),
     (''lambda-declarator'', Arrow
       (Diagram
          [Choice 0
             [Sequence
                [NT ''lambda-specifier-seq'', Optional (NT ''noexcept-specifier''),
                 Optional (NT ''attribute-specifier-seq''),
                 Optional (NT ''trailing-return-type'')],
              Sequence
                [NT ''noexcept-specifier'', Optional (NT ''attribute-specifier-seq''),
                 Optional (NT ''trailing-return-type'')],
              Optional (NT ''trailing-return-type''),
              Sequence
                [T ''('', NT ''parameter-declaration-clause'', T '')'',
                 Optional (NT ''lambda-specifier-seq''), Optional (NT ''noexcept-specifier''),
                 Optional (NT ''attribute-specifier-seq''),
                 Optional (NT ''trailing-return-type''), Optional (NT ''requires-clause'')]]])),
     (''lambda-specifier'', Arrow
       (Diagram [Choice 0 [K ''consteval'', K ''constexpr'', K ''mutable'', K ''static'']])),
     (''lambda-specifier-seq'', Arrow (Diagram [OneOrMore (NT ''lambda-specifier'')])),
     (''lambda-capture'', Arrow
       (Diagram
          [Choice 0
             [NT ''capture-default'', NT ''capture-list'',
              Sequence [NT ''capture-default'', T '','', NT ''capture-list'']]])),
     (''capture-default'', Arrow (Diagram [Choice 0 [T ''&'', T ''='']])),
     (''capture-list'', Arrow
       (Diagram [Sequence [NT ''capture'', ZeroOrMore (Sequence [T '','', NT ''capture''])]])),
     (''capture'', Arrow (Diagram [Choice 0 [NT ''simple-capture'', NT ''init-capture'']])),
     (''simple-capture'', Arrow
       (Diagram
          [Choice 0
             [Sequence [NT ''identifier'', Optional (T ''...'')],
              Sequence [T ''&'', NT ''identifier'', Optional (T ''...'')], K ''this'',
              Sequence [T ''*'', K ''this'']]])),
     (''init-capture'', Arrow
       (Diagram
          [Choice 0
             [Sequence [Optional (T ''...''), NT ''identifier'', NT ''initializer''],
              Sequence [T ''&'', Optional (T ''...''), NT ''identifier'', NT ''initializer'']]])),
     (''fold-expression'', Arrow
       (Diagram
          [Choice 0
             [Sequence
                [T ''('', NT ''cast-expression'', NT ''fold-operator'', T ''...'', T '')''],
              Sequence
                [T ''('', T ''...'', NT ''fold-operator'', NT ''cast-expression'', T '')''],
              Sequence
                [T ''('', NT ''cast-expression'', NT ''fold-operator'', T ''...'',
                 NT ''fold-operator'', NT ''cast-expression'', T '')'']]])),
     (''fold-operator'', Arrow
       (Diagram
          [Choice 0
             [T ''+'', T ''-'', T ''*'', T ''/'', T ''%'', T ''^'', T ''&'', T ''|'', T ''<<'',
              T ''>>'', T ''+='', T ''-='', T ''*='', T ''/='', T ''%='', T ''^='', T ''&='',
              T ''|='', T ''<<='', T ''>>='', T ''='', T ''=='', T ''!='', T ''<'', T ''>'',
              T ''<='', T ''>='', T ''&&'', T ''||'', T '','', T ''.*'', T ''->*'']])),
     (''requires-expression'', Arrow
       (Diagram
          [Sequence
             [K ''requires'', Optional (NT ''requirement-parameter-list''),
              NT ''requirement-body'']])),
     (''requirement-parameter-list'', Arrow
       (Diagram [Sequence [T ''('', NT ''parameter-declaration-clause'', T '')'']])),
     (''requirement-body'', Arrow (Diagram [Sequence [T ''{'', NT ''requirement-seq'', T ''}'']])),
     (''requirement-seq'', Arrow (Diagram [OneOrMore (NT ''requirement'')])),
     (''requirement'', Arrow
       (Diagram
          [Choice 0
             [NT ''simple-requirement'', NT ''type-requirement'', NT ''compound-requirement'',
              NT ''nested-requirement'']])),
     (''simple-requirement'', Arrow (Diagram [Sequence [NT ''expression'', T '';'']])),
     (''type-requirement'', Arrow
       (Diagram
          [Sequence
             [K ''typename'', Optional (NT ''nested-name-specifier''), NT ''type-name'', T '';'']])),
     (''compound-requirement'', Arrow
       (Diagram
          [Sequence
             [T ''{'', NT ''expression'', T ''}'', Optional (K ''noexcept''),
              Optional (NT ''return-type-requirement''), T '';'']])),
     (''return-type-requirement'', Arrow (Diagram [Sequence [T ''->'', NT ''type-constraint'']])),
     (''nested-requirement'', Arrow
       (Diagram [Sequence [K ''requires'', NT ''constraint-expression'', T '';'']])),
     (''postfix-expression'', Arrow
       (Diagram
          [Choice 0
             [NT ''primary-expression'',
              Sequence
                [NT ''postfix-expression'', T ''['', Optional (NT ''expression-list''), T '']''],
              Sequence
                [NT ''postfix-expression'', T ''('', Optional (NT ''expression-list''), T '')''],
              Sequence
                [NT ''simple-type-specifier'', T ''('', Optional (NT ''expression-list''),
                 T '')''],
              Sequence
                [NT ''typename-specifier'', T ''('', Optional (NT ''expression-list''), T '')''],
              Sequence [NT ''simple-type-specifier'', NT ''braced-init-list''],
              Sequence [NT ''typename-specifier'', NT ''braced-init-list''],
              Sequence
                [NT ''postfix-expression'', T ''.'', Optional (K ''template''),
                 NT ''id-expression''],
              Sequence
                [NT ''postfix-expression'', T ''->'', Optional (K ''template''),
                 NT ''id-expression''],
              Sequence [NT ''postfix-expression'', T ''++''],
              Sequence [NT ''postfix-expression'', T ''--''],
              Sequence
                [K ''dynamic_cast'', T ''<'', NT ''type-id'', T ''>'', T ''('', NT ''expression'',
                 T '')''],
              Sequence
                [K ''static_cast'', T ''<'', NT ''type-id'', T ''>'', T ''('', NT ''expression'',
                 T '')''],
              Sequence
                [K ''reinterpret_cast'', T ''<'', NT ''type-id'', T ''>'', T ''('',
                 NT ''expression'', T '')''],
              Sequence
                [K ''const_cast'', T ''<'', NT ''type-id'', T ''>'', T ''('', NT ''expression'',
                 T '')''],
              Sequence [K ''typeid'', T ''('', NT ''expression'', T '')''],
              Sequence [K ''typeid'', T ''('', NT ''type-id'', T '')'']]])),
     (''expression-list'', Arrow (Diagram [NT ''initializer-list''])),
     (''unary-expression'', Arrow
       (Diagram
          [Choice 0
             [NT ''postfix-expression'', Sequence [NT ''unary-operator'', NT ''cast-expression''],
              Sequence [T ''++'', NT ''cast-expression''],
              Sequence [T ''--'', NT ''cast-expression''], NT ''await-expression'',
              Sequence [K ''sizeof'', NT ''unary-expression''],
              Sequence [K ''sizeof'', T ''('', NT ''type-id'', T '')''],
              Sequence [K ''sizeof'', T ''...'', T ''('', NT ''identifier'', T '')''],
              Sequence [K ''alignof'', T ''('', NT ''type-id'', T '')''],
              NT ''noexcept-expression'', NT ''new-expression'', NT ''delete-expression'']])),
     (''unary-operator'', Arrow
       (Diagram [Choice 0 [T ''*'', T ''&'', T ''+'', T ''-'', T ''!'', T ''~'']])),
     (''await-expression'', Arrow (Diagram [Sequence [K ''co_await'', NT ''cast-expression'']])),
     (''noexcept-expression'', Arrow
       (Diagram [Sequence [K ''noexcept'', T ''('', NT ''expression'', T '')'']])),
     (''new-expression'', Arrow
       (Diagram
          [Sequence
             [Optional (T ''::''), K ''new'', Optional (NT ''new-placement''),
              Choice 0 [NT ''new-type-id'', Sequence [T ''('', NT ''type-id'', T '')'']],
              Optional (NT ''new-initializer'')]])),
     (''new-placement'', Arrow (Diagram [Sequence [T ''('', NT ''expression-list'', T '')'']])),
     (''new-type-id'', Arrow
       (Diagram [Sequence [NT ''type-specifier-seq'', Optional (NT ''new-declarator'')]])),
     (''new-declarator'', Arrow
       (Diagram
          [Choice 0
             [Sequence [NT ''ptr-operator'', Optional (NT ''new-declarator'')],
              NT ''noptr-new-declarator'']])),
     (''noptr-new-declarator'', Arrow
       (Diagram
          [Sequence
             [T ''['', Optional (NT ''expression''), T '']'',
              Optional (NT ''attribute-specifier-seq''),
              ZeroOrMore
                (Sequence
                   [T ''['', NT ''constant-expression'', T '']'',
                    Optional (NT ''attribute-specifier-seq'')])]])),
     (''new-initializer'', Arrow
       (Diagram
          [Choice 0
             [Sequence [T ''('', Optional (NT ''expression-list''), T '')''],
              NT ''braced-init-list'']])),
     (''delete-expression'', Arrow
       (Diagram
          [Sequence
             [Optional (T ''::''), K ''delete'', Optional (Sequence [T ''['', T '']'']),
              NT ''cast-expression'']])),
     (''cast-expression'', Arrow
       (Diagram
          [Choice 0
             [NT ''unary-expression'',
              Sequence [T ''('', NT ''type-id'', T '')'', NT ''cast-expression'']]])),
     (''pm-expression'', Arrow
       (Diagram
          [Sequence
             [NT ''cast-expression'',
              ZeroOrMore (Sequence [Choice 0 [T ''.*'', T ''->*''], NT ''cast-expression''])]])),
     (''multiplicative-expression'', Arrow
       (Diagram
          [Sequence
             [NT ''pm-expression'',
              ZeroOrMore (Sequence [Choice 0 [T ''*'', T ''/'', T ''%''], NT ''pm-expression''])]])),
     (''additive-expression'', Arrow
       (Diagram
          [Sequence
             [NT ''multiplicative-expression'',
              ZeroOrMore
                (Sequence [Choice 0 [T ''+'', T ''-''], NT ''multiplicative-expression''])]])),
     (''shift-expression'', Arrow
       (Diagram
          [Sequence
             [NT ''additive-expression'',
              ZeroOrMore (Sequence [Choice 0 [T ''<<'', T ''>>''], NT ''additive-expression''])]])),
     (''compare-expression'', Arrow
       (Diagram
          [Sequence
             [NT ''shift-expression'', ZeroOrMore (Sequence [T ''<=>'', NT ''shift-expression''])]])),
     (''relational-expression'', Arrow
       (Diagram
          [Sequence
             [NT ''compare-expression'',
              ZeroOrMore
                (Sequence
                   [Choice 0 [T ''<'', T ''>'', T ''<='', T ''>=''], NT ''compare-expression''])]])),
     (''equality-expression'', Arrow
       (Diagram
          [Sequence
             [NT ''relational-expression'',
              ZeroOrMore (Sequence [Choice 0 [T ''=='', T ''!=''], NT ''relational-expression''])]])),
     (''and-expression'', Arrow
       (Diagram
          [Sequence
             [NT ''equality-expression'',
              ZeroOrMore (Sequence [T ''&'', NT ''equality-expression''])]])),
     (''exclusive-or-expression'', Arrow
       (Diagram
          [Sequence
             [NT ''and-expression'', ZeroOrMore (Sequence [T ''^'', NT ''and-expression''])]])),
     (''inclusive-or-expression'', Arrow
       (Diagram
          [Sequence
             [NT ''exclusive-or-expression'',
              ZeroOrMore (Sequence [T ''|'', NT ''exclusive-or-expression''])]])),
     (''logical-and-expression'', Arrow
       (Diagram
          [Sequence
             [NT ''inclusive-or-expression'',
              ZeroOrMore (Sequence [T ''&&'', NT ''inclusive-or-expression''])]])),
     (''logical-or-expression'', Arrow
       (Diagram
          [Sequence
             [NT ''logical-and-expression'',
              ZeroOrMore (Sequence [T ''||'', NT ''logical-and-expression''])]])),
     (''conditional-expression'', Arrow
       (Diagram
          [Choice 0
             [NT ''logical-or-expression'',
              Sequence
                [NT ''logical-or-expression'', T ''?'', NT ''expression'', T '':'',
                 NT ''assignment-expression'']]])),
     (''yield-expression'', Arrow
       (Diagram
          [Choice 0
             [Sequence [K ''co_yield'', NT ''assignment-expression''],
              Sequence [K ''co_yield'', NT ''braced-init-list'']]])),
     (''throw-expression'', Arrow
       (Diagram [Sequence [K ''throw'', Optional (NT ''assignment-expression'')]])),
     (''assignment-expression'', Arrow
       (Diagram
          [Choice 0
             [NT ''conditional-expression'', NT ''yield-expression'', NT ''throw-expression'',
              Sequence
                [NT ''logical-or-expression'', NT ''assignment-operator'',
                 NT ''initializer-clause'']]])),
     (''assignment-operator'', Arrow
       (Diagram
          [Choice 0
             [T ''='', T ''*='', T ''/='', T ''%='', T ''+='', T ''-='', T ''>>='', T ''<<='',
              T ''&='', T ''^='', T ''|='']])),
     (''expression'', Arrow
       (Diagram
          [Sequence
             [NT ''assignment-expression'',
              ZeroOrMore (Sequence [T '','', NT ''assignment-expression''])]])),
     (''constant-expression'', Arrow (Diagram [NT ''conditional-expression'']))]\<close>

text \<open>The \<open>rules.set\<close> calls of the section \<open>statements\<close>, in the order of the source.\<close>

definition rules_statements_sd :: "(string \<times> factory) list" where
  \<open>rules_statements_sd =
    [(''statement'', Arrow
       (Diagram
          [Choice 0
             [NT ''labeled-statement'',
              Sequence [Optional (NT ''attribute-specifier-seq''), NT ''expression-statement''],
              Sequence [Optional (NT ''attribute-specifier-seq''), NT ''compound-statement''],
              Sequence [Optional (NT ''attribute-specifier-seq''), NT ''selection-statement''],
              Sequence [Optional (NT ''attribute-specifier-seq''), NT ''iteration-statement''],
              Sequence [Optional (NT ''attribute-specifier-seq''), NT ''jump-statement''],
              NT ''declaration-statement'',
              Sequence [Optional (NT ''attribute-specifier-seq''), NT ''try-block'']]])),
     (''init-statement'', Arrow
       (Diagram
          [Choice 0
             [NT ''expression-statement'', NT ''simple-declaration'', NT ''alias-declaration'']])),
     (''condition'', Arrow
       (Diagram
          [Choice 0
             [NT ''expression'',
              Sequence
                [Optional (NT ''attribute-specifier-seq''), NT ''decl-specifier-seq'',
                 NT ''declarator'', NT ''brace-or-equal-initializer'']]])),
     (''label'', Arrow
       (Diagram
          [Sequence
             [Optional (NT ''attribute-specifier-seq''),
              Choice 0
                [Sequence [NT ''identifier'', T '':''],
                 Sequence [K ''case'', NT ''constant-expression'', T '':''],
                 Sequence [K ''default'', T '':'']]]])),
     (''labeled-statement'', Arrow (Diagram [Sequence [NT ''label'', NT ''statement'']])),
     (''expression-statement'', Arrow (Diagram [Sequence [Optional (NT ''expression''), T '';'']])),
     (''compound-statement'', Arrow
       (Diagram
          [Sequence
             [T ''{'', Optional (NT ''statement-seq''), Optional (NT ''label-seq''), T ''}'']])),
     (''statement-seq'', Arrow (Diagram [OneOrMore (NT ''statement'')])),
     (''label-seq'', Arrow (Diagram [OneOrMore (NT ''label'')])),
     (''selection-statement'', Arrow
       (Diagram
          [Choice 0
             [Sequence
                [K ''if'', Optional (K ''constexpr''), T ''('', Optional (NT ''init-statement''),
                 NT ''condition'', T '')'', NT ''statement''],
              Sequence
                [K ''if'', Optional (K ''constexpr''), T ''('', Optional (NT ''init-statement''),
                 NT ''condition'', T '')'', NT ''statement'', K ''else'', NT ''statement''],
              Sequence [K ''if'', Optional (T ''!''), K ''consteval'', NT ''compound-statement''],
              Sequence
                [K ''if'', Optional (T ''!''), K ''consteval'', NT ''compound-statement'',
                 K ''else'', NT ''statement''],
              Sequence
                [K ''switch'', T ''('', Optional (NT ''init-statement''), NT ''condition'',
                 T '')'', NT ''statement'']]])),
     (''iteration-statement'', Arrow
       (Diagram
          [Choice 0
             [Sequence [K ''while'', T ''('', NT ''condition'', T '')'', NT ''statement''],
              Sequence
                [K ''do'', NT ''statement'', K ''while'', T ''('', NT ''expression'', T '')'',
                 T '';''],
              Sequence
                [K ''for'', T ''('', NT ''init-statement'', Optional (NT ''condition''), T '';'',
                 Optional (NT ''expression''), T '')'', NT ''statement''],
              Sequence
                [K ''for'', T ''('', Optional (NT ''init-statement''),
                 NT ''for-range-declaration'', T '':'', NT ''for-range-initializer'', T '')'',
                 NT ''statement'']]])),
     (''for-range-declaration'', Arrow
       (Diagram
          [Choice 0
             [Sequence
                [Optional (NT ''attribute-specifier-seq''), NT ''decl-specifier-seq'',
                 NT ''declarator''],
              Sequence
                [Optional (NT ''attribute-specifier-seq''), NT ''decl-specifier-seq'',
                 Optional (NT ''ref-qualifier''), T ''['', NT ''identifier-list'', T '']'']]])),
     (''for-range-initializer'', Arrow (Diagram [NT ''expr-or-braced-init-list''])),
     (''jump-statement'', Arrow
       (Diagram
          [Choice 0
             [Sequence [K ''break'', T '';''], Sequence [K ''continue'', T '';''],
              Sequence [K ''return'', Optional (NT ''expr-or-braced-init-list''), T '';''],
              NT ''coroutine-return-statement'',
              Sequence [K ''goto'', NT ''identifier'', T '';'']]])),
     (''coroutine-return-statement'', Arrow
       (Diagram [Sequence [K ''co_return'', Optional (NT ''expr-or-braced-init-list''), T '';'']])),
     (''declaration-statement'', Arrow (Diagram [NT ''block-declaration'']))]\<close>

text \<open>The \<open>rules.set\<close> calls of the section \<open>declarations\<close>, in the order of the source.\<close>

definition rules_declarations_sd :: "(string \<times> factory) list" where
  \<open>rules_declarations_sd =
    [(''declaration-seq'', Arrow (Diagram [OneOrMore (NT ''declaration'')])),
     (''declaration'', Arrow
       (Diagram [Choice 0 [NT ''name-declaration'', NT ''special-declaration'']])),
     (''name-declaration'', Arrow
       (Diagram
          [Choice 0
             [NT ''block-declaration'', NT ''nodeclspec-function-declaration'',
              NT ''function-definition'', NT ''template-declaration'', NT ''deduction-guide'',
              NT ''linkage-specification'', NT ''namespace-definition'', NT ''empty-declaration'',
              NT ''attribute-declaration'', NT ''module-import-declaration'']])),
     (''special-declaration'', Arrow
       (Diagram
          [Choice 0
             [NT ''explicit-instantiation'', NT ''explicit-specialization'',
              NT ''export-declaration'']])),
     (''block-declaration'', Arrow
       (Diagram
          [Choice 0
             [NT ''simple-declaration'', NT ''asm-declaration'',
              NT ''namespace-alias-definition'', NT ''using-declaration'',
              NT ''using-enum-declaration'', NT ''using-directive'',
              NT ''static_assert-declaration'', NT ''alias-declaration'',
              NT ''opaque-enum-declaration'']])),
     (''nodeclspec-function-declaration'', Arrow
       (Diagram
          [Sequence [Optional (NT ''attribute-specifier-seq''), NT ''declarator'', T '';'']])),
     (''alias-declaration'', Arrow
       (Diagram
          [Sequence
             [K ''using'', NT ''identifier'', Optional (NT ''attribute-specifier-seq''), T ''='',
              NT ''defining-type-id'', T '';'']])),
     (''simple-declaration'', Arrow
       (Diagram
          [Choice 0
             [Sequence
                [NT ''decl-specifier-seq'', Optional (NT ''init-declarator-list''), T '';''],
              Sequence
                [NT ''attribute-specifier-seq'', NT ''decl-specifier-seq'',
                 NT ''init-declarator-list'', T '';''],
              Sequence
                [Optional (NT ''attribute-specifier-seq''), NT ''decl-specifier-seq'',
                 Optional (NT ''ref-qualifier''), T ''['', NT ''identifier-list'', T '']'',
                 NT ''initializer'', T '';'']]])),
     (''static_assert-declaration'', Arrow
       (Diagram
          [Choice 0
             [Sequence
                [K ''static_assert'', T ''('', NT ''constant-expression'', T '')'', T '';''],
              Sequence
                [K ''static_assert'', T ''('', NT ''constant-expression'', T '','',
                 NT ''string-literal'', T '')'', T '';'']]])),
     (''empty-declaration'', Arrow (Diagram [T '';''])),
     (''attribute-declaration'', Arrow
       (Diagram [Sequence [NT ''attribute-specifier-seq'', T '';'']])),
     (''decl-specifier'', Arrow
       (Diagram
          [Choice 0
             [NT ''storage-class-specifier'', NT ''defining-type-specifier'',
              NT ''function-specifier'', K ''friend'', K ''typedef'', K ''constexpr'',
              K ''consteval'', K ''constinit'', K ''inline'']])),
     (''decl-specifier-seq'', Arrow
       (Diagram
          [OneOrMore
             (Sequence [NT ''decl-specifier'', Optional (NT ''attribute-specifier-seq'')])])),
     (''storage-class-specifier'', Arrow
       (Diagram [Choice 0 [K ''static'', K ''thread_local'', K ''extern'', K ''mutable'']])),
     (''function-specifier'', Arrow
       (Diagram [Choice 0 [K ''virtual'', NT ''explicit-specifier'']])),
     (''explicit-specifier'', Arrow
       (Diagram
          [Choice 0
             [Sequence [K ''explicit'', T ''('', NT ''constant-expression'', T '')''],
              K ''explicit'']])),
     (''type-specifier'', Arrow
       (Diagram
          [Choice 0
             [NT ''simple-type-specifier'', NT ''elaborated-type-specifier'',
              NT ''typename-specifier'', NT ''cv-qualifier'']])),
     (''type-specifier-seq'', Arrow
       (Diagram
          [OneOrMore
             (Sequence [NT ''type-specifier'', Optional (NT ''attribute-specifier-seq'')])])),
     (''defining-type-specifier'', Arrow
       (Diagram [Choice 0 [NT ''type-specifier'', NT ''class-specifier'', NT ''enum-specifier'']])),
     (''defining-type-specifier-seq'', Arrow
       (Diagram
          [OneOrMore
             (Sequence
                [NT ''defining-type-specifier'', Optional (NT ''attribute-specifier-seq'')])])),
     (''simple-type-specifier'', Arrow
       (Diagram
          [Choice 0
             [Sequence [Optional (NT ''nested-name-specifier''), NT ''type-name''],
              Sequence [NT ''nested-name-specifier'', K ''template'', NT ''simple-template-id''],
              NT ''decltype-specifier'', NT ''placeholder-type-specifier'',
              Sequence [Optional (NT ''nested-name-specifier''), NT ''template-name''],
              K ''char'', K ''char8_t'', K ''char16_t'', K ''char32_t'', K ''wchar_t'',
              K ''bool'', K ''short'', K ''int'', K ''long'', K ''signed'', K ''unsigned'',
              K ''float'', K ''double'', K ''void'']])),
     (''type-name'', Arrow
       (Diagram [Choice 0 [NT ''class-name'', NT ''enum-name'', NT ''typedef-name'']])),
     (''elaborated-type-specifier'', Arrow
       (Diagram
          [Choice 0
             [Sequence
                [NT ''class-key'', Optional (NT ''attribute-specifier-seq''),
                 Optional (NT ''nested-name-specifier''), NT ''identifier''],
              Sequence [NT ''class-key'', NT ''simple-template-id''],
              Sequence
                [NT ''class-key'', NT ''nested-name-specifier'', Optional (K ''template''),
                 NT ''simple-template-id''],
              Sequence [K ''enum'', Optional (NT ''nested-name-specifier''), NT ''identifier'']]])),
     (''decltype-specifier'', Arrow
       (Diagram [Sequence [K ''decltype'', T ''('', NT ''expression'', T '')'']])),
     (''placeholder-type-specifier'', Arrow
       (Diagram
          [Choice 0
             [Sequence [Optional (NT ''type-constraint''), K ''auto''],
              Sequence
                [Optional (NT ''type-constraint''), K ''decltype'', T ''('', K ''auto'', T '')'']]])),
     (''init-declarator-list'', Arrow
       (Diagram
          [Sequence
             [NT ''init-declarator'', ZeroOrMore (Sequence [T '','', NT ''init-declarator''])]])),
     (''init-declarator'', Arrow
       (Diagram
          [Choice 0
             [Sequence [NT ''declarator'', Optional (NT ''initializer'')],
              Sequence [NT ''declarator'', NT ''requires-clause'']]])),
     (''declarator'', Arrow
       (Diagram
          [Choice 0
             [NT ''ptr-declarator'',
              Sequence
                [NT ''noptr-declarator'', NT ''parameters-and-qualifiers'',
                 NT ''trailing-return-type'']]])),
     (''ptr-declarator'', Arrow
       (Diagram
          [Choice 0
             [NT ''noptr-declarator'', Sequence [NT ''ptr-operator'', NT ''ptr-declarator'']]])),
     (''noptr-declarator'', Arrow
       (Diagram
          [Sequence
             [Choice 0
                [Sequence [NT ''declarator-id'', Optional (NT ''attribute-specifier-seq'')],
                 Sequence [T ''('', NT ''ptr-declarator'', T '')'']],
              ZeroOrMore
                (Choice 0
                   [NT ''parameters-and-qualifiers'',
                    Sequence
                      [T ''['', Optional (NT ''constant-expression''), T '']'',
                       Optional (NT ''attribute-specifier-seq'')]])]])),
     (''parameters-and-qualifiers'', Arrow
       (Diagram
          [Sequence
             [T ''('', NT ''parameter-declaration-clause'', T '')'',
              Optional (NT ''cv-qualifier-seq''), Optional (NT ''ref-qualifier''),
              Optional (NT ''noexcept-specifier''), Optional (NT ''attribute-specifier-seq'')]])),
     (''trailing-return-type'', Arrow (Diagram [Sequence [T ''->'', NT ''type-id'']])),
     (''ptr-operator'', Arrow
       (Diagram
          [Choice 0
             [Sequence
                [T ''*'', Optional (NT ''attribute-specifier-seq''),
                 Optional (NT ''cv-qualifier-seq'')],
              Sequence [T ''&'', Optional (NT ''attribute-specifier-seq'')],
              Sequence [T ''&&'', Optional (NT ''attribute-specifier-seq'')],
              Sequence
                [NT ''nested-name-specifier'', T ''*'', Optional (NT ''attribute-specifier-seq''),
                 Optional (NT ''cv-qualifier-seq'')]]])),
     (''cv-qualifier-seq'', Arrow (Diagram [OneOrMore (NT ''cv-qualifier'')])),
     (''cv-qualifier'', Arrow (Diagram [Choice 0 [K ''const'', K ''volatile'']])),
     (''ref-qualifier'', Arrow (Diagram [Choice 0 [T ''&'', T ''&&'']])),
     (''declarator-id'', Arrow (Diagram [Sequence [Optional (T ''...''), NT ''id-expression'']])),
     (''type-id'', Arrow
       (Diagram [Sequence [NT ''type-specifier-seq'', Optional (NT ''abstract-declarator'')]])),
     (''defining-type-id'', Arrow
       (Diagram
          [Sequence [NT ''defining-type-specifier-seq'', Optional (NT ''abstract-declarator'')]])),
     (''abstract-declarator'', Arrow
       (Diagram
          [Choice 0
             [NT ''ptr-abstract-declarator'',
              Sequence
                [Optional (NT ''noptr-abstract-declarator''), NT ''parameters-and-qualifiers'',
                 NT ''trailing-return-type''],
              NT ''abstract-pack-declarator'']])),
     (''ptr-abstract-declarator'', Arrow
       (Diagram
          [Choice 0
             [NT ''noptr-abstract-declarator'',
              Sequence [NT ''ptr-operator'', Optional (NT ''ptr-abstract-declarator'')]]])),
     (''noptr-abstract-declarator'', Arrow
       (Diagram
          [Sequence
             [Optional (Sequence [T ''('', NT ''ptr-abstract-declarator'', T '')'']),
              ZeroOrMore
                (Choice 0
                   [NT ''parameters-and-qualifiers'',
                    Sequence
                      [T ''['', Optional (NT ''constant-expression''), T '']'',
                       Optional (NT ''attribute-specifier-seq'')]])]])),
     (''abstract-pack-declarator'', Arrow
       (Diagram
          [Choice 0
             [NT ''noptr-abstract-pack-declarator'',
              Sequence [NT ''ptr-operator'', NT ''abstract-pack-declarator'']]])),
     (''noptr-abstract-pack-declarator'', Arrow
       (Diagram
          [Sequence
             [T ''...'',
              ZeroOrMore
                (Choice 0
                   [NT ''parameters-and-qualifiers'',
                    Sequence
                      [T ''['', Optional (NT ''constant-expression''), T '']'',
                       Optional (NT ''attribute-specifier-seq'')]])]])),
     (''parameter-declaration-clause'', Arrow
       (Diagram
          [Choice 0
             [Sequence [Optional (NT ''parameter-declaration-list''), Optional (T ''...'')],
              Sequence [NT ''parameter-declaration-list'', T '','', T ''...'']]])),
     (''parameter-declaration-list'', Arrow
       (Diagram
          [Sequence
             [NT ''parameter-declaration'',
              ZeroOrMore (Sequence [T '','', NT ''parameter-declaration''])]])),
     (''parameter-declaration'', Arrow
       (Diagram
          [Choice 0
             [Sequence
                [Optional (NT ''attribute-specifier-seq''), Optional (K ''this''),
                 NT ''decl-specifier-seq'', NT ''declarator''],
              Sequence
                [Optional (NT ''attribute-specifier-seq''), NT ''decl-specifier-seq'',
                 NT ''declarator'', T ''='', NT ''initializer-clause''],
              Sequence
                [Optional (NT ''attribute-specifier-seq''), Optional (K ''this''),
                 NT ''decl-specifier-seq'', Optional (NT ''abstract-declarator'')],
              Sequence
                [Optional (NT ''attribute-specifier-seq''), NT ''decl-specifier-seq'',
                 Optional (NT ''abstract-declarator''), T ''='', NT ''initializer-clause'']]])),
     (''initializer'', Arrow
       (Diagram
          [Choice 0
             [NT ''brace-or-equal-initializer'',
              Sequence [T ''('', NT ''expression-list'', T '')'']]])),
     (''brace-or-equal-initializer'', Arrow
       (Diagram
          [Choice 0 [Sequence [T ''='', NT ''initializer-clause''], NT ''braced-init-list'']])),
     (''initializer-clause'', Arrow
       (Diagram [Choice 0 [NT ''assignment-expression'', NT ''braced-init-list'']])),
     (''braced-init-list'', Arrow
       (Diagram
          [Choice 0
             [Sequence [T ''{'', NT ''initializer-list'', Optional (T '',''), T ''}''],
              Sequence [T ''{'', NT ''designated-initializer-list'', Optional (T '',''), T ''}''],
              Sequence [T ''{'', T ''}'']]])),
     (''initializer-list'', Arrow
       (Diagram
          [Sequence
             [NT ''initializer-clause'', Optional (T ''...''),
              ZeroOrMore (Sequence [T '','', NT ''initializer-clause'', Optional (T ''...'')])]])),
     (''designated-initializer-list'', Arrow
       (Diagram
          [Sequence
             [NT ''designated-initializer-clause'',
              ZeroOrMore (Sequence [T '','', NT ''designated-initializer-clause''])]])),
     (''designated-initializer-clause'', Arrow
       (Diagram [Sequence [NT ''designator'', NT ''brace-or-equal-initializer'']])),
     (''designator'', Arrow (Diagram [Sequence [T ''.'', NT ''identifier'']])),
     (''expr-or-braced-init-list'', Arrow
       (Diagram [Choice 0 [NT ''expression'', NT ''braced-init-list'']])),
     (''function-definition'', Arrow
       (Diagram
          [Choice 0
             [Sequence
                [Optional (NT ''attribute-specifier-seq''), Optional (NT ''decl-specifier-seq''),
                 NT ''declarator'', Optional (NT ''virt-specifier-seq''), NT ''function-body''],
              Sequence
                [Optional (NT ''attribute-specifier-seq''), Optional (NT ''decl-specifier-seq''),
                 NT ''declarator'', NT ''requires-clause'', NT ''function-body'']]])),
     (''function-body'', Arrow
       (Diagram
          [Choice 0
             [Sequence [Optional (NT ''ctor-initializer''), NT ''compound-statement''],
              NT ''function-try-block'', Sequence [T ''='', K ''default'', T '';''],
              Sequence [T ''='', K ''delete'', T '';'']]])),
     (''enum-specifier'', Arrow
       (Diagram
          [Choice 0
             [Sequence [NT ''enum-head'', T ''{'', Optional (NT ''enumerator-list''), T ''}''],
              Sequence [NT ''enum-head'', T ''{'', NT ''enumerator-list'', T '','', T ''}'']]])),
     (''enum-head'', Arrow
       (Diagram
          [Sequence
             [NT ''enum-key'', Optional (NT ''attribute-specifier-seq''),
              Optional (NT ''enum-head-name''), Optional (NT ''enum-base'')]])),
     (''enum-head-name'', Arrow
       (Diagram [Sequence [Optional (NT ''nested-name-specifier''), NT ''identifier'']])),
     (''opaque-enum-declaration'', Arrow
       (Diagram
          [Sequence
             [NT ''enum-key'', Optional (NT ''attribute-specifier-seq''), NT ''enum-head-name'',
              Optional (NT ''enum-base''), T '';'']])),
     (''enum-key'', Arrow
       (Diagram
          [Choice 0
             [K ''enum'', Sequence [K ''enum'', K ''class''], Sequence [K ''enum'', K ''struct'']]])),
     (''enum-base'', Arrow (Diagram [Sequence [T '':'', NT ''type-specifier-seq'']])),
     (''enumerator-list'', Arrow
       (Diagram
          [Sequence
             [NT ''enumerator-definition'',
              ZeroOrMore (Sequence [T '','', NT ''enumerator-definition''])]])),
     (''enumerator-definition'', Arrow
       (Diagram
          [Choice 0
             [NT ''enumerator'',
              Sequence [NT ''enumerator'', T ''='', NT ''constant-expression'']]])),
     (''enumerator'', Arrow
       (Diagram [Sequence [NT ''identifier'', Optional (NT ''attribute-specifier-seq'')]])),
     (''using-enum-declaration'', Arrow
       (Diagram [Sequence [K ''using'', K ''enum'', NT ''using-enum-declarator'', T '';'']])),
     (''using-enum-declarator'', Arrow
       (Diagram
          [Choice 0
             [Sequence [Optional (NT ''nested-name-specifier''), NT ''identifier''],
              Sequence [Optional (NT ''nested-name-specifier''), NT ''simple-template-id'']]])),
     (''namespace-definition'', Arrow
       (Diagram
          [Choice 0
             [NT ''named-namespace-definition'', NT ''unnamed-namespace-definition'',
              NT ''nested-namespace-definition'']])),
     (''named-namespace-definition'', Arrow
       (Diagram
          [Sequence
             [Optional (K ''inline''), K ''namespace'', Optional (NT ''attribute-specifier-seq''),
              NT ''identifier'', T ''{'', NT ''namespace-body'', T ''}'']])),
     (''unnamed-namespace-definition'', Arrow
       (Diagram
          [Sequence
             [Optional (K ''inline''), K ''namespace'', Optional (NT ''attribute-specifier-seq''),
              T ''{'', NT ''namespace-body'', T ''}'']])),
     (''nested-namespace-definition'', Arrow
       (Diagram
          [Sequence
             [K ''namespace'', NT ''enclosing-namespace-specifier'', T ''::'',
              Optional (K ''inline''), NT ''identifier'', T ''{'', NT ''namespace-body'', T ''}'']])),
     (''enclosing-namespace-specifier'', Arrow
       (Diagram
          [Sequence
             [NT ''identifier'',
              ZeroOrMore (Sequence [T ''::'', Optional (K ''inline''), NT ''identifier''])]])),
     (''namespace-body'', Arrow (Diagram [Optional (NT ''declaration-seq'')])),
     (''namespace-alias-definition'', Arrow
       (Diagram
          [Sequence
             [K ''namespace'', NT ''identifier'', T ''='', NT ''qualified-namespace-specifier'',
              T '';'']])),
     (''qualified-namespace-specifier'', Arrow
       (Diagram [Sequence [Optional (NT ''nested-name-specifier''), NT ''namespace-name'']])),
     (''using-directive'', Arrow
       (Diagram
          [Sequence
             [Optional (NT ''attribute-specifier-seq''), K ''using'', K ''namespace'',
              Optional (NT ''nested-name-specifier''), NT ''namespace-name'', T '';'']])),
     (''using-declaration'', Arrow
       (Diagram [Sequence [K ''using'', NT ''using-declarator-list'', T '';'']])),
     (''using-declarator-list'', Arrow
       (Diagram
          [Sequence
             [NT ''using-declarator'', Optional (T ''...''),
              ZeroOrMore (Sequence [T '','', NT ''using-declarator'', Optional (T ''...'')])]])),
     (''using-declarator'', Arrow
       (Diagram
          [Sequence
             [Optional (K ''typename''), NT ''nested-name-specifier'', NT ''unqualified-id'']])),
     (''asm-declaration'', Arrow
       (Diagram
          [Sequence
             [Optional (NT ''attribute-specifier-seq''), K ''asm'', T ''('',
              NT ''string-literal'', T '')'', T '';'']])),
     (''linkage-specification'', Arrow
       (Diagram
          [Choice 0
             [Sequence
                [K ''extern'', NT ''string-literal'', T ''{'', Optional (NT ''declaration-seq''),
                 T ''}''],
              Sequence [K ''extern'', NT ''string-literal'', NT ''name-declaration'']]])),
     (''attribute-specifier-seq'', Arrow (Diagram [OneOrMore (NT ''attribute-specifier'')])),
     (''attribute-specifier'', Arrow
       (Diagram
          [Choice 0
             [Sequence
                [T ''[['', Optional (NT ''attribute-using-prefix''), NT ''attribute-list'',
                 T '']]''],
              NT ''alignment-specifier'']])),
     (''alignment-specifier'', Arrow
       (Diagram
          [Choice 0
             [Sequence [K ''alignas'', T ''('', NT ''type-id'', Optional (T ''...''), T '')''],
              Sequence
                [K ''alignas'', T ''('', NT ''constant-expression'', Optional (T ''...''),
                 T '')'']]])),
     (''attribute-using-prefix'', Arrow
       (Diagram [Sequence [K ''using'', NT ''attribute-namespace'', T '':'']])),
     (''attribute-list'', Arrow
       (Diagram
          [Sequence
             [Optional (NT ''attribute''),
              ZeroOrMore (Sequence [T '','', Optional (NT ''attribute'')]),
              ZeroOrMore (Sequence [NT ''attribute'', T ''...''])]])),
     (''attribute'', Arrow
       (Diagram [Sequence [NT ''attribute-token'', Optional (NT ''attribute-argument-clause'')]])),
     (''attribute-token'', Arrow
       (Diagram [Choice 0 [NT ''identifier'', NT ''attribute-scoped-token'']])),
     (''attribute-scoped-token'', Arrow
       (Diagram [Sequence [NT ''attribute-namespace'', T ''::'', NT ''identifier'']])),
     (''attribute-namespace'', Arrow (Diagram [NT ''identifier''])),
     (''attribute-argument-clause'', Arrow
       (Diagram [Sequence [T ''('', Optional (NT ''balanced-token-seq''), T '')'']])),
     (''balanced-token-seq'', Arrow (Diagram [OneOrMore (NT ''balanced-token'')])),
     (''balanced-token'', Arrow
       (Diagram
          [Choice 0
             [Sequence [T ''('', Optional (NT ''balanced-token-seq''), T '')''],
              Sequence [T ''['', Optional (NT ''balanced-token-seq''), T '']''],
              Sequence [T ''{'', Optional (NT ''balanced-token-seq''), T ''}''],
              Comment ''any token except ( ) [ ] { }'']]))]\<close>

text \<open>The \<open>rules.set\<close> calls of the section \<open>modules\<close>, in the order of the source.\<close>

definition rules_modules_sd :: "(string \<times> factory) list" where
  \<open>rules_modules_sd =
    [(''module-declaration'', Arrow
       (Diagram
          [Sequence
             [Optional (NT ''export-keyword''), NT ''module-keyword'', NT ''module-name'',
              Optional (NT ''module-partition''), Optional (NT ''attribute-specifier-seq''),
              T '';'']])),
     (''module-name'', Arrow
       (Diagram [Sequence [Optional (NT ''module-name-qualifier''), NT ''identifier'']])),
     (''module-partition'', Arrow
       (Diagram [Sequence [T '':'', Optional (NT ''module-name-qualifier''), NT ''identifier'']])),
     (''module-name-qualifier'', Arrow
       (Diagram [OneOrMore (Sequence [NT ''identifier'', T ''.''])])),
     (''export-declaration'', Arrow
       (Diagram
          [Choice 0
             [Sequence [K ''export'', NT ''name-declaration''],
              Sequence [K ''export'', T ''{'', Optional (NT ''declaration-seq''), T ''}''],
              Sequence [NT ''export-keyword'', NT ''module-import-declaration'']]])),
     (''module-import-declaration'', Arrow
       (Diagram
          [Choice 0
             [Sequence
                [NT ''import-keyword'', NT ''module-name'',
                 Optional (NT ''attribute-specifier-seq''), T '';''],
              Sequence
                [NT ''import-keyword'', NT ''module-partition'',
                 Optional (NT ''attribute-specifier-seq''), T '';''],
              Sequence
                [NT ''import-keyword'', NT ''header-name'',
                 Optional (NT ''attribute-specifier-seq''), T '';'']]])),
     (''global-module-fragment'', Arrow
       (Diagram [Sequence [NT ''module-keyword'', T '';'', Optional (NT ''declaration-seq'')]])),
     (''private-module-fragment'', Arrow
       (Diagram
          [Sequence
             [NT ''module-keyword'', T '':'', K ''private'', T '';'',
              Optional (NT ''declaration-seq'')]])),
     (''import-keyword'', Arrow (Diagram [K ''import''])),
     (''module-keyword'', Arrow (Diagram [K ''module''])),
     (''export-keyword'', Arrow (Diagram [K ''export'']))]\<close>

text \<open>The \<open>rules.set\<close> calls of the section \<open>classes\<close>, in the order of the source.\<close>

definition rules_classes_sd :: "(string \<times> factory) list" where
  \<open>rules_classes_sd =
    [(''class-specifier'', Arrow
       (Diagram
          [Sequence [NT ''class-head'', T ''{'', Optional (NT ''member-specification''), T ''}'']])),
     (''class-head'', Arrow
       (Diagram
          [Choice 0
             [Sequence
                [NT ''class-key'', Optional (NT ''attribute-specifier-seq''),
                 NT ''class-head-name'', Optional (NT ''class-virt-specifier''),
                 Optional (NT ''base-clause'')],
              Sequence
                [NT ''class-key'', Optional (NT ''attribute-specifier-seq''),
                 Optional (NT ''base-clause'')]]])),
     (''class-head-name'', Arrow
       (Diagram [Sequence [Optional (NT ''nested-name-specifier''), NT ''class-name'']])),
     (''class-virt-specifier'', Arrow (Diagram [K ''final''])),
     (''class-key'', Arrow (Diagram [Choice 0 [K ''class'', K ''struct'', K ''union'']])),
     (''member-specification'', Arrow
       (Diagram
          [OneOrMore
             (Choice 0 [NT ''member-declaration'', Sequence [NT ''access-specifier'', T '':'']])])),
     (''member-declaration'', Arrow
       (Diagram
          [Choice 0
             [Sequence
                [Optional (NT ''attribute-specifier-seq''), Optional (NT ''decl-specifier-seq''),
                 Optional (NT ''member-declarator-list''), T '';''],
              NT ''function-definition'', NT ''using-declaration'', NT ''using-enum-declaration'',
              NT ''static_assert-declaration'', NT ''template-declaration'',
              NT ''explicit-specialization'', NT ''deduction-guide'', NT ''alias-declaration'',
              NT ''opaque-enum-declaration'', NT ''empty-declaration'']])),
     (''member-declarator-list'', Arrow
       (Diagram
          [Sequence
             [NT ''member-declarator'', ZeroOrMore (Sequence [T '','', NT ''member-declarator''])]])),
     (''member-declarator'', Arrow
       (Diagram
          [Choice 0
             [Sequence
                [NT ''declarator'', Optional (NT ''virt-specifier-seq''),
                 Optional (NT ''pure-specifier'')],
              Sequence [NT ''declarator'', NT ''requires-clause''],
              Sequence [NT ''declarator'', Optional (NT ''brace-or-equal-initializer'')],
              Sequence
                [Optional (NT ''identifier''), Optional (NT ''attribute-specifier-seq''), T '':'',
                 NT ''constant-expression'', Optional (NT ''brace-or-equal-initializer'')]]])),
     (''virt-specifier-seq'', Arrow (Diagram [OneOrMore (NT ''virt-specifier'')])),
     (''virt-specifier'', Arrow (Diagram [Choice 0 [K ''override'', K ''final'']])),
     (''pure-specifier'', Arrow (Diagram [Sequence [T ''='', T ''0'']])),
     (''conversion-function-id'', Arrow
       (Diagram [Sequence [K ''operator'', NT ''conversion-type-id'']])),
     (''conversion-type-id'', Arrow
       (Diagram [Sequence [NT ''type-specifier-seq'', Optional (NT ''conversion-declarator'')]])),
     (''conversion-declarator'', Arrow
       (Diagram [Sequence [NT ''ptr-operator'', Optional (NT ''conversion-declarator'')]])),
     (''base-clause'', Arrow (Diagram [Sequence [T '':'', NT ''base-specifier-list'']])),
     (''base-specifier-list'', Arrow
       (Diagram
          [Sequence
             [NT ''base-specifier'', Optional (T ''...''),
              ZeroOrMore (Sequence [T '','', NT ''base-specifier'', Optional (T ''...'')])]])),
     (''base-specifier'', Arrow
       (Diagram
          [Choice 0
             [Sequence [Optional (NT ''attribute-specifier-seq''), NT ''class-or-decltype''],
              Sequence
                [Optional (NT ''attribute-specifier-seq''), K ''virtual'',
                 Optional (NT ''access-specifier''), NT ''class-or-decltype''],
              Sequence
                [Optional (NT ''attribute-specifier-seq''), NT ''access-specifier'',
                 Optional (K ''virtual''), NT ''class-or-decltype'']]])),
     (''class-or-decltype'', Arrow
       (Diagram
          [Choice 0
             [Sequence [Optional (NT ''nested-name-specifier''), NT ''type-name''],
              Sequence [NT ''nested-name-specifier'', K ''template'', NT ''simple-template-id''],
              NT ''decltype-specifier'']])),
     (''access-specifier'', Arrow
       (Diagram [Choice 0 [K ''private'', K ''protected'', K ''public'']])),
     (''ctor-initializer'', Arrow (Diagram [Sequence [T '':'', NT ''mem-initializer-list'']])),
     (''mem-initializer-list'', Arrow
       (Diagram
          [Sequence
             [NT ''mem-initializer'', Optional (T ''...''),
              ZeroOrMore (Sequence [T '','', NT ''mem-initializer'', Optional (T ''...'')])]])),
     (''mem-initializer'', Arrow
       (Diagram
          [Choice 0
             [Sequence
                [NT ''mem-initializer-id'', T ''('', Optional (NT ''expression-list''), T '')''],
              Sequence [NT ''mem-initializer-id'', NT ''braced-init-list'']]])),
     (''mem-initializer-id'', Arrow
       (Diagram [Choice 0 [NT ''class-or-decltype'', NT ''identifier'']]))]\<close>

text \<open>The \<open>rules.set\<close> calls of the section \<open>overloading\<close>, in the order of the source.\<close>

definition rules_overloading_sd :: "(string \<times> factory) list" where
  \<open>rules_overloading_sd =
    [(''operator-function-id'', Arrow (Diagram [Sequence [K ''operator'', NT ''operator'']])),
     (''operator'', Arrow
       (Diagram
          [Choice 0
             [K ''new'', K ''delete'', T ''new[]'', T ''delete[]'', K ''co_await'', T ''()'',
              T ''[]'', T ''->'', T ''->*'', T ''~'', T ''!'', T ''+'', T ''-'', T ''*'', T ''/'',
              T ''%'', T ''^'', T ''&'', T ''|'', T ''='', T ''+='', T ''-='', T ''*='', T ''/='',
              T ''%='', T ''^='', T ''&='', T ''|='', T ''=='', T ''!='', T ''<'', T ''>'',
              T ''<='', T ''>='', T ''<=>'', T ''&&'', T ''||'', T ''<<'', T ''>>'', T ''<<='',
              T ''>>='', T ''++'', T ''--'', T '','']])),
     (''literal-operator-id'', Arrow
       (Diagram
          [Choice 0
             [Sequence [K ''operator'', NT ''string-literal'', NT ''identifier''],
              Sequence [K ''operator'', NT ''user-defined-string-literal'']]]))]\<close>

text \<open>The \<open>rules.set\<close> calls of the section \<open>templates\<close>, in the order of the source.\<close>

definition rules_templates_sd :: "(string \<times> factory) list" where
  \<open>rules_templates_sd =
    [(''template-declaration'', Arrow
       (Diagram
          [Choice 0
             [Sequence [NT ''template-head'', NT ''declaration''],
              Sequence [NT ''template-head'', NT ''concept-definition'']]])),
     (''template-head'', Arrow
       (Diagram
          [Sequence
             [K ''template'', T ''<'', NT ''template-parameter-list'', T ''>'',
              Optional (NT ''requires-clause'')]])),
     (''template-parameter-list'', Arrow
       (Diagram
          [Sequence
             [NT ''template-parameter'',
              ZeroOrMore (Sequence [T '','', NT ''template-parameter''])]])),
     (''requires-clause'', Arrow
       (Diagram [Sequence [K ''requires'', NT ''constraint-logical-or-expression'']])),
     (''constraint-logical-or-expression'', Arrow
       (Diagram
          [Sequence
             [NT ''constraint-logical-and-expression'',
              ZeroOrMore (Sequence [T ''||'', NT ''constraint-logical-and-expression''])]])),
     (''constraint-logical-and-expression'', Arrow
       (Diagram
          [Sequence
             [NT ''primary-expression'',
              ZeroOrMore (Sequence [T ''&&'', NT ''primary-expression''])]])),
     (''template-parameter'', Arrow
       (Diagram [Choice 0 [NT ''type-parameter'', NT ''parameter-declaration'']])),
     (''type-parameter'', Arrow
       (Diagram
          [Choice 0
             [Sequence
                [NT ''type-parameter-key'', Optional (T ''...''), Optional (NT ''identifier'')],
              Sequence
                [NT ''type-parameter-key'', Optional (NT ''identifier''), T ''='', NT ''type-id''],
              Sequence
                [NT ''type-constraint'', Optional (T ''...''), Optional (NT ''identifier'')],
              Sequence
                [NT ''type-constraint'', Optional (NT ''identifier''), T ''='', NT ''type-id''],
              Sequence
                [NT ''template-head'', NT ''type-parameter-key'', Optional (T ''...''),
                 Optional (NT ''identifier'')],
              Sequence
                [NT ''template-head'', NT ''type-parameter-key'', Optional (NT ''identifier''),
                 T ''='', NT ''id-expression'']]])),
     (''type-parameter-key'', Arrow (Diagram [Choice 0 [K ''class'', K ''typename'']])),
     (''type-constraint'', Arrow
       (Diagram
          [Choice 0
             [Sequence [Optional (NT ''nested-name-specifier''), NT ''concept-name''],
              Sequence
                [Optional (NT ''nested-name-specifier''), NT ''concept-name'', T ''<'',
                 Optional (NT ''template-argument-list''), T ''>'']]])),
     (''simple-template-id'', Arrow
       (Diagram
          [Sequence
             [NT ''template-name'', T ''<'', Optional (NT ''template-argument-list''), T ''>'']])),
     (''template-id'', Arrow
       (Diagram
          [Choice 0
             [NT ''simple-template-id'',
              Sequence
                [NT ''operator-function-id'', T ''<'', Optional (NT ''template-argument-list''),
                 T ''>''],
              Sequence
                [NT ''literal-operator-id'', T ''<'', Optional (NT ''template-argument-list''),
                 T ''>'']]])),
     (''template-argument-list'', Arrow
       (Diagram
          [Sequence
             [NT ''template-argument'', Optional (T ''...''),
              ZeroOrMore (Sequence [T '','', NT ''template-argument'', Optional (T ''...'')])]])),
     (''template-argument'', Arrow
       (Diagram [Choice 0 [NT ''constant-expression'', NT ''type-id'', NT ''id-expression'']])),
     (''constraint-expression'', Arrow (Diagram [NT ''logical-or-expression''])),
     (''deduction-guide'', Arrow
       (Diagram
          [Sequence
             [Optional (NT ''explicit-specifier''), NT ''template-name'', T ''('',
              NT ''parameter-declaration-clause'', T '')'', T ''->'', NT ''simple-template-id'',
              T '';'']])),
     (''concept-definition'', Arrow
       (Diagram
          [Sequence
             [K ''concept'', NT ''concept-name'', Optional (NT ''attribute-specifier-seq''),
              T ''='', NT ''constraint-expression'', T '';'']])),
     (''concept-name'', Arrow (Diagram [NT ''identifier''])),
     (''typename-specifier'', Arrow
       (Diagram
          [Choice 0
             [Sequence [K ''typename'', NT ''nested-name-specifier'', NT ''identifier''],
              Sequence
                [K ''typename'', NT ''nested-name-specifier'', Optional (K ''template''),
                 NT ''simple-template-id'']]])),
     (''explicit-instantiation'', Arrow
       (Diagram [Sequence [Optional (K ''extern''), K ''template'', NT ''declaration'']])),
     (''explicit-specialization'', Arrow
       (Diagram [Sequence [K ''template'', T ''<'', T ''>'', NT ''declaration'']]))]\<close>

text \<open>The \<open>rules.set\<close> calls of the section \<open>exceptions\<close>, in the order of the source.\<close>

definition rules_exceptions_sd :: "(string \<times> factory) list" where
  \<open>rules_exceptions_sd =
    [(''try-block'', Arrow
       (Diagram [Sequence [K ''try'', NT ''compound-statement'', NT ''handler-seq'']])),
     (''function-try-block'', Arrow
       (Diagram
          [Sequence
             [K ''try'', Optional (NT ''ctor-initializer''), NT ''compound-statement'',
              NT ''handler-seq'']])),
     (''handler-seq'', Arrow (Diagram [OneOrMore (NT ''handler'')])),
     (''handler'', Arrow
       (Diagram
          [Sequence
             [K ''catch'', T ''('', NT ''exception-declaration'', T '')'',
              NT ''compound-statement'']])),
     (''exception-declaration'', Arrow
       (Diagram
          [Choice 0
             [Sequence
                [Optional (NT ''attribute-specifier-seq''), NT ''type-specifier-seq'',
                 NT ''declarator''],
              Sequence
                [Optional (NT ''attribute-specifier-seq''), NT ''type-specifier-seq'',
                 Optional (NT ''abstract-declarator'')],
              T ''...'']])),
     (''noexcept-specifier'', Arrow
       (Diagram
          [Choice 0
             [Sequence [K ''noexcept'', T ''('', NT ''constant-expression'', T '')''],
              K ''noexcept'']]))]\<close>

text \<open>The \<open>rules.set\<close> calls of the section \<open>preprocessing\<close>, in the order of the source.\<close>

definition rules_preprocessing_sd :: "(string \<times> factory) list" where
  \<open>rules_preprocessing_sd =
    [(''preprocessing-file'', Arrow
       (Diagram [Choice 0 [Optional (NT ''group''), NT ''module-file'']])),
     (''module-file'', Arrow
       (Diagram
          [Sequence
             [Optional (NT ''pp-global-module-fragment''), NT ''pp-module'',
              Optional (NT ''group''), Optional (NT ''pp-private-module-fragment'')]])),
     (''pp-global-module-fragment'', Arrow
       (Diagram [Sequence [K ''module'', T '';'', NT ''new-line'', Optional (NT ''group'')]])),
     (''pp-private-module-fragment'', Arrow
       (Diagram
          [Sequence
             [K ''module'', T '':'', K ''private'', T '';'', NT ''new-line'',
              Optional (NT ''group'')]])),
     (''group'', Arrow (Diagram [OneOrMore (NT ''group-part'')])),
     (''group-part'', Arrow
       (Diagram
          [Choice 0
             [NT ''control-line'', NT ''if-section'', NT ''text-line'',
              Sequence [T ''#'', NT ''conditionally-supported-directive'']]])),
     (''control-line'', Arrow
       (Diagram
          [Choice 0
             [Sequence [T ''#'', K ''include'', NT ''pp-tokens'', NT ''new-line''],
              NT ''pp-import'',
              Sequence
                [T ''#'', K ''define'', NT ''identifier'', NT ''replacement-list'',
                 NT ''new-line''],
              Sequence
                [T ''#'', K ''define'', NT ''identifier'', NT ''lparen'',
                 Optional (NT ''identifier-list''), T '')'', NT ''replacement-list'',
                 NT ''new-line''],
              Sequence
                [T ''#'', K ''define'', NT ''identifier'', NT ''lparen'', T ''...'', T '')'',
                 NT ''replacement-list'', NT ''new-line''],
              Sequence
                [T ''#'', K ''define'', NT ''identifier'', NT ''lparen'', NT ''identifier-list'',
                 T '','', T ''...'', T '')'', NT ''replacement-list'', NT ''new-line''],
              Sequence [T ''#'', K ''undef'', NT ''identifier'', NT ''new-line''],
              Sequence [T ''#'', K ''line'', NT ''pp-tokens'', NT ''new-line''],
              Sequence [T ''#'', K ''error'', Optional (NT ''pp-tokens''), NT ''new-line''],
              Sequence [T ''#'', K ''warning'', Optional (NT ''pp-tokens''), NT ''new-line''],
              Sequence [T ''#'', K ''pragma'', Optional (NT ''pp-tokens''), NT ''new-line''],
              Sequence [T ''#'', NT ''new-line'']]])),
     (''if-section'', Arrow
       (Diagram
          [Sequence
             [NT ''if-group'', Optional (NT ''elif-groups''), Optional (NT ''else-group''),
              NT ''endif-line'']])),
     (''if-group'', Arrow
       (Diagram
          [Choice 0
             [Sequence
                [T ''#'', K ''if'', NT ''constant-expression'', NT ''new-line'',
                 Optional (NT ''group'')],
              Sequence
                [T ''#'', K ''ifdef'', NT ''identifier'', NT ''new-line'',
                 Optional (NT ''group'')],
              Sequence
                [T ''#'', K ''ifndef'', NT ''identifier'', NT ''new-line'',
                 Optional (NT ''group'')]]])),
     (''elif-groups'', Arrow (Diagram [OneOrMore (NT ''elif-group'')])),
     (''elif-group'', Arrow
       (Diagram
          [Choice 0
             [Sequence
                [T ''#'', K ''elif'', NT ''constant-expression'', NT ''new-line'',
                 Optional (NT ''group'')],
              Sequence
                [T ''#'', K ''elifdef'', NT ''identifier'', NT ''new-line'',
                 Optional (NT ''group'')],
              Sequence
                [T ''#'', K ''elifndef'', NT ''identifier'', NT ''new-line'',
                 Optional (NT ''group'')]]])),
     (''else-group'', Arrow
       (Diagram [Sequence [T ''#'', K ''else'', NT ''new-line'', Optional (NT ''group'')]])),
     (''endif-line'', Arrow (Diagram [Sequence [T ''#'', K ''endif'', NT ''new-line'']])),
     (''text-line'', Arrow (Diagram [Sequence [Optional (NT ''pp-tokens''), NT ''new-line'']])),
     (''conditionally-supported-directive'', Arrow
       (Diagram [Sequence [NT ''pp-tokens'', NT ''new-line'']])),
     (''lparen'', Arrow (Diagram [Comment ''( not preceded by whitespace''])),
     (''identifier-list'', Arrow
       (Diagram
          [Sequence [NT ''identifier'', ZeroOrMore (Sequence [T '','', NT ''identifier''])]])),
     (''replacement-list'', Arrow (Diagram [Optional (NT ''pp-tokens'')])),
     (''pp-tokens'', Arrow (Diagram [OneOrMore (NT ''preprocessing-token'')])),
     (''new-line'', Arrow (Diagram [Comment ''new-line character''])),
     (''defined-macro-expression'', Arrow
       (Diagram
          [Choice 0
             [Sequence [K ''defined'', NT ''identifier''],
              Sequence [K ''defined'', T ''('', NT ''identifier'', T '')'']]])),
     (''h-preprocessing-token'', Arrow (Diagram [Comment ''any preprocessing-token except >''])),
     (''h-pp-tokens'', Arrow (Diagram [OneOrMore (NT ''h-preprocessing-token'')])),
     (''header-name-tokens'', Arrow
       (Diagram
          [Choice 0 [NT ''string-literal'', Sequence [T ''<'', NT ''h-pp-tokens'', T ''>'']]])),
     (''has-include-expression'', Arrow
       (Diagram
          [Choice 0
             [Sequence [T ''__has_include'', T ''('', NT ''header-name'', T '')''],
              Sequence [T ''__has_include'', T ''('', NT ''header-name-tokens'', T '')'']]])),
     (''has-attribute-expression'', Arrow
       (Diagram [Sequence [T ''__has_cpp_attribute'', T ''('', NT ''pp-tokens'', T '')'']])),
     (''pp-module'', Arrow
       (Diagram
          [Sequence
             [Optional (K ''export''), K ''module'', Optional (NT ''pp-tokens''), T '';'',
              NT ''new-line'']])),
     (''pp-import'', Arrow
       (Diagram
          [Choice 0
             [Sequence
                [Optional (K ''export''), K ''import'', NT ''header-name'',
                 Optional (NT ''pp-tokens''), T '';'', NT ''new-line''],
              Sequence
                [Optional (K ''export''), K ''import'', NT ''header-name-tokens'',
                 Optional (NT ''pp-tokens''), T '';'', NT ''new-line''],
              Sequence
                [Optional (K ''export''), K ''import'', NT ''pp-tokens'', T '';'',
                 NT ''new-line'']]])),
     (''va-opt-replacement'', Arrow
       (Diagram [Sequence [T ''__VA_OPT__'', T ''('', Optional (NT ''pp-tokens''), T '')'']]))]\<close>

definition rules_set_calls_sd :: "(string \<times> factory) list" where
  "rules_set_calls_sd =
     rules_keywords_sd @
     rules_lexical_sd @
     rules_literals_sd @
     rules_basics_sd @
     rules_expressions_sd @
     rules_statements_sd @
     rules_declarations_sd @
     rules_modules_sd @
     rules_classes_sd @
     rules_overloading_sd @
     rules_templates_sd @
     rules_exceptions_sd @
     rules_preprocessing_sd"

definition rules_sd :: "(string \<times> factory) list" where
  "rules_sd = fold (\<lambda>(name, factory) m. Map_set m name factory) rules_set_calls_sd []"

definition SECTION_ORDER_sd :: "SectionId list" where
  "SECTION_ORDER_sd =
     [Keywords, Lexical, Literals, Basics, Expressions, Statements, Declarations, Modules, Classes, Overloading, Templates, Exceptions, Preprocessing]"

definition SECTION_TITLES_sd :: "SectionId \<Rightarrow> string" where
  "SECTION_TITLES_sd s =
     (case s of
        Keywords \<Rightarrow> ''A.2 Keywords [gram.key]''
      | Lexical \<Rightarrow> ''A.3 Lexical Conventions [gram.lex]''
      | Literals \<Rightarrow> ''A.3 Literals''
      | Basics \<Rightarrow> ''A.4 Basics [gram.basic]''
      | Expressions \<Rightarrow> ''A.5 Expressions [gram.expr]''
      | Statements \<Rightarrow> ''A.6 Statements [gram.stmt]''
      | Declarations \<Rightarrow> ''A.7 Declarations [gram.dcl]''
      | Modules \<Rightarrow> ''A.8 Modules [gram.module]''
      | Classes \<Rightarrow> ''A.9 Classes [gram.class]''
      | Overloading \<Rightarrow> ''A.10 Overloading [gram.over]''
      | Templates \<Rightarrow> ''A.11 Templates [gram.temp]''
      | Exceptions \<Rightarrow> ''A.12 Exception Handling [gram.except]''
      | Preprocessing \<Rightarrow> ''A.13 Preprocessing [gram.cpp]'')"

definition SECTION_RULES_keywords_sd :: "string list" where
  \<open>SECTION_RULES_keywords_sd =
    [''typedef-name'', ''namespace-name'', ''namespace-alias'', ''class-name'', ''enum-name'',
     ''template-name'']\<close>

definition SECTION_RULES_lexical_sd :: "string list" where
  \<open>SECTION_RULES_lexical_sd =
    [''n-char'', ''n-char-sequence'', ''named-universal-character'', ''hex-quad'',
     ''simple-hexadecimal-digit-sequence'', ''universal-character-name'', ''preprocessing-token'',
     ''token'', ''header-name'', ''h-char-sequence'', ''h-char'', ''q-char-sequence'', ''q-char'',
     ''pp-number'', ''identifier'', ''identifier-start'', ''identifier-continue'', ''nondigit'',
     ''digit'', ''keyword'', ''preprocessing-op-or-punc'', ''preprocessing-operator'',
     ''operator-or-punctuator'']\<close>

definition SECTION_RULES_literals_sd :: "string list" where
  \<open>SECTION_RULES_literals_sd =
    [''literal'', ''integer-literal'', ''binary-literal'', ''octal-literal'', ''decimal-literal'',
     ''hexadecimal-literal'', ''binary-digit'', ''octal-digit'', ''nonzero-digit'',
     ''hexadecimal-prefix'', ''hexadecimal-digit-sequence'', ''hexadecimal-digit'',
     ''integer-suffix'', ''unsigned-suffix'', ''long-suffix'', ''long-long-suffix'',
     ''size-suffix'', ''character-literal'', ''encoding-prefix'', ''c-char-sequence'', ''c-char'',
     ''basic-c-char'', ''escape-sequence'', ''simple-escape-sequence'',
     ''simple-escape-sequence-char'', ''numeric-escape-sequence'',
     ''simple-octal-digit-sequence'', ''octal-escape-sequence'', ''hexadecimal-escape-sequence'',
     ''conditional-escape-sequence'', ''conditional-escape-sequence-char'',
     ''floating-point-literal'', ''decimal-floating-point-literal'',
     ''hexadecimal-floating-point-literal'', ''fractional-constant'',
     ''hexadecimal-fractional-constant'', ''exponent-part'', ''binary-exponent-part'', ''sign'',
     ''digit-sequence'', ''floating-point-suffix'', ''string-literal'', ''s-char-sequence'',
     ''s-char'', ''basic-s-char'', ''raw-string'', ''r-char-sequence'', ''r-char'',
     ''d-char-sequence'', ''d-char'', ''boolean-literal'', ''pointer-literal'',
     ''user-defined-literal'', ''user-defined-integer-literal'',
     ''user-defined-floating-point-literal'', ''user-defined-string-literal'',
     ''user-defined-character-literal'', ''ud-suffix'']\<close>

definition SECTION_RULES_basics_sd :: "string list" where
  \<open>SECTION_RULES_basics_sd =
    [''translation-unit'']\<close>

definition SECTION_RULES_expressions_sd :: "string list" where
  \<open>SECTION_RULES_expressions_sd =
    [''primary-expression'', ''id-expression'', ''unqualified-id'', ''qualified-id'',
     ''nested-name-specifier'', ''lambda-expression'', ''lambda-introducer'',
     ''lambda-declarator'', ''lambda-specifier'', ''lambda-specifier-seq'', ''lambda-capture'',
     ''capture-default'', ''capture-list'', ''capture'', ''simple-capture'', ''init-capture'',
     ''fold-expression'', ''fold-operator'', ''requires-expression'',
     ''requirement-parameter-list'', ''requirement-body'', ''requirement-seq'', ''requirement'',
     ''simple-requirement'', ''type-requirement'', ''compound-requirement'',
     ''return-type-requirement'', ''nested-requirement'', ''postfix-expression'',
     ''expression-list'', ''unary-expression'', ''unary-operator'', ''await-expression'',
     ''noexcept-expression'', ''new-expression'', ''new-placement'', ''new-type-id'',
     ''new-declarator'', ''noptr-new-declarator'', ''new-initializer'', ''delete-expression'',
     ''cast-expression'', ''pm-expression'', ''multiplicative-expression'',
     ''additive-expression'', ''shift-expression'', ''compare-expression'',
     ''relational-expression'', ''equality-expression'', ''and-expression'',
     ''exclusive-or-expression'', ''inclusive-or-expression'', ''logical-and-expression'',
     ''logical-or-expression'', ''conditional-expression'', ''yield-expression'',
     ''throw-expression'', ''assignment-expression'', ''assignment-operator'', ''expression'',
     ''constant-expression'']\<close>

definition SECTION_RULES_statements_sd :: "string list" where
  \<open>SECTION_RULES_statements_sd =
    [''statement'', ''init-statement'', ''condition'', ''label'', ''labeled-statement'',
     ''expression-statement'', ''compound-statement'', ''statement-seq'', ''label-seq'',
     ''selection-statement'', ''iteration-statement'', ''for-range-declaration'',
     ''for-range-initializer'', ''jump-statement'', ''coroutine-return-statement'',
     ''declaration-statement'']\<close>

definition SECTION_RULES_declarations_sd :: "string list" where
  \<open>SECTION_RULES_declarations_sd =
    [''declaration-seq'', ''declaration'', ''name-declaration'', ''special-declaration'',
     ''block-declaration'', ''nodeclspec-function-declaration'', ''alias-declaration'',
     ''simple-declaration'', ''static_assert-declaration'', ''empty-declaration'',
     ''attribute-declaration'', ''decl-specifier'', ''decl-specifier-seq'',
     ''storage-class-specifier'', ''function-specifier'', ''explicit-specifier'',
     ''type-specifier'', ''type-specifier-seq'', ''defining-type-specifier'',
     ''defining-type-specifier-seq'', ''simple-type-specifier'', ''type-name'',
     ''elaborated-type-specifier'', ''decltype-specifier'', ''placeholder-type-specifier'',
     ''init-declarator-list'', ''init-declarator'', ''declarator'', ''ptr-declarator'',
     ''noptr-declarator'', ''parameters-and-qualifiers'', ''trailing-return-type'',
     ''ptr-operator'', ''cv-qualifier-seq'', ''cv-qualifier'', ''ref-qualifier'',
     ''declarator-id'', ''type-id'', ''defining-type-id'', ''abstract-declarator'',
     ''ptr-abstract-declarator'', ''noptr-abstract-declarator'', ''abstract-pack-declarator'',
     ''noptr-abstract-pack-declarator'', ''parameter-declaration-clause'',
     ''parameter-declaration-list'', ''parameter-declaration'', ''initializer'',
     ''brace-or-equal-initializer'', ''initializer-clause'', ''braced-init-list'',
     ''initializer-list'', ''designated-initializer-list'', ''designated-initializer-clause'',
     ''designator'', ''expr-or-braced-init-list'', ''function-definition'', ''function-body'',
     ''enum-specifier'', ''enum-head'', ''enum-head-name'', ''opaque-enum-declaration'',
     ''enum-key'', ''enum-base'', ''enumerator-list'', ''enumerator-definition'', ''enumerator'',
     ''using-enum-declaration'', ''using-enum-declarator'', ''namespace-definition'',
     ''named-namespace-definition'', ''unnamed-namespace-definition'',
     ''nested-namespace-definition'', ''enclosing-namespace-specifier'', ''namespace-body'',
     ''namespace-alias-definition'', ''qualified-namespace-specifier'', ''using-directive'',
     ''using-declaration'', ''using-declarator-list'', ''using-declarator'', ''asm-declaration'',
     ''linkage-specification'', ''attribute-specifier-seq'', ''attribute-specifier'',
     ''alignment-specifier'', ''attribute-using-prefix'', ''attribute-list'', ''attribute'',
     ''attribute-token'', ''attribute-scoped-token'', ''attribute-namespace'',
     ''attribute-argument-clause'', ''balanced-token-seq'', ''balanced-token'']\<close>

definition SECTION_RULES_modules_sd :: "string list" where
  \<open>SECTION_RULES_modules_sd =
    [''module-declaration'', ''module-name'', ''module-partition'', ''module-name-qualifier'',
     ''export-declaration'', ''module-import-declaration'', ''global-module-fragment'',
     ''private-module-fragment'', ''import-keyword'', ''module-keyword'', ''export-keyword'']\<close>

definition SECTION_RULES_classes_sd :: "string list" where
  \<open>SECTION_RULES_classes_sd =
    [''class-specifier'', ''class-head'', ''class-head-name'', ''class-virt-specifier'',
     ''class-key'', ''member-specification'', ''member-declaration'', ''member-declarator-list'',
     ''member-declarator'', ''virt-specifier-seq'', ''virt-specifier'', ''pure-specifier'',
     ''conversion-function-id'', ''conversion-type-id'', ''conversion-declarator'',
     ''base-clause'', ''base-specifier-list'', ''base-specifier'', ''class-or-decltype'',
     ''access-specifier'', ''ctor-initializer'', ''mem-initializer-list'', ''mem-initializer'',
     ''mem-initializer-id'']\<close>

definition SECTION_RULES_overloading_sd :: "string list" where
  \<open>SECTION_RULES_overloading_sd =
    [''operator-function-id'', ''operator'', ''literal-operator-id'']\<close>

definition SECTION_RULES_templates_sd :: "string list" where
  \<open>SECTION_RULES_templates_sd =
    [''template-declaration'', ''template-head'', ''template-parameter-list'',
     ''requires-clause'', ''constraint-logical-or-expression'',
     ''constraint-logical-and-expression'', ''template-parameter'', ''type-parameter'',
     ''type-parameter-key'', ''type-constraint'', ''simple-template-id'', ''template-id'',
     ''template-argument-list'', ''template-argument'', ''constraint-expression'',
     ''deduction-guide'', ''concept-definition'', ''concept-name'', ''typename-specifier'',
     ''explicit-instantiation'', ''explicit-specialization'']\<close>

definition SECTION_RULES_exceptions_sd :: "string list" where
  \<open>SECTION_RULES_exceptions_sd =
    [''try-block'', ''function-try-block'', ''handler-seq'', ''handler'',
     ''exception-declaration'', ''noexcept-specifier'']\<close>

definition SECTION_RULES_preprocessing_sd :: "string list" where
  \<open>SECTION_RULES_preprocessing_sd =
    [''preprocessing-file'', ''module-file'', ''pp-global-module-fragment'',
     ''pp-private-module-fragment'', ''group'', ''group-part'', ''control-line'', ''if-section'',
     ''if-group'', ''elif-groups'', ''elif-group'', ''else-group'', ''endif-line'', ''text-line'',
     ''conditionally-supported-directive'', ''lparen'', ''identifier-list'', ''replacement-list'',
     ''pp-tokens'', ''new-line'', ''defined-macro-expression'', ''h-preprocessing-token'',
     ''h-pp-tokens'', ''header-name-tokens'', ''has-include-expression'',
     ''has-attribute-expression'', ''pp-module'', ''pp-import'', ''va-opt-replacement'']\<close>

definition SECTION_RULES_sd :: "SectionId \<Rightarrow> string list" where
  "SECTION_RULES_sd s =
     (case s of
        Keywords \<Rightarrow> SECTION_RULES_keywords_sd
      | Lexical \<Rightarrow> SECTION_RULES_lexical_sd
      | Literals \<Rightarrow> SECTION_RULES_literals_sd
      | Basics \<Rightarrow> SECTION_RULES_basics_sd
      | Expressions \<Rightarrow> SECTION_RULES_expressions_sd
      | Statements \<Rightarrow> SECTION_RULES_statements_sd
      | Declarations \<Rightarrow> SECTION_RULES_declarations_sd
      | Modules \<Rightarrow> SECTION_RULES_modules_sd
      | Classes \<Rightarrow> SECTION_RULES_classes_sd
      | Overloading \<Rightarrow> SECTION_RULES_overloading_sd
      | Templates \<Rightarrow> SECTION_RULES_templates_sd
      | Exceptions \<Rightarrow> SECTION_RULES_exceptions_sd
      | Preprocessing \<Rightarrow> SECTION_RULES_preprocessing_sd)"

text \<open>
  \<^verbatim>\<open>
  export function getRuleFactory(name: RuleName): (() => any) | undefined {
    return rules.get(name);
  }

  export function createRuleDiagram(name: RuleName): any {
    const factory = rules.get(name);
    if (!factory) {
      return Diagram(Comment(`No factory defined for ${name}`));
    }
    return factory();
  }
  \<close>
  The result is the node returned (\<open>Inr\<close>) or the exception that leaves the function
  (\<open>Inl\<close>).
\<close>

definition getRuleFactory_sd :: "string \<Rightarrow> factory option" where
  "getRuleFactory_sd name = Map_get rules_sd name"



section \<open>The second grammar module (\<open>cppGrammar\<close>)\<close>

text \<open>
  The module \<open>cppGrammar\<close>, which the application and \<open>ebnfDefinitions.ts\<close> import. It
  fills its map \<open>rules\<close> in the same way.
\<close>

text \<open>
  The precedence-chain helper:
  \<^verbatim>\<open>
  function chain(base: string, ops: string[]) {
    return Sequence(
      NT(base),
      ZeroOrMore(Sequence(Choice(0, ...ops.map(T)), NT(base)))
    );
  }
  \<close>
\<close>

definition chain :: "string \<Rightarrow> string list \<Rightarrow> rr_node" where
  "chain base ops = Sequence [NT base, ZeroOrMore (Sequence [Choice 0 (map T ops), NT base])]"

text \<open>The \<open>rules.set\<close> calls of the section \<open>keywords\<close>, in the order of the source.\<close>

definition rules_keywords :: "(string \<times> factory) list" where
  \<open>rules_keywords =
    [(''typedef-name'', Arrow (Diagram [Choice 0 [NT ''identifier'', NT ''simple-template-id'']])),
     (''namespace-name'', Arrow (Diagram [Choice 0 [NT ''identifier'', NT ''namespace-alias'']])),
     (''namespace-alias'', Arrow (Diagram [NT ''identifier''])),
     (''class-name'', Arrow (Diagram [Choice 0 [NT ''identifier'', NT ''simple-template-id'']])),
     (''enum-name'', Arrow (Diagram [NT ''identifier''])),
     (''template-name'', Arrow (Diagram [NT ''identifier'']))]\<close>

text \<open>The \<open>rules.set\<close> calls of the section \<open>lexical\<close>, in the order of the source.\<close>

definition rules_lexical :: "(string \<times> factory) list" where
  \<open>rules_lexical =
    [(''n-char'', Arrow
       (Diagram [Comment ''any member of the translation character set except } or new-line''])),
     (''n-char-sequence'', Arrow (Diagram [OneOrMore (NT ''n-char'')])),
     (''named-universal-character'', Arrow
       (Diagram [Sequence [T (CHR 0x5C # ''N{''), NT ''n-char-sequence'', T ''}'']])),
     (''hex-quad'', Arrow
       (Diagram
          [Sequence
             [NT ''hexadecimal-digit'', NT ''hexadecimal-digit'', NT ''hexadecimal-digit'',
              NT ''hexadecimal-digit'']])),
     (''simple-hexadecimal-digit-sequence'', Arrow
       (Diagram [OneOrMore (NT ''hexadecimal-digit'')])),
     (''universal-character-name'', Arrow
       (Diagram
          [Choice 0
             [Sequence [T (CHR 0x5C # ''u''), NT ''hex-quad''],
              Sequence [T (CHR 0x5C # ''U''), NT ''hex-quad'', NT ''hex-quad''],
              Sequence [T (CHR 0x5C # ''u{''), NT ''simple-hexadecimal-digit-sequence'', T ''}''],
              NT ''named-universal-character'']])),
     (''preprocessing-token'', Arrow
       (Diagram
          [Choice 0
             [NT ''header-name'', NT ''import-keyword'', NT ''module-keyword'',
              NT ''export-keyword'', NT ''identifier'', NT ''pp-number'',
              NT ''character-literal'', NT ''user-defined-character-literal'',
              NT ''string-literal'', NT ''user-defined-string-literal'',
              NT ''preprocessing-op-or-punc'', Comment ''other non-whitespace'']])),
     (''token'', Arrow
       (Diagram
          [Choice 0
             [NT ''identifier'', NT ''keyword'', NT ''literal'', NT ''operator-or-punctuator'']])),
     (''header-name'', Arrow
       (Diagram
          [Choice 0
             [Sequence [T ''<'', NT ''h-char-sequence'', T ''>''],
              Sequence [T ''"'', NT ''q-char-sequence'', T ''"'']]])),
     (''h-char-sequence'', Arrow (Diagram [OneOrMore (NT ''h-char'')])),
     (''h-char'', Arrow (Diagram [Comment ''any character except new-line and >''])),
     (''q-char-sequence'', Arrow (Diagram [OneOrMore (NT ''q-char'')])),
     (''q-char'', Arrow (Diagram [Comment ''any character except new-line and "''])),
     (''pp-number'', Arrow
       (Diagram
          [Choice 0 [NT ''digit'', Sequence [T ''.'', NT ''digit'']],
           ZeroOrMore
             (Choice 0
                [NT ''identifier-continue'', Sequence [T [CHR 0x27], NT ''digit''],
                 Sequence [T [CHR 0x27], NT ''nondigit''],
                 Sequence [Choice 0 [T ''e'', T ''E'', T ''p'', T ''P''], NT ''sign''], T ''.''])])),
     (''identifier'', Arrow
       (Diagram [Sequence [NT ''identifier-start'', ZeroOrMore (NT ''identifier-continue'')]])),
     (''identifier-start'', Arrow
       (Diagram [Choice 0 [NT ''nondigit'', Comment ''XID_Start character'']])),
     (''identifier-continue'', Arrow
       (Diagram [Choice 0 [NT ''digit'', NT ''nondigit'', Comment ''XID_Continue character'']])),
     (''nondigit'', Arrow (Diagram [Choice 0 [T ''a-z'', T ''A-Z'', T ''_'']])),
     (''digit'', Arrow (Diagram [T ''0-9''])),
     (''keyword'', Arrow
       (Diagram
          [Choice 0
             [Comment ''any identifier listed in Table 5'', NT ''import-keyword'',
              NT ''module-keyword'', NT ''export-keyword'']])),
     (''preprocessing-op-or-punc'', Arrow
       (Diagram [Choice 0 [NT ''preprocessing-operator'', NT ''operator-or-punctuator'']])),
     (''preprocessing-operator'', Arrow
       (Diagram [Choice 0 [T ''#'', T ''##'', T ''%:'', T ''%:%:'']])),
     (''operator-or-punctuator'', Arrow
       (Diagram
          [Stack
             [Choice 0
                [T ''{'', T ''}'', T ''['', T '']'', T ''('', T '')'', T ''<:'', T '':>'',
                 T ''<%'', T ''%>''],
              Choice 0
                [T '';'', T '':'', T ''...'', T ''?'', T ''::'', T ''.'', T ''.*'', T ''->'',
                 T ''->*'', T ''~''],
              Choice 0
                [T ''!'', T ''+'', T ''-'', T ''*'', T ''/'', T ''%'', T ''^'', T ''&'', T ''|''],
              Choice 0
                [T ''='', T ''+='', T ''-='', T ''*='', T ''/='', T ''%='', T ''^='', T ''&='',
                 T ''|=''],
              Choice 0
                [T ''=='', T ''!='', T ''<'', T ''>'', T ''<='', T ''>='', T ''<=>'', T ''&&'',
                 T ''||''],
              Choice 0 [T ''<<'', T ''>>'', T ''<<='', T ''>>='', T ''++'', T ''--'', T '','']]]))]\<close>

text \<open>The \<open>rules.set\<close> calls of the section \<open>literals\<close>, in the order of the source.\<close>

definition rules_literals :: "(string \<times> factory) list" where
  \<open>rules_literals =
    [(''literal'', Arrow
       (Diagram
          [Choice 0
             [NT ''integer-literal'', NT ''character-literal'', NT ''floating-point-literal'',
              NT ''string-literal'', NT ''boolean-literal'', NT ''pointer-literal'',
              NT ''user-defined-literal'']])),
     (''integer-literal'', Arrow
       (Diagram
          [Choice 0
             [NT ''binary-literal'', NT ''octal-literal'', NT ''decimal-literal'',
              NT ''hexadecimal-literal''],
           Optional (NT ''integer-suffix'')])),
     (''binary-literal'', Arrow
       (Diagram
          [Choice 0 [T ''0b'', T ''0B''], NT ''binary-digit'',
           ZeroOrMore (Sequence [Optional (T [CHR 0x27]), NT ''binary-digit''])])),
     (''octal-literal'', Arrow
       (Diagram [T ''0'', ZeroOrMore (Sequence [Optional (T [CHR 0x27]), NT ''octal-digit''])])),
     (''decimal-literal'', Arrow
       (Diagram
          [NT ''nonzero-digit'', ZeroOrMore (Sequence [Optional (T [CHR 0x27]), NT ''digit''])])),
     (''hexadecimal-literal'', Arrow
       (Diagram [NT ''hexadecimal-prefix'', NT ''hexadecimal-digit-sequence''])),
     (''binary-digit'', Arrow (Diagram [Choice 0 [T ''0'', T ''1'']])),
     (''octal-digit'', Arrow (Diagram [T ''0-7''])),
     (''nonzero-digit'', Arrow (Diagram [T ''1-9''])),
     (''hexadecimal-prefix'', Arrow (Diagram [Choice 0 [T ''0x'', T ''0X'']])),
     (''hexadecimal-digit-sequence'', Arrow
       (Diagram
          [NT ''hexadecimal-digit'',
           ZeroOrMore (Sequence [Optional (T [CHR 0x27]), NT ''hexadecimal-digit''])])),
     (''hexadecimal-digit'', Arrow (Diagram [Choice 0 [T ''0-9'', T ''a-f'', T ''A-F'']])),
     (''integer-suffix'', Arrow
       (Diagram
          [Choice 0
             [Sequence
                [NT ''unsigned-suffix'',
                 Optional
                   (Choice 0 [NT ''long-suffix'', NT ''long-long-suffix'', NT ''size-suffix''])],
              Sequence [NT ''long-suffix'', Optional (NT ''unsigned-suffix'')],
              Sequence [NT ''long-long-suffix'', Optional (NT ''unsigned-suffix'')],
              Sequence [NT ''size-suffix'', Optional (NT ''unsigned-suffix'')]]])),
     (''unsigned-suffix'', Arrow (Diagram [Choice 0 [T ''u'', T ''U'']])),
     (''long-suffix'', Arrow (Diagram [Choice 0 [T ''l'', T ''L'']])),
     (''long-long-suffix'', Arrow (Diagram [Choice 0 [T ''ll'', T ''LL'']])),
     (''size-suffix'', Arrow (Diagram [Choice 0 [T ''z'', T ''Z'']])),
     (''character-literal'', Arrow
       (Diagram
          [Optional (NT ''encoding-prefix''), T [CHR 0x27], NT ''c-char-sequence'', T [CHR 0x27]])),
     (''encoding-prefix'', Arrow (Diagram [Choice 0 [T ''u8'', T ''u'', T ''U'', T ''L'']])),
     (''c-char-sequence'', Arrow (Diagram [OneOrMore (NT ''c-char'')])),
     (''c-char'', Arrow
       (Diagram
          [Choice 0
             [NT ''basic-c-char'', NT ''escape-sequence'', NT ''universal-character-name'']])),
     (''basic-c-char'', Arrow
       (Diagram
          [Comment (''any character except '' @ CHR 0x27 # '', '' @ CHR 0x5C # '', or new-line'')])),
     (''escape-sequence'', Arrow
       (Diagram
          [Choice 0
             [NT ''simple-escape-sequence'', NT ''numeric-escape-sequence'',
              NT ''conditional-escape-sequence'']])),
     (''simple-escape-sequence'', Arrow
       (Diagram [T [CHR 0x5C], NT ''simple-escape-sequence-char''])),
     (''simple-escape-sequence-char'', Arrow
       (Diagram
          [Choice 0
             [T [CHR 0x27], T ''"'', T ''?'', T [CHR 0x5C], T ''a'', T ''b'', T ''f'', T ''n'',
              T ''r'', T ''t'', T ''v'']])),
     (''numeric-escape-sequence'', Arrow
       (Diagram [Choice 0 [NT ''octal-escape-sequence'', NT ''hexadecimal-escape-sequence'']])),
     (''simple-octal-digit-sequence'', Arrow (Diagram [OneOrMore (NT ''octal-digit'')])),
     (''octal-escape-sequence'', Arrow
       (Diagram
          [Choice 0
             [Sequence
                [T [CHR 0x5C], NT ''octal-digit'', Optional (NT ''octal-digit''),
                 Optional (NT ''octal-digit'')],
              Sequence [T (CHR 0x5C # ''o{''), NT ''simple-octal-digit-sequence'', T ''}'']]])),
     (''hexadecimal-escape-sequence'', Arrow
       (Diagram
          [Choice 0
             [Sequence [T (CHR 0x5C # ''x''), NT ''simple-hexadecimal-digit-sequence''],
              Sequence [T (CHR 0x5C # ''x{''), NT ''simple-hexadecimal-digit-sequence'', T ''}'']]])),
     (''conditional-escape-sequence'', Arrow
       (Diagram [T [CHR 0x5C], NT ''conditional-escape-sequence-char''])),
     (''conditional-escape-sequence-char'', Arrow
       (Diagram [Comment ''any basic char not octal-digit, escape-char, N, o, u, U, x''])),
     (''floating-point-literal'', Arrow
       (Diagram
          [Choice 0
             [NT ''decimal-floating-point-literal'', NT ''hexadecimal-floating-point-literal'']])),
     (''decimal-floating-point-literal'', Arrow
       (Diagram
          [Choice 0
             [Sequence [NT ''fractional-constant'', Optional (NT ''exponent-part'')],
              Sequence [NT ''digit-sequence'', NT ''exponent-part'']],
           Optional (NT ''floating-point-suffix'')])),
     (''hexadecimal-floating-point-literal'', Arrow
       (Diagram
          [NT ''hexadecimal-prefix'',
           Choice 0 [NT ''hexadecimal-fractional-constant'', NT ''hexadecimal-digit-sequence''],
           NT ''binary-exponent-part'', Optional (NT ''floating-point-suffix'')])),
     (''fractional-constant'', Arrow
       (Diagram
          [Choice 0
             [Sequence [Optional (NT ''digit-sequence''), T ''.'', NT ''digit-sequence''],
              Sequence [NT ''digit-sequence'', T ''.'']]])),
     (''hexadecimal-fractional-constant'', Arrow
       (Diagram
          [Choice 0
             [Sequence
                [Optional (NT ''hexadecimal-digit-sequence''), T ''.'',
                 NT ''hexadecimal-digit-sequence''],
              Sequence [NT ''hexadecimal-digit-sequence'', T ''.'']]])),
     (''exponent-part'', Arrow
       (Diagram [Choice 0 [T ''e'', T ''E''], Optional (NT ''sign''), NT ''digit-sequence''])),
     (''binary-exponent-part'', Arrow
       (Diagram [Choice 0 [T ''p'', T ''P''], Optional (NT ''sign''), NT ''digit-sequence''])),
     (''sign'', Arrow (Diagram [Choice 0 [T ''+'', T ''-'']])),
     (''digit-sequence'', Arrow
       (Diagram [NT ''digit'', ZeroOrMore (Sequence [Optional (T [CHR 0x27]), NT ''digit''])])),
     (''floating-point-suffix'', Arrow
       (Diagram
          [Choice 0
             [T ''f'', T ''l'', T ''f16'', T ''f32'', T ''f64'', T ''f128'', T ''bf16'', T ''F'',
              T ''L'', T ''F16'', T ''F32'', T ''F64'', T ''F128'', T ''BF16'']])),
     (''string-literal'', Arrow
       (Diagram
          [Optional (NT ''encoding-prefix''),
           Choice 0
             [Sequence [T ''"'', Optional (NT ''s-char-sequence''), T ''"''],
              Sequence [T ''R'', NT ''raw-string'']]])),
     (''s-char-sequence'', Arrow (Diagram [OneOrMore (NT ''s-char'')])),
     (''s-char'', Arrow
       (Diagram
          [Choice 0
             [NT ''basic-s-char'', NT ''escape-sequence'', NT ''universal-character-name'']])),
     (''basic-s-char'', Arrow
       (Diagram [Comment (''any character except ", '' @ CHR 0x5C # '', or new-line'')])),
     (''raw-string'', Arrow
       (Diagram
          [T ''"'', Optional (NT ''d-char-sequence''), T ''('', Optional (NT ''r-char-sequence''),
           T '')'', Optional (NT ''d-char-sequence''), T ''"''])),
     (''r-char-sequence'', Arrow (Diagram [OneOrMore (NT ''r-char'')])),
     (''r-char'', Arrow
       (Diagram [Comment ''any character except ) followed by d-char-sequence and "''])),
     (''d-char-sequence'', Arrow (Diagram [OneOrMore (NT ''d-char'')])),
     (''d-char'', Arrow
       (Diagram
          [Comment (''any basic char except space, (, ), '' @ CHR 0x5C # '', tab, newline'')])),
     (''boolean-literal'', Arrow (Diagram [Choice 0 [T ''false'', T ''true'']])),
     (''pointer-literal'', Arrow (Diagram [T ''nullptr''])),
     (''user-defined-literal'', Arrow
       (Diagram
          [Choice 0
             [NT ''user-defined-integer-literal'', NT ''user-defined-floating-point-literal'',
              NT ''user-defined-string-literal'', NT ''user-defined-character-literal'']])),
     (''user-defined-integer-literal'', Arrow
       (Diagram
          [Choice 0
             [NT ''decimal-literal'', NT ''octal-literal'', NT ''hexadecimal-literal'',
              NT ''binary-literal''],
           NT ''ud-suffix''])),
     (''user-defined-floating-point-literal'', Arrow
       (Diagram
          [Choice 0
             [Sequence [NT ''fractional-constant'', Optional (NT ''exponent-part'')],
              Sequence [NT ''digit-sequence'', NT ''exponent-part''],
              Sequence
                [NT ''hexadecimal-prefix'', NT ''hexadecimal-fractional-constant'',
                 NT ''binary-exponent-part''],
              Sequence
                [NT ''hexadecimal-prefix'', NT ''hexadecimal-digit-sequence'',
                 NT ''binary-exponent-part'']],
           NT ''ud-suffix''])),
     (''user-defined-string-literal'', Arrow (Diagram [NT ''string-literal'', NT ''ud-suffix''])),
     (''user-defined-character-literal'', Arrow
       (Diagram [NT ''character-literal'', NT ''ud-suffix''])),
     (''ud-suffix'', Arrow (Diagram [NT ''identifier'']))]\<close>

text \<open>The \<open>rules.set\<close> calls of the section \<open>basics\<close>, in the order of the source.\<close>

definition rules_basics :: "(string \<times> factory) list" where
  \<open>rules_basics =
    [(''translation-unit'', Arrow
       (Diagram
          [Choice 0
             [Optional (NT ''declaration-seq''),
              Sequence
                [Optional (NT ''global-module-fragment''), NT ''module-declaration'',
                 Optional (NT ''declaration-seq''), Optional (NT ''private-module-fragment'')]]]))]\<close>

text \<open>The \<open>rules.set\<close> calls of the section \<open>expressions\<close>, in the order of the source.\<close>

definition rules_expressions :: "(string \<times> factory) list" where
  \<open>rules_expressions =
    [(''primary-expression'', Arrow
       (Diagram
          [Choice 0
             [NT ''literal'', T ''this'', Sequence [T ''('', NT ''expression'', T '')''],
              NT ''id-expression'', NT ''lambda-expression'', NT ''fold-expression'',
              NT ''requires-expression'']])),
     (''id-expression'', Arrow (Diagram [Choice 0 [NT ''unqualified-id'', NT ''qualified-id'']])),
     (''unqualified-id'', Arrow
       (Diagram
          [Choice 0
             [NT ''identifier'', NT ''operator-function-id'', NT ''conversion-function-id'',
              NT ''literal-operator-id'', Sequence [T ''~'', NT ''type-name''],
              Sequence [T ''~'', NT ''decltype-specifier''], NT ''template-id'']])),
     (''qualified-id'', Arrow
       (Diagram [NT ''nested-name-specifier'', Optional (T ''template''), NT ''unqualified-id''])),
     (''nested-name-specifier'', Arrow
       (Diagram
          [Choice 0
             [T ''::'', Sequence [NT ''type-name'', T ''::''],
              Sequence [NT ''namespace-name'', T ''::''],
              Sequence [NT ''decltype-specifier'', T ''::'']],
           ZeroOrMore
             (Choice 0
                [Sequence [NT ''identifier'', T ''::''],
                 Sequence [Optional (T ''template''), NT ''simple-template-id'', T ''::'']])])),
     (''lambda-expression'', Arrow
       (Diagram
          [NT ''lambda-introducer'',
           Optional
             (Sequence
                [T ''<'', NT ''template-parameter-list'', T ''>'',
                 Optional (NT ''requires-clause'')]),
           Optional (NT ''attribute-specifier-seq''), NT ''lambda-declarator'',
           NT ''compound-statement''])),
     (''lambda-introducer'', Arrow (Diagram [T ''['', Optional (NT ''lambda-capture''), T '']''])),
     (''lambda-declarator'', Arrow
       (Diagram
          [Choice 0
             [Sequence
                [Optional (NT ''lambda-specifier-seq''), Optional (NT ''noexcept-specifier''),
                 Optional (NT ''attribute-specifier-seq''),
                 Optional (NT ''trailing-return-type'')],
              Sequence
                [T ''('', NT ''parameter-declaration-clause'', T '')'',
                 Optional (NT ''lambda-specifier-seq''), Optional (NT ''noexcept-specifier''),
                 Optional (NT ''attribute-specifier-seq''),
                 Optional (NT ''trailing-return-type''), Optional (NT ''requires-clause'')]]])),
     (''lambda-specifier'', Arrow
       (Diagram [Choice 0 [T ''consteval'', T ''constexpr'', T ''mutable'', T ''static'']])),
     (''lambda-specifier-seq'', Arrow (Diagram [OneOrMore (NT ''lambda-specifier'')])),
     (''lambda-capture'', Arrow
       (Diagram
          [Choice 0
             [NT ''capture-default'', NT ''capture-list'',
              Sequence [NT ''capture-default'', T '','', NT ''capture-list'']]])),
     (''capture-default'', Arrow (Diagram [Choice 0 [T ''&'', T ''='']])),
     (''capture-list'', Arrow
       (Diagram [NT ''capture'', ZeroOrMore (Sequence [T '','', NT ''capture''])])),
     (''capture'', Arrow (Diagram [Choice 0 [NT ''simple-capture'', NT ''init-capture'']])),
     (''simple-capture'', Arrow
       (Diagram
          [Choice 0
             [Sequence [NT ''identifier'', Optional (T ''...'')],
              Sequence [T ''&'', NT ''identifier'', Optional (T ''...'')], T ''this'',
              Sequence [T ''*'', T ''this'']]])),
     (''init-capture'', Arrow
       (Diagram [Optional (T ''...''), Optional (T ''&''), NT ''identifier'', NT ''initializer''])),
     (''fold-expression'', Arrow
       (Diagram
          [T ''('',
           Choice 0
             [Sequence [NT ''cast-expression'', NT ''fold-operator'', T ''...''],
              Sequence [T ''...'', NT ''fold-operator'', NT ''cast-expression''],
              Sequence
                [NT ''cast-expression'', NT ''fold-operator'', T ''...'', NT ''fold-operator'',
                 NT ''cast-expression'']],
           T '')''])),
     (''fold-operator'', Arrow
       (Diagram
          [Choice 0
             [T ''+'', T ''-'', T ''*'', T ''/'', T ''%'', T ''^'', T ''&'', T ''|'', T ''<<'',
              T ''>>'', T ''+='', T ''-='', T ''*='', T ''/='', T ''%='', T ''^='', T ''&='',
              T ''|='', T ''<<='', T ''>>='', T ''='', T ''=='', T ''!='', T ''<'', T ''>'',
              T ''<='', T ''>='', T ''&&'', T ''||'', T '','', T ''.*'', T ''->*'']])),
     (''requires-expression'', Arrow
       (Diagram
          [T ''requires'', Optional (NT ''requirement-parameter-list''), NT ''requirement-body''])),
     (''requirement-parameter-list'', Arrow
       (Diagram [T ''('', NT ''parameter-declaration-clause'', T '')''])),
     (''requirement-body'', Arrow (Diagram [T ''{'', NT ''requirement-seq'', T ''}''])),
     (''requirement-seq'', Arrow (Diagram [OneOrMore (NT ''requirement'')])),
     (''requirement'', Arrow
       (Diagram
          [Choice 0
             [NT ''simple-requirement'', NT ''type-requirement'', NT ''compound-requirement'',
              NT ''nested-requirement'']])),
     (''simple-requirement'', Arrow (Diagram [NT ''expression'', T '';''])),
     (''type-requirement'', Arrow
       (Diagram
          [T ''typename'', Optional (NT ''nested-name-specifier''), NT ''type-name'', T '';''])),
     (''compound-requirement'', Arrow
       (Diagram
          [T ''{'', NT ''expression'', T ''}'', Optional (T ''noexcept''),
           Optional (NT ''return-type-requirement''), T '';''])),
     (''return-type-requirement'', Arrow (Diagram [T ''->'', NT ''type-constraint''])),
     (''nested-requirement'', Arrow
       (Diagram [T ''requires'', NT ''constraint-expression'', T '';''])),
     (''postfix-expression'', Arrow_const
       (Choice 0
          [Sequence [T ''['', Optional (NT ''expression-list''), T '']''],
           Sequence [T ''('', Optional (NT ''expression-list''), T '')''],
           Sequence [T ''.'', Optional (T ''template''), NT ''id-expression''],
           Sequence [T ''->'', Optional (T ''template''), NT ''id-expression''], T ''++'',
           T ''--''])
       (\<lambda>postfixSuffix.
          Diagram
             [Choice 0
                [NT ''primary-expression'',
                 Sequence
                   [NT ''simple-type-specifier'', T ''('', Optional (NT ''expression-list''),
                    T '')''],
                 Sequence
                   [NT ''typename-specifier'', T ''('', Optional (NT ''expression-list''),
                    T '')''],
                 Sequence [NT ''simple-type-specifier'', NT ''braced-init-list''],
                 Sequence [NT ''typename-specifier'', NT ''braced-init-list''],
                 Sequence
                   [T ''dynamic_cast'', T ''<'', NT ''type-id'', T ''>'', T ''('',
                    NT ''expression'', T '')''],
                 Sequence
                   [T ''static_cast'', T ''<'', NT ''type-id'', T ''>'', T ''('',
                    NT ''expression'', T '')''],
                 Sequence
                   [T ''reinterpret_cast'', T ''<'', NT ''type-id'', T ''>'', T ''('',
                    NT ''expression'', T '')''],
                 Sequence
                   [T ''const_cast'', T ''<'', NT ''type-id'', T ''>'', T ''('',
                    NT ''expression'', T '')''],
                 Sequence
                   [T ''typeid'', T ''('', Choice 0 [NT ''expression'', NT ''type-id''], T '')'']],
              ZeroOrMore postfixSuffix])),
     (''expression-list'', Arrow (Diagram [NT ''initializer-list''])),
     (''unary-expression'', Arrow
       (Diagram
          [Choice 0
             [NT ''postfix-expression'', Sequence [NT ''unary-operator'', NT ''cast-expression''],
              Sequence [T ''++'', NT ''cast-expression''],
              Sequence [T ''--'', NT ''cast-expression''], NT ''await-expression'',
              Sequence [T ''sizeof'', NT ''unary-expression''],
              Sequence [T ''sizeof'', T ''('', NT ''type-id'', T '')''],
              Sequence [T ''sizeof'', T ''...'', T ''('', NT ''identifier'', T '')''],
              Sequence [T ''alignof'', T ''('', NT ''type-id'', T '')''],
              NT ''noexcept-expression'', NT ''new-expression'', NT ''delete-expression'']])),
     (''unary-operator'', Arrow
       (Diagram [Choice 0 [T ''*'', T ''&'', T ''+'', T ''-'', T ''!'', T ''~'']])),
     (''await-expression'', Arrow (Diagram [T ''co_await'', NT ''cast-expression''])),
     (''noexcept-expression'', Arrow
       (Diagram [T ''noexcept'', T ''('', NT ''expression'', T '')''])),
     (''new-expression'', Arrow
       (Diagram
          [Optional (T ''::''), T ''new'', Optional (NT ''new-placement''),
           Choice 0 [NT ''new-type-id'', Sequence [T ''('', NT ''type-id'', T '')'']],
           Optional (NT ''new-initializer'')])),
     (''new-placement'', Arrow (Diagram [T ''('', NT ''expression-list'', T '')''])),
     (''new-type-id'', Arrow
       (Diagram [NT ''type-specifier-seq'', Optional (NT ''new-declarator'')])),
     (''new-declarator'', Arrow
       (Diagram
          [Choice 0
             [Sequence [NT ''ptr-operator'', Optional (NT ''new-declarator'')],
              NT ''noptr-new-declarator'']])),
     (''noptr-new-declarator'', Arrow
       (Diagram
          [T ''['', Optional (NT ''expression''), T '']'',
           Optional (NT ''attribute-specifier-seq''),
           ZeroOrMore
             (Sequence
                [T ''['', NT ''constant-expression'', T '']'',
                 Optional (NT ''attribute-specifier-seq'')])])),
     (''new-initializer'', Arrow
       (Diagram
          [Choice 0
             [Sequence [T ''('', Optional (NT ''expression-list''), T '')''],
              NT ''braced-init-list'']])),
     (''delete-expression'', Arrow
       (Diagram
          [Optional (T ''::''), T ''delete'', Optional (Sequence [T ''['', T '']'']),
           NT ''cast-expression''])),
     (''cast-expression'', Arrow
       (Diagram
          [ZeroOrMore (Sequence [T ''('', NT ''type-id'', T '')'']), NT ''unary-expression''])),
     (''pm-expression'', Arrow
       (Diagram
          [NT ''cast-expression'',
           ZeroOrMore (Sequence [Choice 0 [T ''.*'', T ''->*''], NT ''cast-expression''])])),
     (''multiplicative-expression'', Arrow
       (Diagram [chain ''pm-expression'' [''*'', ''/'', ''%'']])),
     (''additive-expression'', Arrow
       (Diagram [chain ''multiplicative-expression'' [''+'', ''-'']])),
     (''shift-expression'', Arrow (Diagram [chain ''additive-expression'' [''<<'', ''>>'']])),
     (''compare-expression'', Arrow (Diagram [chain ''shift-expression'' [''<=>'']])),
     (''relational-expression'', Arrow
       (Diagram [chain ''compare-expression'' [''<'', ''>'', ''<='', ''>='']])),
     (''equality-expression'', Arrow (Diagram [chain ''relational-expression'' [''=='', ''!='']])),
     (''and-expression'', Arrow (Diagram [chain ''equality-expression'' [''&'']])),
     (''exclusive-or-expression'', Arrow (Diagram [chain ''and-expression'' [''^'']])),
     (''inclusive-or-expression'', Arrow (Diagram [chain ''exclusive-or-expression'' [''|'']])),
     (''logical-and-expression'', Arrow (Diagram [chain ''inclusive-or-expression'' [''&&'']])),
     (''logical-or-expression'', Arrow (Diagram [chain ''logical-and-expression'' [''||'']])),
     (''conditional-expression'', Arrow
       (Diagram
          [NT ''logical-or-expression'',
           Optional
             (Sequence [T ''?'', NT ''expression'', T '':'', NT ''assignment-expression''])])),
     (''yield-expression'', Arrow
       (Diagram
          [T ''co_yield'', Choice 0 [NT ''assignment-expression'', NT ''braced-init-list'']])),
     (''throw-expression'', Arrow (Diagram [T ''throw'', Optional (NT ''assignment-expression'')])),
     (''assignment-expression'', Arrow
       (Diagram
          [Choice 0
             [NT ''conditional-expression'', NT ''yield-expression'', NT ''throw-expression'',
              Sequence
                [NT ''logical-or-expression'', NT ''assignment-operator'',
                 NT ''initializer-clause'']]])),
     (''assignment-operator'', Arrow
       (Diagram
          [Choice 0
             [T ''='', T ''*='', T ''/='', T ''%='', T ''+='', T ''-='', T ''>>='', T ''<<='',
              T ''&='', T ''^='', T ''|='']])),
     (''expression'', Arrow
       (Diagram
          [NT ''assignment-expression'',
           ZeroOrMore (Sequence [T '','', NT ''assignment-expression''])])),
     (''constant-expression'', Arrow (Diagram [NT ''conditional-expression'']))]\<close>

text \<open>The \<open>rules.set\<close> calls of the section \<open>statements\<close>, in the order of the source.\<close>

definition rules_statements :: "(string \<times> factory) list" where
  \<open>rules_statements =
    [(''statement'', Arrow
       (Diagram
          [Choice 0
             [NT ''labeled-statement'',
              Sequence [Optional (NT ''attribute-specifier-seq''), NT ''expression-statement''],
              Sequence [Optional (NT ''attribute-specifier-seq''), NT ''compound-statement''],
              Sequence [Optional (NT ''attribute-specifier-seq''), NT ''selection-statement''],
              Sequence [Optional (NT ''attribute-specifier-seq''), NT ''iteration-statement''],
              Sequence [Optional (NT ''attribute-specifier-seq''), NT ''jump-statement''],
              NT ''declaration-statement'',
              Sequence [Optional (NT ''attribute-specifier-seq''), NT ''try-block'']]])),
     (''init-statement'', Arrow
       (Diagram
          [Choice 0
             [NT ''expression-statement'', NT ''simple-declaration'', NT ''alias-declaration'']])),
     (''condition'', Arrow
       (Diagram
          [Choice 0
             [NT ''expression'',
              Sequence
                [Optional (NT ''attribute-specifier-seq''), NT ''decl-specifier-seq'',
                 NT ''declarator'', NT ''brace-or-equal-initializer'']]])),
     (''label'', Arrow
       (Diagram
          [Optional (NT ''attribute-specifier-seq''),
           Choice 0
             [Sequence [NT ''identifier'', T '':''],
              Sequence [T ''case'', NT ''constant-expression'', T '':''],
              Sequence [T ''default'', T '':'']]])),
     (''labeled-statement'', Arrow (Diagram [NT ''label'', NT ''statement''])),
     (''expression-statement'', Arrow (Diagram [Optional (NT ''expression''), T '';''])),
     (''compound-statement'', Arrow
       (Diagram [T ''{'', Optional (NT ''statement-seq''), Optional (NT ''label-seq''), T ''}''])),
     (''statement-seq'', Arrow (Diagram [OneOrMore (NT ''statement'')])),
     (''label-seq'', Arrow (Diagram [OneOrMore (NT ''label'')])),
     (''selection-statement'', Arrow
       (Diagram
          [Choice 0
             [Sequence
                [T ''if'', Optional (T ''constexpr''), T ''('', Optional (NT ''init-statement''),
                 NT ''condition'', T '')'', NT ''statement'',
                 Optional (Sequence [T ''else'', NT ''statement''])],
              Sequence
                [T ''if'', Optional (T ''!''), T ''consteval'', NT ''compound-statement'',
                 Optional (Sequence [T ''else'', NT ''statement''])],
              Sequence
                [T ''switch'', T ''('', Optional (NT ''init-statement''), NT ''condition'',
                 T '')'', NT ''statement'']]])),
     (''iteration-statement'', Arrow
       (Diagram
          [Choice 0
             [Sequence [T ''while'', T ''('', NT ''condition'', T '')'', NT ''statement''],
              Sequence
                [T ''do'', NT ''statement'', T ''while'', T ''('', NT ''expression'', T '')'',
                 T '';''],
              Sequence
                [T ''for'', T ''('', NT ''init-statement'', Optional (NT ''condition''), T '';'',
                 Optional (NT ''expression''), T '')'', NT ''statement''],
              Sequence
                [T ''for'', T ''('', Optional (NT ''init-statement''),
                 NT ''for-range-declaration'', T '':'', NT ''for-range-initializer'', T '')'',
                 NT ''statement'']]])),
     (''for-range-declaration'', Arrow
       (Diagram
          [Optional (NT ''attribute-specifier-seq''), NT ''decl-specifier-seq'',
           Choice 0
             [NT ''declarator'',
              Sequence
                [Optional (NT ''ref-qualifier''), T ''['', NT ''identifier-list'', T '']'']]])),
     (''for-range-initializer'', Arrow (Diagram [NT ''expr-or-braced-init-list''])),
     (''jump-statement'', Arrow
       (Diagram
          [Choice 0
             [Sequence [T ''break'', T '';''], Sequence [T ''continue'', T '';''],
              Sequence [T ''return'', Optional (NT ''expr-or-braced-init-list''), T '';''],
              NT ''coroutine-return-statement'',
              Sequence [T ''goto'', NT ''identifier'', T '';'']]])),
     (''coroutine-return-statement'', Arrow
       (Diagram [T ''co_return'', Optional (NT ''expr-or-braced-init-list''), T '';''])),
     (''declaration-statement'', Arrow (Diagram [NT ''block-declaration'']))]\<close>

text \<open>The \<open>rules.set\<close> calls of the section \<open>declarations\<close>, in the order of the source.\<close>

definition rules_declarations :: "(string \<times> factory) list" where
  \<open>rules_declarations =
    [(''declaration-seq'', Arrow (Diagram [OneOrMore (NT ''declaration'')])),
     (''declaration'', Arrow
       (Diagram [Choice 0 [NT ''name-declaration'', NT ''special-declaration'']])),
     (''name-declaration'', Arrow
       (Diagram
          [Choice 0
             [NT ''block-declaration'', NT ''nodeclspec-function-declaration'',
              NT ''function-definition'', NT ''template-declaration'', NT ''deduction-guide'',
              NT ''linkage-specification'', NT ''namespace-definition'', NT ''empty-declaration'',
              NT ''attribute-declaration'', NT ''module-import-declaration'']])),
     (''special-declaration'', Arrow
       (Diagram
          [Choice 0
             [NT ''explicit-instantiation'', NT ''explicit-specialization'',
              NT ''export-declaration'']])),
     (''block-declaration'', Arrow
       (Diagram
          [Choice 0
             [NT ''simple-declaration'', NT ''asm-declaration'',
              NT ''namespace-alias-definition'', NT ''using-declaration'',
              NT ''using-enum-declaration'', NT ''using-directive'',
              NT ''static_assert-declaration'', NT ''alias-declaration'',
              NT ''opaque-enum-declaration'']])),
     (''nodeclspec-function-declaration'', Arrow
       (Diagram [Optional (NT ''attribute-specifier-seq''), NT ''declarator'', T '';''])),
     (''alias-declaration'', Arrow
       (Diagram
          [T ''using'', NT ''identifier'', Optional (NT ''attribute-specifier-seq''), T ''='',
           NT ''defining-type-id'', T '';''])),
     (''simple-declaration'', Arrow
       (Diagram
          [Choice 0
             [Sequence
                [NT ''decl-specifier-seq'', Optional (NT ''init-declarator-list''), T '';''],
              Sequence
                [NT ''attribute-specifier-seq'', NT ''decl-specifier-seq'',
                 NT ''init-declarator-list'', T '';''],
              Sequence
                [Optional (NT ''attribute-specifier-seq''), NT ''decl-specifier-seq'',
                 Optional (NT ''ref-qualifier''), T ''['', NT ''identifier-list'', T '']'',
                 NT ''initializer'', T '';'']]])),
     (''static_assert-declaration'', Arrow
       (Diagram
          [T ''static_assert'', T ''('', NT ''constant-expression'',
           Optional (Sequence [T '','', NT ''string-literal'']), T '')'', T '';''])),
     (''empty-declaration'', Arrow (Diagram [T '';''])),
     (''attribute-declaration'', Arrow (Diagram [NT ''attribute-specifier-seq'', T '';''])),
     (''decl-specifier'', Arrow
       (Diagram
          [Choice 0
             [NT ''storage-class-specifier'', NT ''defining-type-specifier'',
              NT ''function-specifier'', T ''friend'', T ''typedef'', T ''constexpr'',
              T ''consteval'', T ''constinit'', T ''inline'']])),
     (''decl-specifier-seq'', Arrow
       (Diagram
          [NT ''decl-specifier'',
           Choice 0 [Optional (NT ''attribute-specifier-seq''), NT ''decl-specifier-seq'']])),
     (''storage-class-specifier'', Arrow
       (Diagram [Choice 0 [T ''static'', T ''thread_local'', T ''extern'', T ''mutable'']])),
     (''function-specifier'', Arrow
       (Diagram [Choice 0 [T ''virtual'', NT ''explicit-specifier'']])),
     (''explicit-specifier'', Arrow
       (Diagram
          [T ''explicit'', Optional (Sequence [T ''('', NT ''constant-expression'', T '')''])])),
     (''type-specifier'', Arrow
       (Diagram
          [Choice 0
             [NT ''simple-type-specifier'', NT ''elaborated-type-specifier'',
              NT ''typename-specifier'', NT ''cv-qualifier'']])),
     (''type-specifier-seq'', Arrow
       (Diagram
          [NT ''type-specifier'',
           Choice 0 [Optional (NT ''attribute-specifier-seq''), NT ''type-specifier-seq'']])),
     (''defining-type-specifier'', Arrow
       (Diagram [Choice 0 [NT ''type-specifier'', NT ''class-specifier'', NT ''enum-specifier'']])),
     (''defining-type-specifier-seq'', Arrow
       (Diagram
          [NT ''defining-type-specifier'',
           Choice 0
             [Optional (NT ''attribute-specifier-seq''), NT ''defining-type-specifier-seq'']])),
     (''simple-type-specifier'', Arrow
       (Diagram
          [Choice 0
             [Sequence [Optional (NT ''nested-name-specifier''), NT ''type-name''],
              Sequence [NT ''nested-name-specifier'', T ''template'', NT ''simple-template-id''],
              NT ''decltype-specifier'', NT ''placeholder-type-specifier'',
              Sequence [Optional (NT ''nested-name-specifier''), NT ''template-name''],
              T ''char'', T ''char8_t'', T ''char16_t'', T ''char32_t'', T ''wchar_t'',
              T ''bool'', T ''short'', T ''int'', T ''long'', T ''signed'', T ''unsigned'',
              T ''float'', T ''double'', T ''void'']])),
     (''type-name'', Arrow
       (Diagram [Choice 0 [NT ''class-name'', NT ''enum-name'', NT ''typedef-name'']])),
     (''elaborated-type-specifier'', Arrow
       (Diagram
          [Choice 0
             [Sequence
                [NT ''class-key'', Optional (NT ''attribute-specifier-seq''),
                 Optional (NT ''nested-name-specifier''), NT ''identifier''],
              Sequence [NT ''class-key'', NT ''simple-template-id''],
              Sequence
                [NT ''class-key'', NT ''nested-name-specifier'', Optional (T ''template''),
                 NT ''simple-template-id''],
              Sequence [T ''enum'', Optional (NT ''nested-name-specifier''), NT ''identifier'']]])),
     (''decltype-specifier'', Arrow
       (Diagram [T ''decltype'', T ''('', NT ''expression'', T '')''])),
     (''placeholder-type-specifier'', Arrow
       (Diagram
          [Optional (NT ''type-constraint''),
           Choice 0 [T ''auto'', Sequence [T ''decltype'', T ''('', T ''auto'', T '')'']]])),
     (''init-declarator-list'', Arrow
       (Diagram [NT ''init-declarator'', ZeroOrMore (Sequence [T '','', NT ''init-declarator''])])),
     (''init-declarator'', Arrow
       (Diagram
          [NT ''declarator'', Choice 0 [Optional (NT ''initializer''), NT ''requires-clause'']])),
     (''declarator'', Arrow
       (Diagram
          [Choice 0
             [NT ''ptr-declarator'',
              Sequence
                [NT ''noptr-declarator'', NT ''parameters-and-qualifiers'',
                 NT ''trailing-return-type'']]])),
     (''ptr-declarator'', Arrow
       (Diagram [ZeroOrMore (NT ''ptr-operator''), NT ''noptr-declarator''])),
     (''noptr-declarator'', Arrow
       (Diagram
          [Choice 0
             [Sequence [NT ''declarator-id'', Optional (NT ''attribute-specifier-seq'')],
              Sequence [T ''('', NT ''ptr-declarator'', T '')'']],
           ZeroOrMore
             (Choice 0
                [NT ''parameters-and-qualifiers'',
                 Sequence
                   [T ''['', Optional (NT ''constant-expression''), T '']'',
                    Optional (NT ''attribute-specifier-seq'')]])])),
     (''parameters-and-qualifiers'', Arrow
       (Diagram
          [T ''('', NT ''parameter-declaration-clause'', T '')'',
           Optional (NT ''cv-qualifier-seq''), Optional (NT ''ref-qualifier''),
           Optional (NT ''noexcept-specifier''), Optional (NT ''attribute-specifier-seq'')])),
     (''trailing-return-type'', Arrow (Diagram [T ''->'', NT ''type-id''])),
     (''ptr-operator'', Arrow
       (Diagram
          [Choice 0
             [Sequence
                [T ''*'', Optional (NT ''attribute-specifier-seq''),
                 Optional (NT ''cv-qualifier-seq'')],
              Sequence [T ''&'', Optional (NT ''attribute-specifier-seq'')],
              Sequence [T ''&&'', Optional (NT ''attribute-specifier-seq'')],
              Sequence
                [NT ''nested-name-specifier'', T ''*'', Optional (NT ''attribute-specifier-seq''),
                 Optional (NT ''cv-qualifier-seq'')]]])),
     (''cv-qualifier-seq'', Arrow (Diagram [OneOrMore (NT ''cv-qualifier'')])),
     (''cv-qualifier'', Arrow (Diagram [Choice 0 [T ''const'', T ''volatile'']])),
     (''ref-qualifier'', Arrow (Diagram [Choice 0 [T ''&'', T ''&&'']])),
     (''declarator-id'', Arrow (Diagram [Optional (T ''...''), NT ''id-expression''])),
     (''type-id'', Arrow
       (Diagram [NT ''type-specifier-seq'', Optional (NT ''abstract-declarator'')])),
     (''defining-type-id'', Arrow
       (Diagram [NT ''defining-type-specifier-seq'', Optional (NT ''abstract-declarator'')])),
     (''abstract-declarator'', Arrow
       (Diagram
          [Choice 0
             [NT ''ptr-abstract-declarator'',
              Sequence
                [Optional (NT ''noptr-abstract-declarator''), NT ''parameters-and-qualifiers'',
                 NT ''trailing-return-type''],
              NT ''abstract-pack-declarator'']])),
     (''ptr-abstract-declarator'', Arrow
       (Diagram [ZeroOrMore (NT ''ptr-operator''), Optional (NT ''noptr-abstract-declarator'')])),
     (''noptr-abstract-declarator'', Arrow
       (Diagram
          [Optional (Sequence [T ''('', NT ''ptr-abstract-declarator'', T '')'']),
           ZeroOrMore
             (Choice 0
                [NT ''parameters-and-qualifiers'',
                 Sequence
                   [T ''['', Optional (NT ''constant-expression''), T '']'',
                    Optional (NT ''attribute-specifier-seq'')]])])),
     (''abstract-pack-declarator'', Arrow
       (Diagram [ZeroOrMore (NT ''ptr-operator''), NT ''noptr-abstract-pack-declarator''])),
     (''noptr-abstract-pack-declarator'', Arrow
       (Diagram
          [T ''...'',
           ZeroOrMore
             (Choice 0
                [NT ''parameters-and-qualifiers'',
                 Sequence
                   [T ''['', Optional (NT ''constant-expression''), T '']'',
                    Optional (NT ''attribute-specifier-seq'')]])])),
     (''parameter-declaration-clause'', Arrow
       (Diagram
          [Choice 0
             [Sequence [Optional (NT ''parameter-declaration-list''), Optional (T ''...'')],
              Sequence [NT ''parameter-declaration-list'', T '','', T ''...'']]])),
     (''parameter-declaration-list'', Arrow
       (Diagram
          [NT ''parameter-declaration'',
           ZeroOrMore (Sequence [T '','', NT ''parameter-declaration''])])),
     (''parameter-declaration'', Arrow
       (Diagram
          [Optional (NT ''attribute-specifier-seq''), Optional (T ''this''),
           NT ''decl-specifier-seq'',
           Choice 0
             [Sequence
                [NT ''declarator'', Optional (Sequence [T ''='', NT ''initializer-clause''])],
              Sequence
                [Optional (NT ''abstract-declarator''),
                 Optional (Sequence [T ''='', NT ''initializer-clause''])]]])),
     (''initializer'', Arrow
       (Diagram
          [Choice 0
             [NT ''brace-or-equal-initializer'',
              Sequence [T ''('', NT ''expression-list'', T '')'']]])),
     (''brace-or-equal-initializer'', Arrow
       (Diagram
          [Choice 0 [Sequence [T ''='', NT ''initializer-clause''], NT ''braced-init-list'']])),
     (''initializer-clause'', Arrow
       (Diagram [Choice 0 [NT ''assignment-expression'', NT ''braced-init-list'']])),
     (''braced-init-list'', Arrow
       (Diagram
          [T ''{'',
           Choice 0
             [Sequence [NT ''initializer-list'', Optional (T '','')],
              Sequence [NT ''designated-initializer-list'', Optional (T '','')],
              Comment ''empty''],
           T ''}''])),
     (''initializer-list'', Arrow
       (Diagram
          [NT ''initializer-clause'', Optional (T ''...''),
           ZeroOrMore (Sequence [T '','', NT ''initializer-clause'', Optional (T ''...'')])])),
     (''designated-initializer-list'', Arrow
       (Diagram
          [NT ''designated-initializer-clause'',
           ZeroOrMore (Sequence [T '','', NT ''designated-initializer-clause''])])),
     (''designated-initializer-clause'', Arrow
       (Diagram [NT ''designator'', NT ''brace-or-equal-initializer''])),
     (''designator'', Arrow (Diagram [T ''.'', NT ''identifier''])),
     (''expr-or-braced-init-list'', Arrow
       (Diagram [Choice 0 [NT ''expression'', NT ''braced-init-list'']])),
     (''function-definition'', Arrow
       (Diagram
          [Optional (NT ''attribute-specifier-seq''), Optional (NT ''decl-specifier-seq''),
           NT ''declarator'',
           Choice 0
             [Sequence [Optional (NT ''virt-specifier-seq''), NT ''function-body''],
              Sequence [NT ''requires-clause'', NT ''function-body'']]])),
     (''function-body'', Arrow
       (Diagram
          [Choice 0
             [Sequence [Optional (NT ''ctor-initializer''), NT ''compound-statement''],
              NT ''function-try-block'', Sequence [T ''='', T ''default'', T '';''],
              Sequence [T ''='', T ''delete'', T '';'']]])),
     (''enum-specifier'', Arrow
       (Diagram
          [NT ''enum-head'', T ''{'',
           Choice 0
             [Optional (NT ''enumerator-list''), Sequence [NT ''enumerator-list'', T '','']],
           T ''}''])),
     (''enum-head'', Arrow
       (Diagram
          [NT ''enum-key'', Optional (NT ''attribute-specifier-seq''),
           Optional (NT ''enum-head-name''), Optional (NT ''enum-base'')])),
     (''enum-head-name'', Arrow
       (Diagram [Optional (NT ''nested-name-specifier''), NT ''identifier''])),
     (''opaque-enum-declaration'', Arrow
       (Diagram
          [NT ''enum-key'', Optional (NT ''attribute-specifier-seq''), NT ''enum-head-name'',
           Optional (NT ''enum-base''), T '';''])),
     (''enum-key'', Arrow
       (Diagram
          [Choice 0
             [T ''enum'', Sequence [T ''enum'', T ''class''], Sequence [T ''enum'', T ''struct'']]])),
     (''enum-base'', Arrow (Diagram [T '':'', NT ''type-specifier-seq''])),
     (''enumerator-list'', Arrow
       (Diagram
          [NT ''enumerator-definition'',
           ZeroOrMore (Sequence [T '','', NT ''enumerator-definition''])])),
     (''enumerator-definition'', Arrow
       (Diagram [NT ''enumerator'', Optional (Sequence [T ''='', NT ''constant-expression''])])),
     (''enumerator'', Arrow
       (Diagram [NT ''identifier'', Optional (NT ''attribute-specifier-seq'')])),
     (''using-enum-declaration'', Arrow
       (Diagram [T ''using'', T ''enum'', NT ''using-enum-declarator'', T '';''])),
     (''using-enum-declarator'', Arrow
       (Diagram
          [Optional (NT ''nested-name-specifier''),
           Choice 0 [NT ''identifier'', NT ''simple-template-id'']])),
     (''namespace-definition'', Arrow
       (Diagram
          [Choice 0
             [NT ''named-namespace-definition'', NT ''unnamed-namespace-definition'',
              NT ''nested-namespace-definition'']])),
     (''named-namespace-definition'', Arrow
       (Diagram
          [Optional (T ''inline''), T ''namespace'', Optional (NT ''attribute-specifier-seq''),
           NT ''identifier'', T ''{'', NT ''namespace-body'', T ''}''])),
     (''unnamed-namespace-definition'', Arrow
       (Diagram
          [Optional (T ''inline''), T ''namespace'', Optional (NT ''attribute-specifier-seq''),
           T ''{'', NT ''namespace-body'', T ''}''])),
     (''nested-namespace-definition'', Arrow
       (Diagram
          [T ''namespace'', NT ''enclosing-namespace-specifier'', T ''::'',
           Optional (T ''inline''), NT ''identifier'', T ''{'', NT ''namespace-body'', T ''}''])),
     (''enclosing-namespace-specifier'', Arrow
       (Diagram
          [NT ''identifier'',
           ZeroOrMore (Sequence [T ''::'', Optional (T ''inline''), NT ''identifier''])])),
     (''namespace-body'', Arrow (Diagram [Optional (NT ''declaration-seq'')])),
     (''namespace-alias-definition'', Arrow
       (Diagram
          [T ''namespace'', NT ''identifier'', T ''='', NT ''qualified-namespace-specifier'',
           T '';''])),
     (''qualified-namespace-specifier'', Arrow
       (Diagram [Optional (NT ''nested-name-specifier''), NT ''namespace-name''])),
     (''using-directive'', Arrow
       (Diagram
          [Optional (NT ''attribute-specifier-seq''), T ''using'', T ''namespace'',
           Optional (NT ''nested-name-specifier''), NT ''namespace-name'', T '';''])),
     (''using-declaration'', Arrow (Diagram [T ''using'', NT ''using-declarator-list'', T '';''])),
     (''using-declarator-list'', Arrow
       (Diagram
          [NT ''using-declarator'', Optional (T ''...''),
           ZeroOrMore (Sequence [T '','', NT ''using-declarator'', Optional (T ''...'')])])),
     (''using-declarator'', Arrow
       (Diagram [Optional (T ''typename''), NT ''nested-name-specifier'', NT ''unqualified-id''])),
     (''asm-declaration'', Arrow
       (Diagram
          [Optional (NT ''attribute-specifier-seq''), T ''asm'', T ''('', NT ''string-literal'',
           T '')'', T '';''])),
     (''linkage-specification'', Arrow
       (Diagram
          [T ''extern'', NT ''string-literal'',
           Choice 0
             [Sequence [T ''{'', Optional (NT ''declaration-seq''), T ''}''],
              NT ''name-declaration'']])),
     (''attribute-specifier-seq'', Arrow (Diagram [OneOrMore (NT ''attribute-specifier'')])),
     (''attribute-specifier'', Arrow
       (Diagram
          [Choice 0
             [Sequence
                [T ''['', T ''['', Optional (NT ''attribute-using-prefix''),
                 NT ''attribute-list'', T '']'', T '']''],
              NT ''alignment-specifier'']])),
     (''alignment-specifier'', Arrow
       (Diagram
          [T ''alignas'', T ''('', Choice 0 [NT ''type-id'', NT ''constant-expression''],
           Optional (T ''...''), T '')''])),
     (''attribute-using-prefix'', Arrow
       (Diagram [T ''using'', NT ''attribute-namespace'', T '':''])),
     (''attribute-list'', Arrow
       (Diagram
          [Optional (NT ''attribute''),
           ZeroOrMore
             (Sequence
                [T '','',
                 Choice 0 [Optional (NT ''attribute''), Sequence [NT ''attribute'', T ''...'']]])])),
     (''attribute'', Arrow
       (Diagram [NT ''attribute-token'', Optional (NT ''attribute-argument-clause'')])),
     (''attribute-token'', Arrow
       (Diagram [Choice 0 [NT ''identifier'', NT ''attribute-scoped-token'']])),
     (''attribute-scoped-token'', Arrow
       (Diagram [NT ''attribute-namespace'', T ''::'', NT ''identifier''])),
     (''attribute-namespace'', Arrow (Diagram [NT ''identifier''])),
     (''attribute-argument-clause'', Arrow
       (Diagram [T ''('', Optional (NT ''balanced-token-seq''), T '')''])),
     (''balanced-token-seq'', Arrow (Diagram [OneOrMore (NT ''balanced-token'')])),
     (''balanced-token'', Arrow
       (Diagram
          [Choice 0
             [Sequence [T ''('', Optional (NT ''balanced-token-seq''), T '')''],
              Sequence [T ''['', Optional (NT ''balanced-token-seq''), T '']''],
              Sequence [T ''{'', Optional (NT ''balanced-token-seq''), T ''}''],
              Comment ''any token except ( ) [ ] { }'']]))]\<close>

text \<open>The \<open>rules.set\<close> calls of the section \<open>modules\<close>, in the order of the source.\<close>

definition rules_modules :: "(string \<times> factory) list" where
  \<open>rules_modules =
    [(''module-declaration'', Arrow
       (Diagram
          [Optional (T ''export''), T ''module'', NT ''module-name'',
           Optional (NT ''module-partition''), Optional (NT ''attribute-specifier-seq''), T '';''])),
     (''module-name'', Arrow
       (Diagram [Optional (NT ''module-name-qualifier''), NT ''identifier''])),
     (''module-partition'', Arrow
       (Diagram [T '':'', Optional (NT ''module-name-qualifier''), NT ''identifier''])),
     (''module-name-qualifier'', Arrow
       (Diagram [NT ''identifier'', T ''.'', ZeroOrMore (Sequence [NT ''identifier'', T ''.''])])),
     (''export-declaration'', Arrow
       (Diagram
          [Choice 0
             [Sequence [T ''export'', NT ''name-declaration''],
              Sequence [T ''export'', T ''{'', Optional (NT ''declaration-seq''), T ''}''],
              Sequence [T ''export'', NT ''module-import-declaration'']]])),
     (''module-import-declaration'', Arrow
       (Diagram
          [T ''import'',
           Choice 0 [NT ''module-name'', NT ''module-partition'', NT ''header-name''],
           Optional (NT ''attribute-specifier-seq''), T '';''])),
     (''global-module-fragment'', Arrow
       (Diagram [T ''module'', T '';'', Optional (NT ''declaration-seq'')])),
     (''private-module-fragment'', Arrow
       (Diagram
          [T ''module'', T '':'', T ''private'', T '';'', Optional (NT ''declaration-seq'')]))]\<close>

text \<open>The \<open>rules.set\<close> calls of the section \<open>classes\<close>, in the order of the source.\<close>

definition rules_classes :: "(string \<times> factory) list" where
  \<open>rules_classes =
    [(''class-specifier'', Arrow
       (Diagram [NT ''class-head'', T ''{'', Optional (NT ''member-specification''), T ''}''])),
     (''class-head'', Arrow
       (Diagram
          [NT ''class-key'', Optional (NT ''attribute-specifier-seq''),
           Optional (Sequence [NT ''class-head-name'', Optional (NT ''class-virt-specifier'')]),
           Optional (NT ''base-clause'')])),
     (''class-head-name'', Arrow
       (Diagram [Optional (NT ''nested-name-specifier''), NT ''class-name''])),
     (''class-virt-specifier'', Arrow (Diagram [T ''final''])),
     (''class-key'', Arrow (Diagram [Choice 0 [T ''class'', T ''struct'', T ''union'']])),
     (''member-specification'', Arrow
       (Diagram
          [OneOrMore
             (Choice 0 [NT ''member-declaration'', Sequence [NT ''access-specifier'', T '':'']])])),
     (''member-declaration'', Arrow
       (Diagram
          [Choice 0
             [Sequence
                [Optional (NT ''attribute-specifier-seq''), Optional (NT ''decl-specifier-seq''),
                 Optional (NT ''member-declarator-list''), T '';''],
              NT ''function-definition'', NT ''using-declaration'', NT ''using-enum-declaration'',
              NT ''static_assert-declaration'', NT ''template-declaration'',
              NT ''explicit-specialization'', NT ''deduction-guide'', NT ''alias-declaration'',
              NT ''opaque-enum-declaration'', NT ''empty-declaration'']])),
     (''member-declarator-list'', Arrow
       (Diagram
          [NT ''member-declarator'', ZeroOrMore (Sequence [T '','', NT ''member-declarator''])])),
     (''member-declarator'', Arrow
       (Diagram
          [Choice 0
             [Sequence
                [NT ''declarator'',
                 Choice 0
                   [Sequence
                      [Optional (NT ''virt-specifier-seq''), Optional (NT ''pure-specifier'')],
                    NT ''requires-clause'', Optional (NT ''brace-or-equal-initializer'')]],
              Sequence
                [Optional (NT ''identifier''), Optional (NT ''attribute-specifier-seq''), T '':'',
                 NT ''constant-expression'', Optional (NT ''brace-or-equal-initializer'')]]])),
     (''virt-specifier-seq'', Arrow (Diagram [OneOrMore (NT ''virt-specifier'')])),
     (''virt-specifier'', Arrow (Diagram [Choice 0 [T ''override'', T ''final'']])),
     (''pure-specifier'', Arrow (Diagram [T ''='', T ''0''])),
     (''conversion-function-id'', Arrow (Diagram [T ''operator'', NT ''conversion-type-id''])),
     (''conversion-type-id'', Arrow
       (Diagram [NT ''type-specifier-seq'', Optional (NT ''conversion-declarator'')])),
     (''conversion-declarator'', Arrow
       (Diagram [NT ''ptr-operator'', Optional (NT ''conversion-declarator'')])),
     (''base-clause'', Arrow (Diagram [T '':'', NT ''base-specifier-list''])),
     (''base-specifier-list'', Arrow
       (Diagram
          [NT ''base-specifier'', Optional (T ''...''),
           ZeroOrMore (Sequence [T '','', NT ''base-specifier'', Optional (T ''...'')])])),
     (''base-specifier'', Arrow
       (Diagram
          [Optional (NT ''attribute-specifier-seq''),
           Choice 0
             [NT ''class-or-decltype'',
              Sequence
                [T ''virtual'', Optional (NT ''access-specifier''), NT ''class-or-decltype''],
              Sequence
                [NT ''access-specifier'', Optional (T ''virtual''), NT ''class-or-decltype'']]])),
     (''class-or-decltype'', Arrow
       (Diagram
          [Choice 0
             [Sequence [Optional (NT ''nested-name-specifier''), NT ''type-name''],
              Sequence [NT ''nested-name-specifier'', T ''template'', NT ''simple-template-id''],
              NT ''decltype-specifier'']])),
     (''access-specifier'', Arrow
       (Diagram [Choice 0 [T ''private'', T ''protected'', T ''public'']])),
     (''ctor-initializer'', Arrow (Diagram [T '':'', NT ''mem-initializer-list''])),
     (''mem-initializer-list'', Arrow
       (Diagram
          [NT ''mem-initializer'', Optional (T ''...''),
           ZeroOrMore (Sequence [T '','', NT ''mem-initializer'', Optional (T ''...'')])])),
     (''mem-initializer'', Arrow
       (Diagram
          [NT ''mem-initializer-id'',
           Choice 0
             [Sequence [T ''('', Optional (NT ''expression-list''), T '')''],
              NT ''braced-init-list'']])),
     (''mem-initializer-id'', Arrow
       (Diagram [Choice 0 [NT ''class-or-decltype'', NT ''identifier'']]))]\<close>

text \<open>The \<open>rules.set\<close> calls of the section \<open>overloading\<close>, in the order of the source.\<close>

definition rules_overloading :: "(string \<times> factory) list" where
  \<open>rules_overloading =
    [(''operator-function-id'', Arrow (Diagram [T ''operator'', NT ''operator''])),
     (''operator'', Arrow
       (Diagram
          [Choice 0
             [T ''new'', T ''delete'', T ''new[]'', T ''delete[]'', T ''co_await'', T ''()'',
              T ''[]'', T ''->'', T ''->*'', T ''~'', T ''!'', T ''+'', T ''-'', T ''*'', T ''/'',
              T ''%'', T ''^'', T ''&'', T ''|'', T ''='', T ''+='', T ''-='', T ''*='', T ''/='',
              T ''%='', T ''^='', T ''&='', T ''|='', T ''=='', T ''!='', T ''<'', T ''>'',
              T ''<='', T ''>='', T ''<=>'', T ''&&'', T ''||'', T ''<<'', T ''>>'', T ''<<='',
              T ''>>='', T ''++'', T ''--'', T '','']])),
     (''literal-operator-id'', Arrow
       (Diagram
          [T ''operator'',
           Choice 0
             [Sequence [NT ''string-literal'', NT ''identifier''],
              NT ''user-defined-string-literal'']]))]\<close>

text \<open>The \<open>rules.set\<close> calls of the section \<open>templates\<close>, in the order of the source.\<close>

definition rules_templates :: "(string \<times> factory) list" where
  \<open>rules_templates =
    [(''template-declaration'', Arrow
       (Diagram [NT ''template-head'', Choice 0 [NT ''declaration'', NT ''concept-definition'']])),
     (''template-head'', Arrow
       (Diagram
          [T ''template'', T ''<'', NT ''template-parameter-list'', T ''>'',
           Optional (NT ''requires-clause'')])),
     (''template-parameter-list'', Arrow
       (Diagram
          [NT ''template-parameter'', ZeroOrMore (Sequence [T '','', NT ''template-parameter''])])),
     (''requires-clause'', Arrow
       (Diagram [T ''requires'', NT ''constraint-logical-or-expression''])),
     (''constraint-logical-or-expression'', Arrow
       (Diagram
          [NT ''constraint-logical-and-expression'',
           ZeroOrMore (Sequence [T ''||'', NT ''constraint-logical-and-expression''])])),
     (''constraint-logical-and-expression'', Arrow
       (Diagram
          [NT ''primary-expression'', ZeroOrMore (Sequence [T ''&&'', NT ''primary-expression''])])),
     (''template-parameter'', Arrow
       (Diagram [Choice 0 [NT ''type-parameter'', NT ''parameter-declaration'']])),
     (''type-parameter'', Arrow
       (Diagram
          [Choice 0
             [Sequence
                [NT ''type-parameter-key'', Optional (T ''...''), Optional (NT ''identifier'')],
              Sequence
                [NT ''type-parameter-key'', Optional (NT ''identifier''), T ''='', NT ''type-id''],
              Sequence
                [NT ''type-constraint'', Optional (T ''...''), Optional (NT ''identifier'')],
              Sequence
                [NT ''type-constraint'', Optional (NT ''identifier''), T ''='', NT ''type-id''],
              Sequence
                [NT ''template-head'', NT ''type-parameter-key'', Optional (T ''...''),
                 Optional (NT ''identifier'')],
              Sequence
                [NT ''template-head'', NT ''type-parameter-key'', Optional (NT ''identifier''),
                 T ''='', NT ''id-expression'']]])),
     (''type-parameter-key'', Arrow (Diagram [Choice 0 [T ''class'', T ''typename'']])),
     (''type-constraint'', Arrow
       (Diagram
          [Optional (NT ''nested-name-specifier''), NT ''concept-name'',
           Optional (Sequence [T ''<'', Optional (NT ''template-argument-list''), T ''>''])])),
     (''simple-template-id'', Arrow
       (Diagram
          [NT ''template-name'', T ''<'', Optional (NT ''template-argument-list''), T ''>''])),
     (''template-id'', Arrow
       (Diagram
          [Choice 0
             [NT ''simple-template-id'',
              Sequence
                [NT ''operator-function-id'', T ''<'', Optional (NT ''template-argument-list''),
                 T ''>''],
              Sequence
                [NT ''literal-operator-id'', T ''<'', Optional (NT ''template-argument-list''),
                 T ''>'']]])),
     (''template-argument-list'', Arrow
       (Diagram
          [NT ''template-argument'', Optional (T ''...''),
           ZeroOrMore (Sequence [T '','', NT ''template-argument'', Optional (T ''...'')])])),
     (''template-argument'', Arrow
       (Diagram [Choice 0 [NT ''constant-expression'', NT ''type-id'', NT ''id-expression'']])),
     (''constraint-expression'', Arrow (Diagram [NT ''logical-or-expression''])),
     (''deduction-guide'', Arrow
       (Diagram
          [Optional (NT ''explicit-specifier''), NT ''template-name'', T ''('',
           NT ''parameter-declaration-clause'', T '')'', T ''->'', NT ''simple-template-id'',
           T '';''])),
     (''concept-definition'', Arrow
       (Diagram
          [T ''concept'', NT ''concept-name'', Optional (NT ''attribute-specifier-seq''), T ''='',
           NT ''constraint-expression'', T '';''])),
     (''concept-name'', Arrow (Diagram [NT ''identifier''])),
     (''typename-specifier'', Arrow
       (Diagram
          [T ''typename'', NT ''nested-name-specifier'',
           Choice 0
             [NT ''identifier'', Sequence [Optional (T ''template''), NT ''simple-template-id'']]])),
     (''explicit-instantiation'', Arrow
       (Diagram [Optional (T ''extern''), T ''template'', NT ''declaration''])),
     (''explicit-specialization'', Arrow
       (Diagram [T ''template'', T ''<'', T ''>'', NT ''declaration'']))]\<close>

text \<open>The \<open>rules.set\<close> calls of the section \<open>exceptions\<close>, in the order of the source.\<close>

definition rules_exceptions :: "(string \<times> factory) list" where
  \<open>rules_exceptions =
    [(''try-block'', Arrow (Diagram [T ''try'', NT ''compound-statement'', NT ''handler-seq''])),
     (''function-try-block'', Arrow
       (Diagram
          [T ''try'', Optional (NT ''ctor-initializer''), NT ''compound-statement'',
           NT ''handler-seq''])),
     (''handler-seq'', Arrow (Diagram [OneOrMore (NT ''handler'')])),
     (''handler'', Arrow
       (Diagram
          [T ''catch'', T ''('', NT ''exception-declaration'', T '')'', NT ''compound-statement''])),
     (''exception-declaration'', Arrow
       (Diagram
          [Choice 0
             [Sequence
                [Optional (NT ''attribute-specifier-seq''), NT ''type-specifier-seq'',
                 Choice 0 [NT ''declarator'', Optional (NT ''abstract-declarator'')]],
              T ''...'']])),
     (''noexcept-specifier'', Arrow
       (Diagram
          [T ''noexcept'', Optional (Sequence [T ''('', NT ''constant-expression'', T '')''])]))]\<close>

text \<open>The \<open>rules.set\<close> calls of the section \<open>preprocessing\<close>, in the order of the source.\<close>

definition rules_preprocessing :: "(string \<times> factory) list" where
  \<open>rules_preprocessing =
    [(''preprocessing-file'', Arrow
       (Diagram [Choice 0 [Optional (NT ''group''), NT ''module-file'']])),
     (''module-file'', Arrow
       (Diagram
          [Optional (NT ''pp-global-module-fragment''), NT ''pp-module'', Optional (NT ''group''),
           Optional (NT ''pp-private-module-fragment'')])),
     (''pp-global-module-fragment'', Arrow
       (Diagram [T ''module'', T '';'', NT ''new-line'', Optional (NT ''group'')])),
     (''pp-private-module-fragment'', Arrow
       (Diagram
          [T ''module'', T '':'', T ''private'', T '';'', NT ''new-line'',
           Optional (NT ''group'')])),
     (''group'', Arrow (Diagram [OneOrMore (NT ''group-part'')])),
     (''group-part'', Arrow
       (Diagram
          [Choice 0
             [NT ''control-line'', NT ''if-section'', NT ''text-line'',
              Sequence [T ''#'', NT ''conditionally-supported-directive'']]])),
     (''control-line'', Arrow
       (Diagram
          [Choice 0
             [Sequence [T ''#'', T ''include'', NT ''pp-tokens'', NT ''new-line''],
              NT ''pp-import'',
              Sequence
                [T ''#'', T ''define'', NT ''identifier'', NT ''replacement-list'',
                 NT ''new-line''],
              Sequence
                [T ''#'', T ''define'', NT ''identifier'', NT ''lparen'',
                 Optional (NT ''identifier-list''), T '')'', NT ''replacement-list'',
                 NT ''new-line''],
              Sequence
                [T ''#'', T ''define'', NT ''identifier'', NT ''lparen'', T ''...'', T '')'',
                 NT ''replacement-list'', NT ''new-line''],
              Sequence
                [T ''#'', T ''define'', NT ''identifier'', NT ''lparen'', NT ''identifier-list'',
                 T '','', T ''...'', T '')'', NT ''replacement-list'', NT ''new-line''],
              Sequence [T ''#'', T ''undef'', NT ''identifier'', NT ''new-line''],
              Sequence [T ''#'', T ''line'', NT ''pp-tokens'', NT ''new-line''],
              Sequence [T ''#'', T ''error'', Optional (NT ''pp-tokens''), NT ''new-line''],
              Sequence [T ''#'', T ''warning'', Optional (NT ''pp-tokens''), NT ''new-line''],
              Sequence [T ''#'', T ''pragma'', Optional (NT ''pp-tokens''), NT ''new-line''],
              Sequence [T ''#'', NT ''new-line'']]])),
     (''if-section'', Arrow
       (Diagram
          [NT ''if-group'', Optional (NT ''elif-groups''), Optional (NT ''else-group''),
           NT ''endif-line''])),
     (''if-group'', Arrow
       (Diagram
          [T ''#'',
           Choice 0
             [Sequence [T ''if'', NT ''constant-expression''],
              Sequence [T ''ifdef'', NT ''identifier''],
              Sequence [T ''ifndef'', NT ''identifier'']],
           NT ''new-line'', Optional (NT ''group'')])),
     (''elif-groups'', Arrow (Diagram [OneOrMore (NT ''elif-group'')])),
     (''elif-group'', Arrow
       (Diagram
          [T ''#'',
           Choice 0
             [Sequence [T ''elif'', NT ''constant-expression''],
              Sequence [T ''elifdef'', NT ''identifier''],
              Sequence [T ''elifndef'', NT ''identifier'']],
           NT ''new-line'', Optional (NT ''group'')])),
     (''else-group'', Arrow
       (Diagram [T ''#'', T ''else'', NT ''new-line'', Optional (NT ''group'')])),
     (''endif-line'', Arrow (Diagram [T ''#'', T ''endif'', NT ''new-line''])),
     (''text-line'', Arrow (Diagram [Optional (NT ''pp-tokens''), NT ''new-line''])),
     (''conditionally-supported-directive'', Arrow (Diagram [NT ''pp-tokens'', NT ''new-line''])),
     (''lparen'', Arrow (Diagram [Comment ''( not preceded by whitespace''])),
     (''identifier-list'', Arrow
       (Diagram [NT ''identifier'', ZeroOrMore (Sequence [T '','', NT ''identifier''])])),
     (''replacement-list'', Arrow (Diagram [Optional (NT ''pp-tokens'')])),
     (''pp-tokens'', Arrow (Diagram [OneOrMore (NT ''preprocessing-token'')])),
     (''new-line'', Arrow (Diagram [Comment ''the new-line character''])),
     (''defined-macro-expression'', Arrow
       (Diagram
          [T ''defined'',
           Choice 0 [NT ''identifier'', Sequence [T ''('', NT ''identifier'', T '')'']]])),
     (''h-preprocessing-token'', Arrow
       (Diagram [Comment ''any preprocessing-token other than >''])),
     (''h-pp-tokens'', Arrow (Diagram [OneOrMore (NT ''h-preprocessing-token'')])),
     (''header-name-tokens'', Arrow
       (Diagram
          [Choice 0 [NT ''string-literal'', Sequence [T ''<'', NT ''h-pp-tokens'', T ''>'']]])),
     (''has-include-expression'', Arrow
       (Diagram
          [T ''__has_include'', T ''('', Choice 0 [NT ''header-name'', NT ''header-name-tokens''],
           T '')''])),
     (''has-attribute-expression'', Arrow
       (Diagram [T ''__has_cpp_attribute'', T ''('', NT ''pp-tokens'', T '')''])),
     (''pp-module'', Arrow
       (Diagram
          [Optional (T ''export''), T ''module'', Optional (NT ''pp-tokens''), T '';'',
           NT ''new-line''])),
     (''pp-import'', Arrow
       (Diagram
          [Optional (T ''export''), T ''import'',
           Choice 0 [NT ''header-name'', NT ''header-name-tokens'', NT ''pp-tokens''],
           Optional (NT ''pp-tokens''), T '';'', NT ''new-line''])),
     (''va-opt-replacement'', Arrow
       (Diagram [T ''__VA_OPT__'', T ''('', Optional (NT ''pp-tokens''), T '')'']))]\<close>

definition rules_set_calls :: "(string \<times> factory) list" where
  "rules_set_calls =
     rules_keywords @
     rules_lexical @
     rules_literals @
     rules_basics @
     rules_expressions @
     rules_statements @
     rules_declarations @
     rules_modules @
     rules_classes @
     rules_overloading @
     rules_templates @
     rules_exceptions @
     rules_preprocessing"

definition rules :: "(string \<times> factory) list" where
  "rules = fold (\<lambda>(name, factory) m. Map_set m name factory) rules_set_calls []"

definition SECTION_ORDER :: "SectionId list" where
  "SECTION_ORDER =
     [Keywords, Lexical, Literals, Basics, Expressions, Statements, Declarations, Modules, Classes, Overloading, Templates, Exceptions, Preprocessing]"

definition SECTION_TITLES :: "SectionId \<Rightarrow> string" where
  "SECTION_TITLES s =
     (case s of
        Keywords \<Rightarrow> ''A.2 Keywords''
      | Lexical \<Rightarrow> ''A.3 Lexical Conventions''
      | Literals \<Rightarrow> ''A.3 Literals''
      | Basics \<Rightarrow> ''A.4 Basics''
      | Expressions \<Rightarrow> ''A.5 Expressions''
      | Statements \<Rightarrow> ''A.6 Statements''
      | Declarations \<Rightarrow> ''A.7 Declarations''
      | Modules \<Rightarrow> ''A.8 Modules''
      | Classes \<Rightarrow> ''A.9 Classes''
      | Overloading \<Rightarrow> ''A.10 Overloading''
      | Templates \<Rightarrow> ''A.11 Templates''
      | Exceptions \<Rightarrow> ''A.12 Exception Handling''
      | Preprocessing \<Rightarrow> ''A.13 Preprocessing Directives'')"

definition SECTION_RULES_keywords :: "string list" where
  \<open>SECTION_RULES_keywords =
    [''typedef-name'', ''namespace-name'', ''namespace-alias'', ''class-name'', ''enum-name'',
     ''template-name'']\<close>

definition SECTION_RULES_lexical :: "string list" where
  \<open>SECTION_RULES_lexical =
    [''n-char'', ''n-char-sequence'', ''named-universal-character'', ''hex-quad'',
     ''simple-hexadecimal-digit-sequence'', ''universal-character-name'', ''preprocessing-token'',
     ''token'', ''header-name'', ''h-char-sequence'', ''h-char'', ''q-char-sequence'', ''q-char'',
     ''pp-number'', ''identifier'', ''identifier-start'', ''identifier-continue'', ''nondigit'',
     ''digit'', ''keyword'', ''preprocessing-op-or-punc'', ''preprocessing-operator'',
     ''operator-or-punctuator'']\<close>

definition SECTION_RULES_literals :: "string list" where
  \<open>SECTION_RULES_literals =
    [''literal'', ''integer-literal'', ''binary-literal'', ''octal-literal'', ''decimal-literal'',
     ''hexadecimal-literal'', ''binary-digit'', ''octal-digit'', ''nonzero-digit'',
     ''hexadecimal-prefix'', ''hexadecimal-digit-sequence'', ''hexadecimal-digit'',
     ''integer-suffix'', ''unsigned-suffix'', ''long-suffix'', ''long-long-suffix'',
     ''size-suffix'', ''character-literal'', ''encoding-prefix'', ''c-char-sequence'', ''c-char'',
     ''basic-c-char'', ''escape-sequence'', ''simple-escape-sequence'',
     ''simple-escape-sequence-char'', ''numeric-escape-sequence'',
     ''simple-octal-digit-sequence'', ''octal-escape-sequence'', ''hexadecimal-escape-sequence'',
     ''conditional-escape-sequence'', ''conditional-escape-sequence-char'',
     ''floating-point-literal'', ''decimal-floating-point-literal'',
     ''hexadecimal-floating-point-literal'', ''fractional-constant'',
     ''hexadecimal-fractional-constant'', ''exponent-part'', ''binary-exponent-part'', ''sign'',
     ''digit-sequence'', ''floating-point-suffix'', ''string-literal'', ''s-char-sequence'',
     ''s-char'', ''basic-s-char'', ''raw-string'', ''r-char-sequence'', ''r-char'',
     ''d-char-sequence'', ''d-char'', ''boolean-literal'', ''pointer-literal'',
     ''user-defined-literal'', ''user-defined-integer-literal'',
     ''user-defined-floating-point-literal'', ''user-defined-string-literal'',
     ''user-defined-character-literal'', ''ud-suffix'']\<close>

definition SECTION_RULES_basics :: "string list" where
  \<open>SECTION_RULES_basics =
    [''translation-unit'']\<close>

definition SECTION_RULES_expressions :: "string list" where
  \<open>SECTION_RULES_expressions =
    [''primary-expression'', ''id-expression'', ''unqualified-id'', ''qualified-id'',
     ''nested-name-specifier'', ''lambda-expression'', ''lambda-introducer'',
     ''lambda-declarator'', ''lambda-specifier'', ''lambda-specifier-seq'', ''lambda-capture'',
     ''capture-default'', ''capture-list'', ''capture'', ''simple-capture'', ''init-capture'',
     ''fold-expression'', ''fold-operator'', ''requires-expression'',
     ''requirement-parameter-list'', ''requirement-body'', ''requirement-seq'', ''requirement'',
     ''simple-requirement'', ''type-requirement'', ''compound-requirement'',
     ''return-type-requirement'', ''nested-requirement'', ''postfix-expression'',
     ''expression-list'', ''unary-expression'', ''unary-operator'', ''await-expression'',
     ''noexcept-expression'', ''new-expression'', ''new-placement'', ''new-type-id'',
     ''new-declarator'', ''noptr-new-declarator'', ''new-initializer'', ''delete-expression'',
     ''cast-expression'', ''pm-expression'', ''multiplicative-expression'',
     ''additive-expression'', ''shift-expression'', ''compare-expression'',
     ''relational-expression'', ''equality-expression'', ''and-expression'',
     ''exclusive-or-expression'', ''inclusive-or-expression'', ''logical-and-expression'',
     ''logical-or-expression'', ''conditional-expression'', ''yield-expression'',
     ''throw-expression'', ''assignment-expression'', ''assignment-operator'', ''expression'',
     ''constant-expression'']\<close>

definition SECTION_RULES_statements :: "string list" where
  \<open>SECTION_RULES_statements =
    [''statement'', ''init-statement'', ''condition'', ''label'', ''labeled-statement'',
     ''expression-statement'', ''compound-statement'', ''statement-seq'', ''label-seq'',
     ''selection-statement'', ''iteration-statement'', ''for-range-declaration'',
     ''for-range-initializer'', ''jump-statement'', ''coroutine-return-statement'',
     ''declaration-statement'']\<close>

definition SECTION_RULES_declarations :: "string list" where
  \<open>SECTION_RULES_declarations =
    [''declaration-seq'', ''declaration'', ''name-declaration'', ''special-declaration'',
     ''block-declaration'', ''nodeclspec-function-declaration'', ''alias-declaration'',
     ''simple-declaration'', ''static_assert-declaration'', ''empty-declaration'',
     ''attribute-declaration'', ''decl-specifier'', ''decl-specifier-seq'',
     ''storage-class-specifier'', ''function-specifier'', ''explicit-specifier'',
     ''type-specifier'', ''type-specifier-seq'', ''defining-type-specifier'',
     ''defining-type-specifier-seq'', ''simple-type-specifier'', ''type-name'',
     ''elaborated-type-specifier'', ''decltype-specifier'', ''placeholder-type-specifier'',
     ''init-declarator-list'', ''init-declarator'', ''declarator'', ''ptr-declarator'',
     ''noptr-declarator'', ''parameters-and-qualifiers'', ''trailing-return-type'',
     ''ptr-operator'', ''cv-qualifier-seq'', ''cv-qualifier'', ''ref-qualifier'',
     ''declarator-id'', ''type-id'', ''defining-type-id'', ''abstract-declarator'',
     ''ptr-abstract-declarator'', ''noptr-abstract-declarator'', ''abstract-pack-declarator'',
     ''noptr-abstract-pack-declarator'', ''parameter-declaration-clause'',
     ''parameter-declaration-list'', ''parameter-declaration'', ''initializer'',
     ''brace-or-equal-initializer'', ''initializer-clause'', ''braced-init-list'',
     ''initializer-list'', ''designated-initializer-list'', ''designated-initializer-clause'',
     ''designator'', ''expr-or-braced-init-list'', ''function-definition'', ''function-body'',
     ''enum-specifier'', ''enum-head'', ''enum-head-name'', ''opaque-enum-declaration'',
     ''enum-key'', ''enum-base'', ''enumerator-list'', ''enumerator-definition'', ''enumerator'',
     ''using-enum-declaration'', ''using-enum-declarator'', ''namespace-definition'',
     ''named-namespace-definition'', ''unnamed-namespace-definition'',
     ''nested-namespace-definition'', ''enclosing-namespace-specifier'', ''namespace-body'',
     ''namespace-alias-definition'', ''qualified-namespace-specifier'', ''using-directive'',
     ''using-declaration'', ''using-declarator-list'', ''using-declarator'', ''asm-declaration'',
     ''linkage-specification'', ''attribute-specifier-seq'', ''attribute-specifier'',
     ''alignment-specifier'', ''attribute-using-prefix'', ''attribute-list'', ''attribute'',
     ''attribute-token'', ''attribute-scoped-token'', ''attribute-namespace'',
     ''attribute-argument-clause'', ''balanced-token-seq'', ''balanced-token'']\<close>

definition SECTION_RULES_modules :: "string list" where
  \<open>SECTION_RULES_modules =
    [''module-declaration'', ''module-name'', ''module-partition'', ''module-name-qualifier'',
     ''export-declaration'', ''module-import-declaration'', ''global-module-fragment'',
     ''private-module-fragment'']\<close>

definition SECTION_RULES_classes :: "string list" where
  \<open>SECTION_RULES_classes =
    [''class-specifier'', ''class-head'', ''class-head-name'', ''class-virt-specifier'',
     ''class-key'', ''member-specification'', ''member-declaration'', ''member-declarator-list'',
     ''member-declarator'', ''virt-specifier-seq'', ''virt-specifier'', ''pure-specifier'',
     ''conversion-function-id'', ''conversion-type-id'', ''conversion-declarator'',
     ''base-clause'', ''base-specifier-list'', ''base-specifier'', ''class-or-decltype'',
     ''access-specifier'', ''ctor-initializer'', ''mem-initializer-list'', ''mem-initializer'',
     ''mem-initializer-id'']\<close>

definition SECTION_RULES_overloading :: "string list" where
  \<open>SECTION_RULES_overloading =
    [''operator-function-id'', ''operator'', ''literal-operator-id'']\<close>

definition SECTION_RULES_templates :: "string list" where
  \<open>SECTION_RULES_templates =
    [''template-declaration'', ''template-head'', ''template-parameter-list'',
     ''requires-clause'', ''constraint-logical-or-expression'',
     ''constraint-logical-and-expression'', ''template-parameter'', ''type-parameter'',
     ''type-parameter-key'', ''type-constraint'', ''simple-template-id'', ''template-id'',
     ''template-argument-list'', ''template-argument'', ''constraint-expression'',
     ''deduction-guide'', ''concept-definition'', ''concept-name'', ''typename-specifier'',
     ''explicit-instantiation'', ''explicit-specialization'']\<close>

definition SECTION_RULES_exceptions :: "string list" where
  \<open>SECTION_RULES_exceptions =
    [''try-block'', ''function-try-block'', ''handler-seq'', ''handler'',
     ''exception-declaration'', ''noexcept-specifier'']\<close>

definition SECTION_RULES_preprocessing :: "string list" where
  \<open>SECTION_RULES_preprocessing =
    [''preprocessing-file'', ''module-file'', ''pp-global-module-fragment'',
     ''pp-private-module-fragment'', ''group'', ''group-part'', ''control-line'', ''if-section'',
     ''if-group'', ''elif-groups'', ''elif-group'', ''else-group'', ''endif-line'', ''text-line'',
     ''conditionally-supported-directive'', ''lparen'', ''identifier-list'', ''replacement-list'',
     ''pp-tokens'', ''new-line'', ''defined-macro-expression'', ''h-preprocessing-token'',
     ''h-pp-tokens'', ''header-name-tokens'', ''has-include-expression'',
     ''has-attribute-expression'', ''pp-module'', ''pp-import'', ''va-opt-replacement'']\<close>

definition SECTION_RULES :: "SectionId \<Rightarrow> string list" where
  "SECTION_RULES s =
     (case s of
        Keywords \<Rightarrow> SECTION_RULES_keywords
      | Lexical \<Rightarrow> SECTION_RULES_lexical
      | Literals \<Rightarrow> SECTION_RULES_literals
      | Basics \<Rightarrow> SECTION_RULES_basics
      | Expressions \<Rightarrow> SECTION_RULES_expressions
      | Statements \<Rightarrow> SECTION_RULES_statements
      | Declarations \<Rightarrow> SECTION_RULES_declarations
      | Modules \<Rightarrow> SECTION_RULES_modules
      | Classes \<Rightarrow> SECTION_RULES_classes
      | Overloading \<Rightarrow> SECTION_RULES_overloading
      | Templates \<Rightarrow> SECTION_RULES_templates
      | Exceptions \<Rightarrow> SECTION_RULES_exceptions
      | Preprocessing \<Rightarrow> SECTION_RULES_preprocessing)"


definition getRuleNames :: "string list" where
  "getRuleNames = Map_keys rules"


section \<open>The EBNF definitions (\<open>ebnfDefinitions.ts\<close>)\<close>

text \<open>
  \<^verbatim>\<open>export const EBNF_DEFINITIONS: Record<RuleName, string> = { ... };\<close>
  Each property is a rule name with its text, a template literal of several lines.
\<close>

text \<open>The properties of \<open>EBNF_DEFINITIONS\<close> for the section \<open>keywords\<close>.\<close>

definition EBNF_keywords :: "(string \<times> string) list" where
  \<open>EBNF_keywords =
    [(''typedef-name'', ''typedef-name:\<newline>    identifier\<newline>    simple-template-id''),
     (''namespace-name'', ''namespace-name:\<newline>    identifier\<newline>    namespace-alias''),
     (''namespace-alias'', ''namespace-alias:\<newline>    identifier''),
     (''class-name'', ''class-name:\<newline>    identifier\<newline>    simple-template-id''),
     (''enum-name'', ''enum-name:\<newline>    identifier''),
     (''template-name'', ''template-name:\<newline>    identifier'')]\<close>

text \<open>The properties of \<open>EBNF_DEFINITIONS\<close> for the section \<open>lexical\<close>.\<close>

definition EBNF_lexical :: "(string \<times> string) list" where
  \<open>EBNF_lexical =
    [(''n-char'',
      ''n-char:\<newline>'' @
      ''    any member of the translation character set except } or new-line''),
     (''n-char-sequence'',
      ''n-char-sequence:\<newline>'' @
      ''    n-char\<newline>'' @
      ''    n-char-sequence n-char''),
     (''named-universal-character'',
      ''named-universal-character:\<newline>'' @
      (''    '' @ CHR 0x5C # ''N{ n-char-sequence }'')),
     (''hex-quad'',
      ''hex-quad:\<newline>'' @
      ''    hexadecimal-digit hexadecimal-digit hexadecimal-digit hexadecimal-digit''),
     (''simple-hexadecimal-digit-sequence'',
      ''simple-hexadecimal-digit-sequence:\<newline>'' @
      ''    hexadecimal-digit\<newline>'' @
      ''    simple-hexadecimal-digit-sequence hexadecimal-digit''),
     (''universal-character-name'',
      ''universal-character-name:\<newline>'' @
      (''    '' @ CHR 0x5C # ''u hex-quad\<newline>'') @
      (''    '' @ CHR 0x5C # ''U hex-quad hex-quad\<newline>'') @
      (''    '' @ CHR 0x5C # ''u{ simple-hexadecimal-digit-sequence }\<newline>'') @
      ''    named-universal-character''),
     (''preprocessing-token'',
      ''preprocessing-token:\<newline>'' @
      ''    header-name\<newline>'' @
      ''    import-keyword\<newline>'' @
      ''    module-keyword\<newline>'' @
      ''    export-keyword\<newline>'' @
      ''    identifier\<newline>'' @
      ''    pp-number\<newline>'' @
      ''    character-literal\<newline>'' @
      ''    user-defined-character-literal\<newline>'' @
      ''    string-literal\<newline>'' @
      ''    user-defined-string-literal\<newline>'' @
      ''    preprocessing-op-or-punc\<newline>'' @
      ''    each non-whitespace character that cannot be one of the above''),
     (''token'',
      ''token:\<newline>'' @
      ''    identifier\<newline>'' @
      ''    keyword\<newline>'' @
      ''    literal\<newline>'' @
      ''    operator-or-punctuator''),
     (''header-name'',
      ''header-name:\<newline>'' @
      ''    < h-char-sequence >\<newline>'' @
      ''    " q-char-sequence "''),
     (''h-char-sequence'',
      ''h-char-sequence:\<newline>'' @
      ''    h-char\<newline>'' @
      ''    h-char-sequence h-char''),
     (''h-char'',
      ''h-char:\<newline>'' @
      ''    any member of the translation character set except new-line and >''),
     (''q-char-sequence'',
      ''q-char-sequence:\<newline>'' @
      ''    q-char\<newline>'' @
      ''    q-char-sequence q-char''),
     (''q-char'',
      ''q-char:\<newline>'' @
      ''    any member of the translation character set except new-line and "''),
     (''pp-number'',
      ''pp-number:\<newline>'' @
      ''    digit\<newline>'' @
      ''    . digit\<newline>'' @
      ''    pp-number identifier-continue\<newline>'' @
      (''    pp-number '' @ CHR 0x27 # '' digit\<newline>'') @
      (''    pp-number '' @ CHR 0x27 # '' nondigit\<newline>'') @
      ''    pp-number e sign\<newline>'' @
      ''    pp-number E sign\<newline>'' @
      ''    pp-number p sign\<newline>'' @
      ''    pp-number P sign\<newline>'' @
      ''    pp-number .''),
     (''identifier'',
      ''identifier:\<newline>'' @
      ''    identifier-start\<newline>'' @
      ''    identifier identifier-continue''),
     (''identifier-start'',
      ''identifier-start:\<newline>'' @
      ''    nondigit\<newline>'' @
      ''    an element of the translation character set with the Unicode property XID_Start''),
     (''identifier-continue'',
      ''identifier-continue:\<newline>'' @
      ''    digit\<newline>'' @
      ''    nondigit\<newline>'' @
      ''    an element of the translation character set with the Unicode property XID_Continue''),
     (''nondigit'',
      ''nondigit: one of\<newline>'' @
      ''    a b c d e f g h i j k l m\<newline>'' @
      ''    n o p q r s t u v w x y z\<newline>'' @
      ''    A B C D E F G H I J K L M\<newline>'' @
      ''    N O P Q R S T U V W X Y Z _''),
     (''digit'', ''digit: one of\<newline>    0 1 2 3 4 5 6 7 8 9''),
     (''keyword'',
      ''keyword:\<newline>'' @
      ''    any identifier listed in Table 5\<newline>'' @
      ''    import-keyword\<newline>'' @
      ''    module-keyword\<newline>'' @
      ''    export-keyword''),
     (''preprocessing-op-or-punc'',
      ''preprocessing-op-or-punc:\<newline>'' @
      ''    preprocessing-operator\<newline>'' @
      ''    operator-or-punctuator''),
     (''preprocessing-operator'', ''preprocessing-operator: one of\<newline>    # ## %: %:%:''),
     (''operator-or-punctuator'',
      ''operator-or-punctuator: one of\<newline>'' @
      ''    { } [ ] ( )\<newline>'' @
      ''    <: :> <% %> ; : ...\<newline>'' @
      ''    ? :: . .* -> ->* ~\<newline>'' @
      ''    ! + - * / % ^ & |\<newline>'' @
      ''    = += -= *= /= %= ^= &= |=\<newline>'' @
      ''    == != < > <= >= <=> && ||\<newline>'' @
      ''    << >> <<= >>= ++ -- ,\<newline>'' @
      ''    and or xor not bitand bitor compl\<newline>'' @
      ''    and_eq or_eq xor_eq not_eq'')]\<close>

text \<open>The properties of \<open>EBNF_DEFINITIONS\<close> for the section \<open>literals\<close>.\<close>

definition EBNF_literals :: "(string \<times> string) list" where
  \<open>EBNF_literals =
    [(''literal'',
      ''literal:\<newline>'' @
      ''    integer-literal\<newline>'' @
      ''    character-literal\<newline>'' @
      ''    floating-point-literal\<newline>'' @
      ''    string-literal\<newline>'' @
      ''    boolean-literal\<newline>'' @
      ''    pointer-literal\<newline>'' @
      ''    user-defined-literal''),
     (''integer-literal'',
      ''integer-literal:\<newline>'' @
      ''    binary-literal integer-suffix_opt\<newline>'' @
      ''    octal-literal integer-suffix_opt\<newline>'' @
      ''    decimal-literal integer-suffix_opt\<newline>'' @
      ''    hexadecimal-literal integer-suffix_opt''),
     (''binary-literal'',
      ''binary-literal:\<newline>'' @
      ''    0b binary-digit\<newline>'' @
      ''    0B binary-digit\<newline>'' @
      (''    binary-literal '' @ CHR 0x27 # ''_opt binary-digit'')),
     (''octal-literal'',
      ''octal-literal:\<newline>'' @
      ''    0\<newline>'' @
      (''    octal-literal '' @ CHR 0x27 # ''_opt octal-digit'')),
     (''decimal-literal'',
      ''decimal-literal:\<newline>'' @
      ''    nonzero-digit\<newline>'' @
      (''    decimal-literal '' @ CHR 0x27 # ''_opt digit'')),
     (''hexadecimal-literal'',
      ''hexadecimal-literal:\<newline>'' @
      ''    hexadecimal-prefix hexadecimal-digit-sequence''),
     (''binary-digit'', ''binary-digit: one of\<newline>    0 1''),
     (''octal-digit'', ''octal-digit: one of\<newline>    0 1 2 3 4 5 6 7''),
     (''nonzero-digit'', ''nonzero-digit: one of\<newline>    1 2 3 4 5 6 7 8 9''),
     (''hexadecimal-prefix'', ''hexadecimal-prefix: one of\<newline>    0x 0X''),
     (''hexadecimal-digit-sequence'',
      ''hexadecimal-digit-sequence:\<newline>'' @
      ''    hexadecimal-digit\<newline>'' @
      (''    hexadecimal-digit-sequence '' @ CHR 0x27 # ''_opt hexadecimal-digit'')),
     (''hexadecimal-digit'',
      ''hexadecimal-digit: one of\<newline>'' @
      ''    0 1 2 3 4 5 6 7 8 9\<newline>'' @
      ''    a b c d e f\<newline>'' @
      ''    A B C D E F''),
     (''integer-suffix'',
      ''integer-suffix:\<newline>'' @
      ''    unsigned-suffix long-suffix_opt\<newline>'' @
      ''    unsigned-suffix long-long-suffix_opt\<newline>'' @
      ''    unsigned-suffix size-suffix_opt\<newline>'' @
      ''    long-suffix unsigned-suffix_opt\<newline>'' @
      ''    long-long-suffix unsigned-suffix_opt\<newline>'' @
      ''    size-suffix unsigned-suffix_opt''),
     (''unsigned-suffix'', ''unsigned-suffix: one of\<newline>    u U''),
     (''long-suffix'', ''long-suffix: one of\<newline>    l L''),
     (''long-long-suffix'', ''long-long-suffix: one of\<newline>    ll LL''),
     (''size-suffix'', ''size-suffix: one of\<newline>    z Z''),
     (''character-literal'',
      ''character-literal:\<newline>'' @
      (''    encoding-prefix_opt '' @ CHR 0x27 # '' c-char-sequence '' @ [CHR 0x27])),
     (''encoding-prefix'', ''encoding-prefix: one of\<newline>    u8 u U L''),
     (''c-char-sequence'',
      ''c-char-sequence:\<newline>'' @
      ''    c-char\<newline>'' @
      ''    c-char-sequence c-char''),
     (''c-char'',
      ''c-char:\<newline>'' @
      ''    basic-c-char\<newline>'' @
      ''    escape-sequence\<newline>'' @
      ''    universal-character-name''),
     (''basic-c-char'',
      ''basic-c-char:\<newline>'' @
      (''    any member of the translation character set except '' @ CHR 0x27 # '', '' @ CHR 0x5C # '', or new-line'')),
     (''escape-sequence'',
      ''escape-sequence:\<newline>'' @
      ''    simple-escape-sequence\<newline>'' @
      ''    numeric-escape-sequence\<newline>'' @
      ''    conditional-escape-sequence''),
     (''simple-escape-sequence'',
      ''simple-escape-sequence:\<newline>'' @
      (''    '' @ CHR 0x5C # '' simple-escape-sequence-char'')),
     (''simple-escape-sequence-char'',
      ''simple-escape-sequence-char: one of\<newline>'' @
      (''    '' @ CHR 0x27 # '' " ? '' @ CHR 0x5C # '' a b f n r t v'')),
     (''numeric-escape-sequence'',
      ''numeric-escape-sequence:\<newline>'' @
      ''    octal-escape-sequence\<newline>'' @
      ''    hexadecimal-escape-sequence''),
     (''simple-octal-digit-sequence'',
      ''simple-octal-digit-sequence:\<newline>'' @
      ''    octal-digit\<newline>'' @
      ''    simple-octal-digit-sequence octal-digit''),
     (''octal-escape-sequence'',
      ''octal-escape-sequence:\<newline>'' @
      (''    '' @ CHR 0x5C # '' octal-digit\<newline>'') @
      (''    '' @ CHR 0x5C # '' octal-digit octal-digit\<newline>'') @
      (''    '' @ CHR 0x5C # '' octal-digit octal-digit octal-digit\<newline>'') @
      (''    '' @ CHR 0x5C # ''o{ simple-octal-digit-sequence }'')),
     (''hexadecimal-escape-sequence'',
      ''hexadecimal-escape-sequence:\<newline>'' @
      (''    '' @ CHR 0x5C # ''x simple-hexadecimal-digit-sequence\<newline>'') @
      (''    '' @ CHR 0x5C # ''x{ simple-hexadecimal-digit-sequence }'')),
     (''conditional-escape-sequence'',
      ''conditional-escape-sequence:\<newline>'' @
      (''    '' @ CHR 0x5C # '' conditional-escape-sequence-char'')),
     (''conditional-escape-sequence-char'',
      ''conditional-escape-sequence-char:\<newline>'' @
      ''    any member of the basic character set that is not an octal-digit,\<newline>'' @
      ''    a simple-escape-sequence-char, or the characters N, o, u, U, or x''),
     (''floating-point-literal'',
      ''floating-point-literal:\<newline>'' @
      ''    decimal-floating-point-literal\<newline>'' @
      ''    hexadecimal-floating-point-literal''),
     (''decimal-floating-point-literal'',
      ''decimal-floating-point-literal:\<newline>'' @
      ''    fractional-constant exponent-part_opt floating-point-suffix_opt\<newline>'' @
      ''    digit-sequence exponent-part floating-point-suffix_opt''),
     (''hexadecimal-floating-point-literal'',
      ''hexadecimal-floating-point-literal:\<newline>'' @
      ''    hexadecimal-prefix hexadecimal-fractional-constant binary-exponent-part floating-point-suffix_opt\<newline>'' @
      ''    hexadecimal-prefix hexadecimal-digit-sequence binary-exponent-part floating-point-suffix_opt''),
     (''fractional-constant'',
      ''fractional-constant:\<newline>'' @
      ''    digit-sequence_opt . digit-sequence\<newline>'' @
      ''    digit-sequence .''),
     (''hexadecimal-fractional-constant'',
      ''hexadecimal-fractional-constant:\<newline>'' @
      ''    hexadecimal-digit-sequence_opt . hexadecimal-digit-sequence\<newline>'' @
      ''    hexadecimal-digit-sequence .''),
     (''exponent-part'',
      ''exponent-part:\<newline>'' @
      ''    e sign_opt digit-sequence\<newline>'' @
      ''    E sign_opt digit-sequence''),
     (''binary-exponent-part'',
      ''binary-exponent-part:\<newline>'' @
      ''    p sign_opt digit-sequence\<newline>'' @
      ''    P sign_opt digit-sequence''),
     (''sign'', ''sign: one of\<newline>    + -''),
     (''digit-sequence'',
      ''digit-sequence:\<newline>'' @
      ''    digit\<newline>'' @
      (''    digit-sequence '' @ CHR 0x27 # ''_opt digit'')),
     (''floating-point-suffix'',
      ''floating-point-suffix: one of\<newline>'' @
      ''    f l f16 f32 f64 f128 bf16 F L F16 F32 F64 F128 BF16''),
     (''string-literal'',
      ''string-literal:\<newline>'' @
      ''    encoding-prefix_opt " s-char-sequence_opt "\<newline>'' @
      ''    encoding-prefix_opt R raw-string''),
     (''s-char-sequence'',
      ''s-char-sequence:\<newline>'' @
      ''    s-char\<newline>'' @
      ''    s-char-sequence s-char''),
     (''s-char'',
      ''s-char:\<newline>'' @
      ''    basic-s-char\<newline>'' @
      ''    escape-sequence\<newline>'' @
      ''    universal-character-name''),
     (''basic-s-char'',
      ''basic-s-char:\<newline>'' @
      (''    any member of the translation character set except ", '' @ CHR 0x5C # '', or new-line'')),
     (''raw-string'',
      ''raw-string:\<newline>'' @
      ''    " d-char-sequence_opt ( r-char-sequence_opt ) d-char-sequence_opt "''),
     (''r-char-sequence'',
      ''r-char-sequence:\<newline>'' @
      ''    r-char\<newline>'' @
      ''    r-char-sequence r-char''),
     (''r-char'',
      ''r-char:\<newline>'' @
      ''    any member of the translation character set, except ) followed by\<newline>'' @
      ''    the initial d-char-sequence followed by "''),
     (''d-char-sequence'',
      ''d-char-sequence:\<newline>'' @
      ''    d-char\<newline>'' @
      ''    d-char-sequence d-char''),
     (''d-char'',
      ''d-char:\<newline>'' @
      ''    any member of the basic character set except:\<newline>'' @
      (''    space, (, ), '' @ CHR 0x5C # '', horizontal tab, vertical tab, form feed, and new-line'')),
     (''boolean-literal'', ''boolean-literal:\<newline>    false\<newline>    true''),
     (''pointer-literal'', ''pointer-literal:\<newline>    nullptr''),
     (''user-defined-literal'',
      ''user-defined-literal:\<newline>'' @
      ''    user-defined-integer-literal\<newline>'' @
      ''    user-defined-floating-point-literal\<newline>'' @
      ''    user-defined-string-literal\<newline>'' @
      ''    user-defined-character-literal''),
     (''user-defined-integer-literal'',
      ''user-defined-integer-literal:\<newline>'' @
      ''    decimal-literal ud-suffix\<newline>'' @
      ''    octal-literal ud-suffix\<newline>'' @
      ''    hexadecimal-literal ud-suffix\<newline>'' @
      ''    binary-literal ud-suffix''),
     (''user-defined-floating-point-literal'',
      ''user-defined-floating-point-literal:\<newline>'' @
      ''    fractional-constant exponent-part_opt ud-suffix\<newline>'' @
      ''    digit-sequence exponent-part ud-suffix\<newline>'' @
      ''    hexadecimal-prefix hexadecimal-fractional-constant binary-exponent-part ud-suffix\<newline>'' @
      ''    hexadecimal-prefix hexadecimal-digit-sequence binary-exponent-part ud-suffix''),
     (''user-defined-string-literal'',
      ''user-defined-string-literal:\<newline>'' @
      ''    string-literal ud-suffix''),
     (''user-defined-character-literal'',
      ''user-defined-character-literal:\<newline>'' @
      ''    character-literal ud-suffix''),
     (''ud-suffix'', ''ud-suffix:\<newline>    identifier'')]\<close>

text \<open>The properties of \<open>EBNF_DEFINITIONS\<close> for the section \<open>basics\<close>.\<close>

definition EBNF_basics :: "(string \<times> string) list" where
  \<open>EBNF_basics =
    [(''translation-unit'',
      ''translation-unit:\<newline>'' @
      ''    declaration-seq_opt\<newline>'' @
      ''    global-module-fragment_opt module-declaration declaration-seq_opt private-module-fragment_opt'')]\<close>

text \<open>The properties of \<open>EBNF_DEFINITIONS\<close> for the section \<open>expressions\<close>.\<close>

definition EBNF_expressions :: "(string \<times> string) list" where
  \<open>EBNF_expressions =
    [(''primary-expression'',
      ''primary-expression:\<newline>'' @
      ''    literal\<newline>'' @
      ''    this\<newline>'' @
      ''    ( expression )\<newline>'' @
      ''    id-expression\<newline>'' @
      ''    lambda-expression\<newline>'' @
      ''    fold-expression\<newline>'' @
      ''    requires-expression''),
     (''id-expression'', ''id-expression:\<newline>    unqualified-id\<newline>    qualified-id''),
     (''unqualified-id'',
      ''unqualified-id:\<newline>'' @
      ''    identifier\<newline>'' @
      ''    operator-function-id\<newline>'' @
      ''    conversion-function-id\<newline>'' @
      ''    literal-operator-id\<newline>'' @
      ''    ~ type-name\<newline>'' @
      ''    ~ decltype-specifier\<newline>'' @
      ''    template-id''),
     (''qualified-id'',
      ''qualified-id:\<newline>'' @
      ''    nested-name-specifier template_opt unqualified-id''),
     (''nested-name-specifier'',
      ''nested-name-specifier:\<newline>'' @
      ''    ::\<newline>'' @
      ''    type-name ::\<newline>'' @
      ''    namespace-name ::\<newline>'' @
      ''    decltype-specifier ::\<newline>'' @
      ''    nested-name-specifier identifier ::\<newline>'' @
      ''    nested-name-specifier template_opt simple-template-id ::''),
     (''lambda-expression'',
      ''lambda-expression:\<newline>'' @
      ''    lambda-introducer attribute-specifier-seq_opt lambda-declarator compound-statement\<newline>'' @
      ''    lambda-introducer < template-parameter-list > requires-clause_opt attribute-specifier-seq_opt\<newline>'' @
      ''        lambda-declarator compound-statement''),
     (''lambda-introducer'', ''lambda-introducer:\<newline>    [ lambda-capture_opt ]''),
     (''lambda-declarator'',
      ''lambda-declarator:\<newline>'' @
      ''    lambda-specifier-seq noexcept-specifier_opt attribute-specifier-seq_opt trailing-return-type_opt\<newline>'' @
      ''    noexcept-specifier attribute-specifier-seq_opt trailing-return-type_opt\<newline>'' @
      ''    trailing-return-type_opt\<newline>'' @
      ''    ( parameter-declaration-clause ) lambda-specifier-seq_opt noexcept-specifier_opt\<newline>'' @
      ''        attribute-specifier-seq_opt trailing-return-type_opt requires-clause_opt''),
     (''lambda-specifier'',
      ''lambda-specifier:\<newline>'' @
      ''    consteval\<newline>'' @
      ''    constexpr\<newline>'' @
      ''    mutable\<newline>'' @
      ''    static''),
     (''lambda-specifier-seq'',
      ''lambda-specifier-seq:\<newline>'' @
      ''    lambda-specifier\<newline>'' @
      ''    lambda-specifier lambda-specifier-seq''),
     (''lambda-capture'',
      ''lambda-capture:\<newline>'' @
      ''    capture-default\<newline>'' @
      ''    capture-list\<newline>'' @
      ''    capture-default , capture-list''),
     (''capture-default'', ''capture-default:\<newline>    &\<newline>    =''),
     (''capture-list'', ''capture-list:\<newline>    capture\<newline>    capture-list , capture''),
     (''capture'', ''capture:\<newline>    simple-capture\<newline>    init-capture''),
     (''simple-capture'',
      ''simple-capture:\<newline>'' @
      ''    identifier ..._opt\<newline>'' @
      ''    & identifier ..._opt\<newline>'' @
      ''    this\<newline>'' @
      ''    * this''),
     (''init-capture'',
      ''init-capture:\<newline>'' @
      ''    ..._opt identifier initializer\<newline>'' @
      ''    & ..._opt identifier initializer''),
     (''fold-expression'',
      ''fold-expression:\<newline>'' @
      ''    ( cast-expression fold-operator ... )\<newline>'' @
      ''    ( ... fold-operator cast-expression )\<newline>'' @
      ''    ( cast-expression fold-operator ... fold-operator cast-expression )''),
     (''fold-operator'',
      ''fold-operator: one of\<newline>'' @
      ''    + - * / % ^ & | << >>\<newline>'' @
      ''    += -= *= /= %= ^= &= |= <<= >>= =\<newline>'' @
      ''    == != < > <= >= && || , .* ->*''),
     (''requires-expression'',
      ''requires-expression:\<newline>'' @
      ''    requires requirement-parameter-list_opt requirement-body''),
     (''requirement-parameter-list'',
      ''requirement-parameter-list:\<newline>'' @
      ''    ( parameter-declaration-clause )''),
     (''requirement-body'', ''requirement-body:\<newline>    { requirement-seq }''),
     (''requirement-seq'',
      ''requirement-seq:\<newline>'' @
      ''    requirement\<newline>'' @
      ''    requirement requirement-seq''),
     (''requirement'',
      ''requirement:\<newline>'' @
      ''    simple-requirement\<newline>'' @
      ''    type-requirement\<newline>'' @
      ''    compound-requirement\<newline>'' @
      ''    nested-requirement''),
     (''simple-requirement'', ''simple-requirement:\<newline>    expression ;''),
     (''type-requirement'',
      ''type-requirement:\<newline>'' @
      ''    typename nested-name-specifier_opt type-name ;''),
     (''compound-requirement'',
      ''compound-requirement:\<newline>'' @
      ''    { expression } noexcept_opt return-type-requirement_opt ;''),
     (''return-type-requirement'', ''return-type-requirement:\<newline>    -> type-constraint''),
     (''nested-requirement'', ''nested-requirement:\<newline>    requires constraint-expression ;''),
     (''postfix-expression'',
      ''postfix-expression:\<newline>'' @
      ''    primary-expression\<newline>'' @
      ''    postfix-expression [ expression-list_opt ]\<newline>'' @
      ''    postfix-expression ( expression-list_opt )\<newline>'' @
      ''    simple-type-specifier ( expression-list_opt )\<newline>'' @
      ''    typename-specifier ( expression-list_opt )\<newline>'' @
      ''    simple-type-specifier braced-init-list\<newline>'' @
      ''    typename-specifier braced-init-list\<newline>'' @
      ''    postfix-expression . template_opt id-expression\<newline>'' @
      ''    postfix-expression -> template_opt id-expression\<newline>'' @
      ''    postfix-expression ++\<newline>'' @
      ''    postfix-expression --\<newline>'' @
      ''    dynamic_cast < type-id > ( expression )\<newline>'' @
      ''    static_cast < type-id > ( expression )\<newline>'' @
      ''    reinterpret_cast < type-id > ( expression )\<newline>'' @
      ''    const_cast < type-id > ( expression )\<newline>'' @
      ''    typeid ( expression )\<newline>'' @
      ''    typeid ( type-id )''),
     (''expression-list'', ''expression-list:\<newline>    initializer-list''),
     (''unary-expression'',
      ''unary-expression:\<newline>'' @
      ''    postfix-expression\<newline>'' @
      ''    unary-operator cast-expression\<newline>'' @
      ''    ++ cast-expression\<newline>'' @
      ''    -- cast-expression\<newline>'' @
      ''    await-expression\<newline>'' @
      ''    sizeof unary-expression\<newline>'' @
      ''    sizeof ( type-id )\<newline>'' @
      ''    sizeof ... ( identifier )\<newline>'' @
      ''    alignof ( type-id )\<newline>'' @
      ''    noexcept-expression\<newline>'' @
      ''    new-expression\<newline>'' @
      ''    delete-expression''),
     (''unary-operator'', ''unary-operator: one of\<newline>    * & + - ! ~''),
     (''await-expression'', ''await-expression:\<newline>    co_await cast-expression''),
     (''noexcept-expression'', ''noexcept-expression:\<newline>    noexcept ( expression )''),
     (''new-expression'',
      ''new-expression:\<newline>'' @
      ''    ::_opt new new-placement_opt new-type-id new-initializer_opt\<newline>'' @
      ''    ::_opt new new-placement_opt ( type-id ) new-initializer_opt''),
     (''new-placement'', ''new-placement:\<newline>    ( expression-list )''),
     (''new-type-id'', ''new-type-id:\<newline>    type-specifier-seq new-declarator_opt''),
     (''new-declarator'',
      ''new-declarator:\<newline>'' @
      ''    ptr-operator new-declarator_opt\<newline>'' @
      ''    noptr-new-declarator''),
     (''noptr-new-declarator'',
      ''noptr-new-declarator:\<newline>'' @
      ''    [ expression_opt ] attribute-specifier-seq_opt\<newline>'' @
      ''    noptr-new-declarator [ constant-expression ] attribute-specifier-seq_opt''),
     (''new-initializer'',
      ''new-initializer:\<newline>'' @
      ''    ( expression-list_opt )\<newline>'' @
      ''    braced-init-list''),
     (''delete-expression'',
      ''delete-expression:\<newline>'' @
      ''    ::_opt delete cast-expression\<newline>'' @
      ''    ::_opt delete [ ] cast-expression''),
     (''cast-expression'',
      ''cast-expression:\<newline>'' @
      ''    unary-expression\<newline>'' @
      ''    ( type-id ) cast-expression''),
     (''pm-expression'',
      ''pm-expression:\<newline>'' @
      ''    cast-expression\<newline>'' @
      ''    pm-expression .* cast-expression\<newline>'' @
      ''    pm-expression ->* cast-expression''),
     (''multiplicative-expression'',
      ''multiplicative-expression:\<newline>'' @
      ''    pm-expression\<newline>'' @
      ''    multiplicative-expression * pm-expression\<newline>'' @
      ''    multiplicative-expression / pm-expression\<newline>'' @
      ''    multiplicative-expression % pm-expression''),
     (''additive-expression'',
      ''additive-expression:\<newline>'' @
      ''    multiplicative-expression\<newline>'' @
      ''    additive-expression + multiplicative-expression\<newline>'' @
      ''    additive-expression - multiplicative-expression''),
     (''shift-expression'',
      ''shift-expression:\<newline>'' @
      ''    additive-expression\<newline>'' @
      ''    shift-expression << additive-expression\<newline>'' @
      ''    shift-expression >> additive-expression''),
     (''compare-expression'',
      ''compare-expression:\<newline>'' @
      ''    shift-expression\<newline>'' @
      ''    compare-expression <=> shift-expression''),
     (''relational-expression'',
      ''relational-expression:\<newline>'' @
      ''    compare-expression\<newline>'' @
      ''    relational-expression < compare-expression\<newline>'' @
      ''    relational-expression > compare-expression\<newline>'' @
      ''    relational-expression <= compare-expression\<newline>'' @
      ''    relational-expression >= compare-expression''),
     (''equality-expression'',
      ''equality-expression:\<newline>'' @
      ''    relational-expression\<newline>'' @
      ''    equality-expression == relational-expression\<newline>'' @
      ''    equality-expression != relational-expression''),
     (''and-expression'',
      ''and-expression:\<newline>'' @
      ''    equality-expression\<newline>'' @
      ''    and-expression & equality-expression''),
     (''exclusive-or-expression'',
      ''exclusive-or-expression:\<newline>'' @
      ''    and-expression\<newline>'' @
      ''    exclusive-or-expression ^ and-expression''),
     (''inclusive-or-expression'',
      ''inclusive-or-expression:\<newline>'' @
      ''    exclusive-or-expression\<newline>'' @
      ''    inclusive-or-expression | exclusive-or-expression''),
     (''logical-and-expression'',
      ''logical-and-expression:\<newline>'' @
      ''    inclusive-or-expression\<newline>'' @
      ''    logical-and-expression && inclusive-or-expression''),
     (''logical-or-expression'',
      ''logical-or-expression:\<newline>'' @
      ''    logical-and-expression\<newline>'' @
      ''    logical-or-expression || logical-and-expression''),
     (''conditional-expression'',
      ''conditional-expression:\<newline>'' @
      ''    logical-or-expression\<newline>'' @
      ''    logical-or-expression ? expression : assignment-expression''),
     (''yield-expression'',
      ''yield-expression:\<newline>'' @
      ''    co_yield assignment-expression\<newline>'' @
      ''    co_yield braced-init-list''),
     (''throw-expression'', ''throw-expression:\<newline>    throw assignment-expression_opt''),
     (''assignment-expression'',
      ''assignment-expression:\<newline>'' @
      ''    conditional-expression\<newline>'' @
      ''    yield-expression\<newline>'' @
      ''    throw-expression\<newline>'' @
      ''    logical-or-expression assignment-operator initializer-clause''),
     (''assignment-operator'',
      ''assignment-operator: one of\<newline>'' @
      ''    = *= /= %= += -= >>= <<= &= ^= |=''),
     (''expression'',
      ''expression:\<newline>'' @
      ''    assignment-expression\<newline>'' @
      ''    expression , assignment-expression''),
     (''constant-expression'', ''constant-expression:\<newline>    conditional-expression'')]\<close>

text \<open>The properties of \<open>EBNF_DEFINITIONS\<close> for the section \<open>statements\<close>.\<close>

definition EBNF_statements :: "(string \<times> string) list" where
  \<open>EBNF_statements =
    [(''statement'',
      ''statement:\<newline>'' @
      ''    labeled-statement\<newline>'' @
      ''    attribute-specifier-seq_opt expression-statement\<newline>'' @
      ''    attribute-specifier-seq_opt compound-statement\<newline>'' @
      ''    attribute-specifier-seq_opt selection-statement\<newline>'' @
      ''    attribute-specifier-seq_opt iteration-statement\<newline>'' @
      ''    attribute-specifier-seq_opt jump-statement\<newline>'' @
      ''    declaration-statement\<newline>'' @
      ''    attribute-specifier-seq_opt try-block''),
     (''init-statement'',
      ''init-statement:\<newline>'' @
      ''    expression-statement\<newline>'' @
      ''    simple-declaration\<newline>'' @
      ''    alias-declaration''),
     (''condition'',
      ''condition:\<newline>'' @
      ''    expression\<newline>'' @
      ''    attribute-specifier-seq_opt decl-specifier-seq declarator brace-or-equal-initializer''),
     (''label'',
      ''label:\<newline>'' @
      ''    attribute-specifier-seq_opt identifier :\<newline>'' @
      ''    attribute-specifier-seq_opt case constant-expression :\<newline>'' @
      ''    attribute-specifier-seq_opt default :''),
     (''labeled-statement'', ''labeled-statement:\<newline>    label statement''),
     (''expression-statement'', ''expression-statement:\<newline>    expression_opt ;''),
     (''compound-statement'',
      ''compound-statement:\<newline>'' @
      ''    { statement-seq_opt label-seq_opt }''),
     (''statement-seq'',
      ''statement-seq:\<newline>'' @
      ''    statement\<newline>'' @
      ''    statement-seq statement''),
     (''label-seq'', ''label-seq:\<newline>    label\<newline>    label-seq label''),
     (''selection-statement'',
      ''selection-statement:\<newline>'' @
      ''    if constexpr_opt ( init-statement_opt condition ) statement\<newline>'' @
      ''    if constexpr_opt ( init-statement_opt condition ) statement else statement\<newline>'' @
      ''    if !_opt consteval compound-statement\<newline>'' @
      ''    if !_opt consteval compound-statement else statement\<newline>'' @
      ''    switch ( init-statement_opt condition ) statement''),
     (''iteration-statement'',
      ''iteration-statement:\<newline>'' @
      ''    while ( condition ) statement\<newline>'' @
      ''    do statement while ( expression ) ;\<newline>'' @
      ''    for ( init-statement condition_opt ; expression_opt ) statement\<newline>'' @
      ''    for ( init-statement_opt for-range-declaration : for-range-initializer ) statement''),
     (''for-range-declaration'',
      ''for-range-declaration:\<newline>'' @
      ''    attribute-specifier-seq_opt decl-specifier-seq declarator\<newline>'' @
      ''    attribute-specifier-seq_opt decl-specifier-seq ref-qualifier_opt [ identifier-list ]''),
     (''for-range-initializer'', ''for-range-initializer:\<newline>    expr-or-braced-init-list''),
     (''jump-statement'',
      ''jump-statement:\<newline>'' @
      ''    break ;\<newline>'' @
      ''    continue ;\<newline>'' @
      ''    return expr-or-braced-init-list_opt ;\<newline>'' @
      ''    coroutine-return-statement\<newline>'' @
      ''    goto identifier ;''),
     (''coroutine-return-statement'',
      ''coroutine-return-statement:\<newline>'' @
      ''    co_return expr-or-braced-init-list_opt ;''),
     (''declaration-statement'', ''declaration-statement:\<newline>    block-declaration'')]\<close>

text \<open>The properties of \<open>EBNF_DEFINITIONS\<close> for the section \<open>declarations\<close>.\<close>

definition EBNF_declarations :: "(string \<times> string) list" where
  \<open>EBNF_declarations =
    [(''declaration-seq'',
      ''declaration-seq:\<newline>'' @
      ''    declaration\<newline>'' @
      ''    declaration-seq declaration''),
     (''declaration'',
      ''declaration:\<newline>'' @
      ''    name-declaration\<newline>'' @
      ''    special-declaration''),
     (''name-declaration'',
      ''name-declaration:\<newline>'' @
      ''    block-declaration\<newline>'' @
      ''    nodeclspec-function-declaration\<newline>'' @
      ''    function-definition\<newline>'' @
      ''    template-declaration\<newline>'' @
      ''    deduction-guide\<newline>'' @
      ''    linkage-specification\<newline>'' @
      ''    namespace-definition\<newline>'' @
      ''    empty-declaration\<newline>'' @
      ''    attribute-declaration\<newline>'' @
      ''    module-import-declaration''),
     (''special-declaration'',
      ''special-declaration:\<newline>'' @
      ''    explicit-instantiation\<newline>'' @
      ''    explicit-specialization\<newline>'' @
      ''    export-declaration''),
     (''block-declaration'',
      ''block-declaration:\<newline>'' @
      ''    simple-declaration\<newline>'' @
      ''    asm-declaration\<newline>'' @
      ''    namespace-alias-definition\<newline>'' @
      ''    using-declaration\<newline>'' @
      ''    using-enum-declaration\<newline>'' @
      ''    using-directive\<newline>'' @
      ''    static_assert-declaration\<newline>'' @
      ''    alias-declaration\<newline>'' @
      ''    opaque-enum-declaration''),
     (''nodeclspec-function-declaration'',
      ''nodeclspec-function-declaration:\<newline>'' @
      ''    attribute-specifier-seq_opt declarator ;''),
     (''alias-declaration'',
      ''alias-declaration:\<newline>'' @
      ''    using identifier attribute-specifier-seq_opt = defining-type-id ;''),
     (''simple-declaration'',
      ''simple-declaration:\<newline>'' @
      ''    decl-specifier-seq init-declarator-list_opt ;\<newline>'' @
      ''    attribute-specifier-seq decl-specifier-seq init-declarator-list ;\<newline>'' @
      ''    attribute-specifier-seq_opt decl-specifier-seq ref-qualifier_opt [ identifier-list ] initializer ;''),
     (''static_assert-declaration'',
      ''static_assert-declaration:\<newline>'' @
      ''    static_assert ( constant-expression ) ;\<newline>'' @
      ''    static_assert ( constant-expression , string-literal ) ;''),
     (''empty-declaration'', ''empty-declaration:\<newline>    ;''),
     (''attribute-declaration'', ''attribute-declaration:\<newline>    attribute-specifier-seq ;''),
     (''decl-specifier'',
      ''decl-specifier:\<newline>'' @
      ''    storage-class-specifier\<newline>'' @
      ''    defining-type-specifier\<newline>'' @
      ''    function-specifier\<newline>'' @
      ''    friend\<newline>'' @
      ''    typedef\<newline>'' @
      ''    constexpr\<newline>'' @
      ''    consteval\<newline>'' @
      ''    constinit\<newline>'' @
      ''    inline''),
     (''decl-specifier-seq'',
      ''decl-specifier-seq:\<newline>'' @
      ''    decl-specifier attribute-specifier-seq_opt\<newline>'' @
      ''    decl-specifier decl-specifier-seq''),
     (''storage-class-specifier'',
      ''storage-class-specifier:\<newline>'' @
      ''    static\<newline>'' @
      ''    thread_local\<newline>'' @
      ''    extern\<newline>'' @
      ''    mutable''),
     (''function-specifier'',
      ''function-specifier:\<newline>'' @
      ''    virtual\<newline>'' @
      ''    explicit-specifier''),
     (''explicit-specifier'',
      ''explicit-specifier:\<newline>'' @
      ''    explicit ( constant-expression )\<newline>'' @
      ''    explicit''),
     (''type-specifier'',
      ''type-specifier:\<newline>'' @
      ''    simple-type-specifier\<newline>'' @
      ''    elaborated-type-specifier\<newline>'' @
      ''    typename-specifier\<newline>'' @
      ''    cv-qualifier''),
     (''type-specifier-seq'',
      ''type-specifier-seq:\<newline>'' @
      ''    type-specifier attribute-specifier-seq_opt\<newline>'' @
      ''    type-specifier type-specifier-seq''),
     (''defining-type-specifier'',
      ''defining-type-specifier:\<newline>'' @
      ''    type-specifier\<newline>'' @
      ''    class-specifier\<newline>'' @
      ''    enum-specifier''),
     (''defining-type-specifier-seq'',
      ''defining-type-specifier-seq:\<newline>'' @
      ''    defining-type-specifier attribute-specifier-seq_opt\<newline>'' @
      ''    defining-type-specifier defining-type-specifier-seq''),
     (''simple-type-specifier'',
      ''simple-type-specifier:\<newline>'' @
      ''    nested-name-specifier_opt type-name\<newline>'' @
      ''    nested-name-specifier template simple-template-id\<newline>'' @
      ''    decltype-specifier\<newline>'' @
      ''    placeholder-type-specifier\<newline>'' @
      ''    nested-name-specifier_opt template-name\<newline>'' @
      ''    char\<newline>'' @
      ''    char8_t\<newline>'' @
      ''    char16_t\<newline>'' @
      ''    char32_t\<newline>'' @
      ''    wchar_t\<newline>'' @
      ''    bool\<newline>'' @
      ''    short\<newline>'' @
      ''    int\<newline>'' @
      ''    long\<newline>'' @
      ''    signed\<newline>'' @
      ''    unsigned\<newline>'' @
      ''    float\<newline>'' @
      ''    double\<newline>'' @
      ''    void''),
     (''type-name'',
      ''type-name:\<newline>'' @
      ''    class-name\<newline>'' @
      ''    enum-name\<newline>'' @
      ''    typedef-name''),
     (''elaborated-type-specifier'',
      ''elaborated-type-specifier:\<newline>'' @
      ''    class-key attribute-specifier-seq_opt nested-name-specifier_opt identifier\<newline>'' @
      ''    class-key simple-template-id\<newline>'' @
      ''    class-key nested-name-specifier template_opt simple-template-id\<newline>'' @
      ''    enum nested-name-specifier_opt identifier''),
     (''decltype-specifier'', ''decltype-specifier:\<newline>    decltype ( expression )''),
     (''placeholder-type-specifier'',
      ''placeholder-type-specifier:\<newline>'' @
      ''    type-constraint_opt auto\<newline>'' @
      ''    type-constraint_opt decltype ( auto )''),
     (''init-declarator-list'',
      ''init-declarator-list:\<newline>'' @
      ''    init-declarator\<newline>'' @
      ''    init-declarator-list , init-declarator''),
     (''init-declarator'',
      ''init-declarator:\<newline>'' @
      ''    declarator initializer_opt\<newline>'' @
      ''    declarator requires-clause''),
     (''declarator'',
      ''declarator:\<newline>'' @
      ''    ptr-declarator\<newline>'' @
      ''    noptr-declarator parameters-and-qualifiers trailing-return-type''),
     (''ptr-declarator'',
      ''ptr-declarator:\<newline>'' @
      ''    noptr-declarator\<newline>'' @
      ''    ptr-operator ptr-declarator''),
     (''noptr-declarator'',
      ''noptr-declarator:\<newline>'' @
      ''    declarator-id attribute-specifier-seq_opt\<newline>'' @
      ''    noptr-declarator parameters-and-qualifiers\<newline>'' @
      ''    noptr-declarator [ constant-expression_opt ] attribute-specifier-seq_opt\<newline>'' @
      ''    ( ptr-declarator )''),
     (''parameters-and-qualifiers'',
      ''parameters-and-qualifiers:\<newline>'' @
      ''    ( parameter-declaration-clause ) cv-qualifier-seq_opt\<newline>'' @
      ''        ref-qualifier_opt noexcept-specifier_opt attribute-specifier-seq_opt''),
     (''trailing-return-type'', ''trailing-return-type:\<newline>    -> type-id''),
     (''ptr-operator'',
      ''ptr-operator:\<newline>'' @
      ''    * attribute-specifier-seq_opt cv-qualifier-seq_opt\<newline>'' @
      ''    & attribute-specifier-seq_opt\<newline>'' @
      ''    && attribute-specifier-seq_opt\<newline>'' @
      ''    nested-name-specifier * attribute-specifier-seq_opt cv-qualifier-seq_opt''),
     (''cv-qualifier-seq'', ''cv-qualifier-seq:\<newline>    cv-qualifier cv-qualifier-seq_opt''),
     (''cv-qualifier'', ''cv-qualifier:\<newline>    const\<newline>    volatile''),
     (''ref-qualifier'', ''ref-qualifier:\<newline>    &\<newline>    &&''),
     (''declarator-id'', ''declarator-id:\<newline>    ..._opt id-expression''),
     (''type-id'', ''type-id:\<newline>    type-specifier-seq abstract-declarator_opt''),
     (''defining-type-id'',
      ''defining-type-id:\<newline>'' @
      ''    defining-type-specifier-seq abstract-declarator_opt''),
     (''abstract-declarator'',
      ''abstract-declarator:\<newline>'' @
      ''    ptr-abstract-declarator\<newline>'' @
      ''    noptr-abstract-declarator_opt parameters-and-qualifiers trailing-return-type\<newline>'' @
      ''    abstract-pack-declarator''),
     (''ptr-abstract-declarator'',
      ''ptr-abstract-declarator:\<newline>'' @
      ''    noptr-abstract-declarator\<newline>'' @
      ''    ptr-operator ptr-abstract-declarator_opt''),
     (''noptr-abstract-declarator'',
      ''noptr-abstract-declarator:\<newline>'' @
      ''    noptr-abstract-declarator_opt parameters-and-qualifiers\<newline>'' @
      ''    noptr-abstract-declarator_opt [ constant-expression_opt ] attribute-specifier-seq_opt\<newline>'' @
      ''    ( ptr-abstract-declarator )''),
     (''abstract-pack-declarator'',
      ''abstract-pack-declarator:\<newline>'' @
      ''    noptr-abstract-pack-declarator\<newline>'' @
      ''    ptr-operator abstract-pack-declarator''),
     (''noptr-abstract-pack-declarator'',
      ''noptr-abstract-pack-declarator:\<newline>'' @
      ''    noptr-abstract-pack-declarator parameters-and-qualifiers\<newline>'' @
      ''    noptr-abstract-pack-declarator [ constant-expression_opt ] attribute-specifier-seq_opt\<newline>'' @
      ''    ...''),
     (''parameter-declaration-clause'',
      ''parameter-declaration-clause:\<newline>'' @
      ''    parameter-declaration-list_opt ..._opt\<newline>'' @
      ''    parameter-declaration-list , ...''),
     (''parameter-declaration-list'',
      ''parameter-declaration-list:\<newline>'' @
      ''    parameter-declaration\<newline>'' @
      ''    parameter-declaration-list , parameter-declaration''),
     (''parameter-declaration'',
      ''parameter-declaration:\<newline>'' @
      ''    attribute-specifier-seq_opt this_opt decl-specifier-seq declarator\<newline>'' @
      ''    attribute-specifier-seq_opt decl-specifier-seq declarator = initializer-clause\<newline>'' @
      ''    attribute-specifier-seq_opt this_opt decl-specifier-seq abstract-declarator_opt\<newline>'' @
      ''    attribute-specifier-seq_opt decl-specifier-seq abstract-declarator_opt = initializer-clause''),
     (''initializer'',
      ''initializer:\<newline>'' @
      ''    brace-or-equal-initializer\<newline>'' @
      ''    ( expression-list )''),
     (''brace-or-equal-initializer'',
      ''brace-or-equal-initializer:\<newline>'' @
      ''    = initializer-clause\<newline>'' @
      ''    braced-init-list''),
     (''initializer-clause'',
      ''initializer-clause:\<newline>'' @
      ''    assignment-expression\<newline>'' @
      ''    braced-init-list''),
     (''braced-init-list'',
      ''braced-init-list:\<newline>'' @
      ''    { initializer-list ,_opt }\<newline>'' @
      ''    { designated-initializer-list ,_opt }\<newline>'' @
      ''    { }''),
     (''initializer-list'',
      ''initializer-list:\<newline>'' @
      ''    initializer-clause ..._opt\<newline>'' @
      ''    initializer-list , initializer-clause ..._opt''),
     (''designated-initializer-list'',
      ''designated-initializer-list:\<newline>'' @
      ''    designated-initializer-clause\<newline>'' @
      ''    designated-initializer-list , designated-initializer-clause''),
     (''designated-initializer-clause'',
      ''designated-initializer-clause:\<newline>'' @
      ''    designator brace-or-equal-initializer''),
     (''designator'', ''designator:\<newline>    . identifier''),
     (''expr-or-braced-init-list'',
      ''expr-or-braced-init-list:\<newline>'' @
      ''    expression\<newline>'' @
      ''    braced-init-list''),
     (''function-definition'',
      ''function-definition:\<newline>'' @
      ''    attribute-specifier-seq_opt decl-specifier-seq_opt declarator virt-specifier-seq_opt function-body\<newline>'' @
      ''    attribute-specifier-seq_opt decl-specifier-seq_opt declarator requires-clause function-body''),
     (''function-body'',
      ''function-body:\<newline>'' @
      ''    ctor-initializer_opt compound-statement\<newline>'' @
      ''    function-try-block\<newline>'' @
      ''    = default ;\<newline>'' @
      ''    = delete ;''),
     (''enum-specifier'',
      ''enum-specifier:\<newline>'' @
      ''    enum-head { enumerator-list_opt }\<newline>'' @
      ''    enum-head { enumerator-list , }''),
     (''enum-head'',
      ''enum-head:\<newline>'' @
      ''    enum-key attribute-specifier-seq_opt enum-head-name_opt enum-base_opt''),
     (''enum-head-name'', ''enum-head-name:\<newline>    nested-name-specifier_opt identifier''),
     (''opaque-enum-declaration'',
      ''opaque-enum-declaration:\<newline>'' @
      ''    enum-key attribute-specifier-seq_opt enum-head-name enum-base_opt ;''),
     (''enum-key'', ''enum-key:\<newline>    enum\<newline>    enum class\<newline>    enum struct''),
     (''enum-base'', ''enum-base:\<newline>    : type-specifier-seq''),
     (''enumerator-list'',
      ''enumerator-list:\<newline>'' @
      ''    enumerator-definition\<newline>'' @
      ''    enumerator-list , enumerator-definition''),
     (''enumerator-definition'',
      ''enumerator-definition:\<newline>'' @
      ''    enumerator\<newline>'' @
      ''    enumerator = constant-expression''),
     (''enumerator'', ''enumerator:\<newline>    identifier attribute-specifier-seq_opt''),
     (''using-enum-declaration'',
      ''using-enum-declaration:\<newline>'' @
      ''    using enum using-enum-declarator ;''),
     (''using-enum-declarator'',
      ''using-enum-declarator:\<newline>'' @
      ''    nested-name-specifier_opt identifier\<newline>'' @
      ''    nested-name-specifier_opt simple-template-id''),
     (''namespace-definition'',
      ''namespace-definition:\<newline>'' @
      ''    named-namespace-definition\<newline>'' @
      ''    unnamed-namespace-definition\<newline>'' @
      ''    nested-namespace-definition''),
     (''named-namespace-definition'',
      ''named-namespace-definition:\<newline>'' @
      ''    inline_opt namespace attribute-specifier-seq_opt identifier { namespace-body }''),
     (''unnamed-namespace-definition'',
      ''unnamed-namespace-definition:\<newline>'' @
      ''    inline_opt namespace attribute-specifier-seq_opt { namespace-body }''),
     (''nested-namespace-definition'',
      ''nested-namespace-definition:\<newline>'' @
      ''    namespace enclosing-namespace-specifier :: inline_opt identifier { namespace-body }''),
     (''enclosing-namespace-specifier'',
      ''enclosing-namespace-specifier:\<newline>'' @
      ''    identifier\<newline>'' @
      ''    enclosing-namespace-specifier :: inline_opt identifier''),
     (''namespace-body'', ''namespace-body:\<newline>    declaration-seq_opt''),
     (''namespace-alias-definition'',
      ''namespace-alias-definition:\<newline>'' @
      ''    namespace identifier = qualified-namespace-specifier ;''),
     (''qualified-namespace-specifier'',
      ''qualified-namespace-specifier:\<newline>'' @
      ''    nested-name-specifier_opt namespace-name''),
     (''using-directive'',
      ''using-directive:\<newline>'' @
      ''    attribute-specifier-seq_opt using namespace nested-name-specifier_opt namespace-name ;''),
     (''using-declaration'', ''using-declaration:\<newline>    using using-declarator-list ;''),
     (''using-declarator-list'',
      ''using-declarator-list:\<newline>'' @
      ''    using-declarator ..._opt\<newline>'' @
      ''    using-declarator-list , using-declarator ..._opt''),
     (''using-declarator'',
      ''using-declarator:\<newline>'' @
      ''    typename_opt nested-name-specifier unqualified-id''),
     (''asm-declaration'',
      ''asm-declaration:\<newline>'' @
      ''    attribute-specifier-seq_opt asm ( string-literal ) ;''),
     (''linkage-specification'',
      ''linkage-specification:\<newline>'' @
      ''    extern string-literal { declaration-seq_opt }\<newline>'' @
      ''    extern string-literal name-declaration''),
     (''attribute-specifier-seq'',
      ''attribute-specifier-seq:\<newline>'' @
      ''    attribute-specifier-seq_opt attribute-specifier''),
     (''attribute-specifier'',
      ''attribute-specifier:\<newline>'' @
      ''    [ [ attribute-using-prefix_opt attribute-list ] ]\<newline>'' @
      ''    alignment-specifier''),
     (''alignment-specifier'',
      ''alignment-specifier:\<newline>'' @
      ''    alignas ( type-id ..._opt )\<newline>'' @
      ''    alignas ( constant-expression ..._opt )''),
     (''attribute-using-prefix'',
      ''attribute-using-prefix:\<newline>'' @
      ''    using attribute-namespace :''),
     (''attribute-list'',
      ''attribute-list:\<newline>'' @
      ''    attribute_opt\<newline>'' @
      ''    attribute-list , attribute_opt\<newline>'' @
      ''    attribute ...\<newline>'' @
      ''    attribute-list , attribute ...''),
     (''attribute'', ''attribute:\<newline>    attribute-token attribute-argument-clause_opt''),
     (''attribute-token'',
      ''attribute-token:\<newline>'' @
      ''    identifier\<newline>'' @
      ''    attribute-scoped-token''),
     (''attribute-scoped-token'',
      ''attribute-scoped-token:\<newline>'' @
      ''    attribute-namespace :: identifier''),
     (''attribute-namespace'', ''attribute-namespace:\<newline>    identifier''),
     (''attribute-argument-clause'',
      ''attribute-argument-clause:\<newline>'' @
      ''    ( balanced-token-seq_opt )''),
     (''balanced-token-seq'',
      ''balanced-token-seq:\<newline>'' @
      ''    balanced-token\<newline>'' @
      ''    balanced-token-seq balanced-token''),
     (''balanced-token'',
      ''balanced-token:\<newline>'' @
      ''    ( balanced-token-seq_opt )\<newline>'' @
      ''    [ balanced-token-seq_opt ]\<newline>'' @
      ''    { balanced-token-seq_opt }\<newline>'' @
      ''    any token other than a parenthesis, a bracket, or a brace'')]\<close>

text \<open>The properties of \<open>EBNF_DEFINITIONS\<close> for the section \<open>modules\<close>.\<close>

definition EBNF_modules :: "(string \<times> string) list" where
  \<open>EBNF_modules =
    [(''module-declaration'',
      ''module-declaration:\<newline>'' @
      ''    export-keyword_opt module-keyword module-name module-partition_opt attribute-specifier-seq_opt ;''),
     (''module-name'', ''module-name:\<newline>    module-name-qualifier_opt identifier''),
     (''module-partition'',
      ''module-partition:\<newline>'' @
      ''    : module-name-qualifier_opt identifier''),
     (''module-name-qualifier'',
      ''module-name-qualifier:\<newline>'' @
      ''    identifier .\<newline>'' @
      ''    module-name-qualifier identifier .''),
     (''export-declaration'',
      ''export-declaration:\<newline>'' @
      ''    export name-declaration\<newline>'' @
      ''    export { declaration-seq_opt }\<newline>'' @
      ''    export-keyword module-import-declaration''),
     (''module-import-declaration'',
      ''module-import-declaration:\<newline>'' @
      ''    import-keyword module-name attribute-specifier-seq_opt ;\<newline>'' @
      ''    import-keyword module-partition attribute-specifier-seq_opt ;\<newline>'' @
      ''    import-keyword header-name attribute-specifier-seq_opt ;''),
     (''global-module-fragment'',
      ''global-module-fragment:\<newline>'' @
      ''    module-keyword ; declaration-seq_opt''),
     (''private-module-fragment'',
      ''private-module-fragment:\<newline>'' @
      ''    module-keyword : private ; declaration-seq_opt'')]\<close>

text \<open>The properties of \<open>EBNF_DEFINITIONS\<close> for the section \<open>classes\<close>.\<close>

definition EBNF_classes :: "(string \<times> string) list" where
  \<open>EBNF_classes =
    [(''class-specifier'', ''class-specifier:\<newline>    class-head { member-specification_opt }''),
     (''class-head'',
      ''class-head:\<newline>'' @
      ''    class-key attribute-specifier-seq_opt class-head-name class-virt-specifier_opt base-clause_opt\<newline>'' @
      ''    class-key attribute-specifier-seq_opt base-clause_opt''),
     (''class-head-name'', ''class-head-name:\<newline>    nested-name-specifier_opt class-name''),
     (''class-virt-specifier'', ''class-virt-specifier:\<newline>    final''),
     (''class-key'', ''class-key:\<newline>    class\<newline>    struct\<newline>    union''),
     (''member-specification'',
      ''member-specification:\<newline>'' @
      ''    member-declaration member-specification_opt\<newline>'' @
      ''    access-specifier : member-specification_opt''),
     (''member-declaration'',
      ''member-declaration:\<newline>'' @
      ''    attribute-specifier-seq_opt decl-specifier-seq_opt member-declarator-list_opt ;\<newline>'' @
      ''    function-definition\<newline>'' @
      ''    using-declaration\<newline>'' @
      ''    using-enum-declaration\<newline>'' @
      ''    static_assert-declaration\<newline>'' @
      ''    template-declaration\<newline>'' @
      ''    explicit-specialization\<newline>'' @
      ''    deduction-guide\<newline>'' @
      ''    alias-declaration\<newline>'' @
      ''    opaque-enum-declaration\<newline>'' @
      ''    empty-declaration''),
     (''member-declarator-list'',
      ''member-declarator-list:\<newline>'' @
      ''    member-declarator\<newline>'' @
      ''    member-declarator-list , member-declarator''),
     (''member-declarator'',
      ''member-declarator:\<newline>'' @
      ''    declarator virt-specifier-seq_opt pure-specifier_opt\<newline>'' @
      ''    declarator requires-clause\<newline>'' @
      ''    declarator brace-or-equal-initializer_opt\<newline>'' @
      ''    identifier_opt attribute-specifier-seq_opt : constant-expression brace-or-equal-initializer_opt''),
     (''virt-specifier-seq'',
      ''virt-specifier-seq:\<newline>'' @
      ''    virt-specifier\<newline>'' @
      ''    virt-specifier-seq virt-specifier''),
     (''virt-specifier'', ''virt-specifier:\<newline>    override\<newline>    final''),
     (''pure-specifier'', ''pure-specifier:\<newline>    = 0''),
     (''conversion-function-id'',
      ''conversion-function-id:\<newline>'' @
      ''    operator conversion-type-id''),
     (''conversion-type-id'',
      ''conversion-type-id:\<newline>'' @
      ''    type-specifier-seq conversion-declarator_opt''),
     (''conversion-declarator'',
      ''conversion-declarator:\<newline>'' @
      ''    ptr-operator conversion-declarator_opt''),
     (''base-clause'', ''base-clause:\<newline>    : base-specifier-list''),
     (''base-specifier-list'',
      ''base-specifier-list:\<newline>'' @
      ''    base-specifier ..._opt\<newline>'' @
      ''    base-specifier-list , base-specifier ..._opt''),
     (''base-specifier'',
      ''base-specifier:\<newline>'' @
      ''    attribute-specifier-seq_opt class-or-decltype\<newline>'' @
      ''    attribute-specifier-seq_opt virtual access-specifier_opt class-or-decltype\<newline>'' @
      ''    attribute-specifier-seq_opt access-specifier virtual_opt class-or-decltype''),
     (''class-or-decltype'',
      ''class-or-decltype:\<newline>'' @
      ''    nested-name-specifier_opt type-name\<newline>'' @
      ''    nested-name-specifier template simple-template-id\<newline>'' @
      ''    decltype-specifier''),
     (''access-specifier'',
      ''access-specifier:\<newline>'' @
      ''    private\<newline>'' @
      ''    protected\<newline>'' @
      ''    public''),
     (''ctor-initializer'', ''ctor-initializer:\<newline>    : mem-initializer-list''),
     (''mem-initializer-list'',
      ''mem-initializer-list:\<newline>'' @
      ''    mem-initializer ..._opt\<newline>'' @
      ''    mem-initializer-list , mem-initializer ..._opt''),
     (''mem-initializer'',
      ''mem-initializer:\<newline>'' @
      ''    mem-initializer-id ( expression-list_opt )\<newline>'' @
      ''    mem-initializer-id braced-init-list''),
     (''mem-initializer-id'',
      ''mem-initializer-id:\<newline>'' @
      ''    class-or-decltype\<newline>'' @
      ''    identifier'')]\<close>

text \<open>The properties of \<open>EBNF_DEFINITIONS\<close> for the section \<open>overloading\<close>.\<close>

definition EBNF_overloading :: "(string \<times> string) list" where
  \<open>EBNF_overloading =
    [(''operator-function-id'', ''operator-function-id:\<newline>    operator operator''),
     (''operator'',
      ''operator: one of\<newline>'' @
      ''    new delete new[] delete[] co_await ( ) [ ] -> ->*\<newline>'' @
      ''    ~ ! + - * / % ^ &\<newline>'' @
      ''    | = += -= *= /= %= ^= &=\<newline>'' @
      ''    |= == != < > <= >= <=> &&\<newline>'' @
      ''    || << >> <<= >>= ++ -- ,''),
     (''literal-operator-id'',
      ''literal-operator-id:\<newline>'' @
      ''    operator string-literal identifier\<newline>'' @
      ''    operator user-defined-string-literal'')]\<close>

text \<open>The properties of \<open>EBNF_DEFINITIONS\<close> for the section \<open>templates\<close>.\<close>

definition EBNF_templates :: "(string \<times> string) list" where
  \<open>EBNF_templates =
    [(''template-declaration'',
      ''template-declaration:\<newline>'' @
      ''    template-head declaration\<newline>'' @
      ''    template-head concept-definition''),
     (''template-head'',
      ''template-head:\<newline>'' @
      ''    template < template-parameter-list > requires-clause_opt''),
     (''template-parameter-list'',
      ''template-parameter-list:\<newline>'' @
      ''    template-parameter\<newline>'' @
      ''    template-parameter-list , template-parameter''),
     (''requires-clause'',
      ''requires-clause:\<newline>'' @
      ''    requires constraint-logical-or-expression''),
     (''constraint-logical-or-expression'',
      ''constraint-logical-or-expression:\<newline>'' @
      ''    constraint-logical-and-expression\<newline>'' @
      ''    constraint-logical-or-expression || constraint-logical-and-expression''),
     (''constraint-logical-and-expression'',
      ''constraint-logical-and-expression:\<newline>'' @
      ''    primary-expression\<newline>'' @
      ''    constraint-logical-and-expression && primary-expression''),
     (''template-parameter'',
      ''template-parameter:\<newline>'' @
      ''    type-parameter\<newline>'' @
      ''    parameter-declaration''),
     (''type-parameter'',
      ''type-parameter:\<newline>'' @
      ''    type-parameter-key ..._opt identifier_opt\<newline>'' @
      ''    type-parameter-key identifier_opt = type-id\<newline>'' @
      ''    type-constraint ..._opt identifier_opt\<newline>'' @
      ''    type-constraint identifier_opt = type-id\<newline>'' @
      ''    template-head type-parameter-key ..._opt identifier_opt\<newline>'' @
      ''    template-head type-parameter-key identifier_opt = id-expression''),
     (''type-parameter-key'', ''type-parameter-key:\<newline>    class\<newline>    typename''),
     (''type-constraint'',
      ''type-constraint:\<newline>'' @
      ''    nested-name-specifier_opt concept-name\<newline>'' @
      ''    nested-name-specifier_opt concept-name < template-argument-list_opt >''),
     (''simple-template-id'',
      ''simple-template-id:\<newline>'' @
      ''    template-name < template-argument-list_opt >''),
     (''template-id'',
      ''template-id:\<newline>'' @
      ''    simple-template-id\<newline>'' @
      ''    operator-function-id < template-argument-list_opt >\<newline>'' @
      ''    literal-operator-id < template-argument-list_opt >''),
     (''template-argument-list'',
      ''template-argument-list:\<newline>'' @
      ''    template-argument ..._opt\<newline>'' @
      ''    template-argument-list , template-argument ..._opt''),
     (''template-argument'',
      ''template-argument:\<newline>'' @
      ''    constant-expression\<newline>'' @
      ''    type-id\<newline>'' @
      ''    id-expression''),
     (''constraint-expression'', ''constraint-expression:\<newline>    logical-or-expression''),
     (''deduction-guide'',
      ''deduction-guide:\<newline>'' @
      ''    explicit-specifier_opt template-name ( parameter-declaration-clause ) -> simple-template-id ;''),
     (''concept-definition'',
      ''concept-definition:\<newline>'' @
      ''    concept concept-name attribute-specifier-seq_opt = constraint-expression ;''),
     (''concept-name'', ''concept-name:\<newline>    identifier''),
     (''typename-specifier'',
      ''typename-specifier:\<newline>'' @
      ''    typename nested-name-specifier identifier\<newline>'' @
      ''    typename nested-name-specifier template_opt simple-template-id''),
     (''explicit-instantiation'',
      ''explicit-instantiation:\<newline>'' @
      ''    extern_opt template declaration''),
     (''explicit-specialization'',
      ''explicit-specialization:\<newline>'' @
      ''    template < > declaration'')]\<close>

text \<open>The properties of \<open>EBNF_DEFINITIONS\<close> for the section \<open>exceptions\<close>.\<close>

definition EBNF_exceptions :: "(string \<times> string) list" where
  \<open>EBNF_exceptions =
    [(''try-block'', ''try-block:\<newline>    try compound-statement handler-seq''),
     (''function-try-block'',
      ''function-try-block:\<newline>'' @
      ''    try ctor-initializer_opt compound-statement handler-seq''),
     (''handler-seq'', ''handler-seq:\<newline>    handler handler-seq_opt''),
     (''handler'', ''handler:\<newline>    catch ( exception-declaration ) compound-statement''),
     (''exception-declaration'',
      ''exception-declaration:\<newline>'' @
      ''    attribute-specifier-seq_opt type-specifier-seq declarator\<newline>'' @
      ''    attribute-specifier-seq_opt type-specifier-seq abstract-declarator_opt\<newline>'' @
      ''    ...''),
     (''noexcept-specifier'',
      ''noexcept-specifier:\<newline>'' @
      ''    noexcept ( constant-expression )\<newline>'' @
      ''    noexcept'')]\<close>

text \<open>The properties of \<open>EBNF_DEFINITIONS\<close> for the section \<open>preprocessing\<close>.\<close>

definition EBNF_preprocessing :: "(string \<times> string) list" where
  \<open>EBNF_preprocessing =
    [(''preprocessing-file'',
      ''preprocessing-file:\<newline>'' @
      ''    group_opt\<newline>'' @
      ''    module-file''),
     (''module-file'',
      ''module-file:\<newline>'' @
      ''    pp-global-module-fragment_opt pp-module group_opt pp-private-module-fragment_opt''),
     (''pp-global-module-fragment'',
      ''pp-global-module-fragment:\<newline>'' @
      ''    module ; new-line group_opt''),
     (''pp-private-module-fragment'',
      ''pp-private-module-fragment:\<newline>'' @
      ''    module : private ; new-line group_opt''),
     (''group'', ''group:\<newline>    group-part\<newline>    group group-part''),
     (''group-part'',
      ''group-part:\<newline>'' @
      ''    control-line\<newline>'' @
      ''    if-section\<newline>'' @
      ''    text-line\<newline>'' @
      ''    # conditionally-supported-directive''),
     (''control-line'',
      ''control-line:\<newline>'' @
      ''    # include pp-tokens new-line\<newline>'' @
      ''    pp-import\<newline>'' @
      ''    # define identifier replacement-list new-line\<newline>'' @
      ''    # define identifier lparen identifier-list_opt ) replacement-list new-line\<newline>'' @
      ''    # define identifier lparen ... ) replacement-list new-line\<newline>'' @
      ''    # define identifier lparen identifier-list , ... ) replacement-list new-line\<newline>'' @
      ''    # undef identifier new-line\<newline>'' @
      ''    # line pp-tokens new-line\<newline>'' @
      ''    # error pp-tokens_opt new-line\<newline>'' @
      ''    # warning pp-tokens_opt new-line\<newline>'' @
      ''    # pragma pp-tokens_opt new-line\<newline>'' @
      ''    # new-line''),
     (''if-section'',
      ''if-section:\<newline>'' @
      ''    if-group elif-groups_opt else-group_opt endif-line''),
     (''if-group'',
      ''if-group:\<newline>'' @
      ''    # if constant-expression new-line group_opt\<newline>'' @
      ''    # ifdef identifier new-line group_opt\<newline>'' @
      ''    # ifndef identifier new-line group_opt''),
     (''elif-groups'', ''elif-groups:\<newline>    elif-group\<newline>    elif-groups elif-group''),
     (''elif-group'',
      ''elif-group:\<newline>'' @
      ''    # elif constant-expression new-line group_opt\<newline>'' @
      ''    # elifdef identifier new-line group_opt\<newline>'' @
      ''    # elifndef identifier new-line group_opt''),
     (''else-group'', ''else-group:\<newline>    # else new-line group_opt''),
     (''endif-line'', ''endif-line:\<newline>    # endif new-line''),
     (''text-line'', ''text-line:\<newline>    pp-tokens_opt new-line''),
     (''conditionally-supported-directive'',
      ''conditionally-supported-directive:\<newline>'' @
      ''    pp-tokens new-line''),
     (''lparen'', ''lparen:\<newline>    a ( character not immediately preceded by whitespace''),
     (''identifier-list'',
      ''identifier-list:\<newline>'' @
      ''    identifier\<newline>'' @
      ''    identifier-list , identifier''),
     (''replacement-list'', ''replacement-list:\<newline>    pp-tokens_opt''),
     (''pp-tokens'',
      ''pp-tokens:\<newline>'' @
      ''    preprocessing-token\<newline>'' @
      ''    pp-tokens preprocessing-token''),
     (''new-line'', ''new-line:\<newline>    the new-line character''),
     (''defined-macro-expression'',
      ''defined-macro-expression:\<newline>'' @
      ''    defined identifier\<newline>'' @
      ''    defined ( identifier )''),
     (''h-preprocessing-token'',
      ''h-preprocessing-token:\<newline>'' @
      ''    any preprocessing-token other than >''),
     (''h-pp-tokens'',
      ''h-pp-tokens:\<newline>'' @
      ''    h-preprocessing-token\<newline>'' @
      ''    h-pp-tokens h-preprocessing-token''),
     (''header-name-tokens'',
      ''header-name-tokens:\<newline>'' @
      ''    string-literal\<newline>'' @
      ''    < h-pp-tokens >''),
     (''has-include-expression'',
      ''has-include-expression:\<newline>'' @
      ''    __has_include ( header-name )\<newline>'' @
      ''    __has_include ( header-name-tokens )''),
     (''has-attribute-expression'',
      ''has-attribute-expression:\<newline>'' @
      ''    __has_cpp_attribute ( pp-tokens )''),
     (''pp-module'', ''pp-module:\<newline>    export_opt module pp-tokens_opt ; new-line''),
     (''pp-import'',
      ''pp-import:\<newline>'' @
      ''    export_opt import header-name pp-tokens_opt ; new-line\<newline>'' @
      ''    export_opt import header-name-tokens pp-tokens_opt ; new-line\<newline>'' @
      ''    export_opt import pp-tokens ; new-line''),
     (''va-opt-replacement'', ''va-opt-replacement:\<newline>    __VA_OPT__ ( pp-tokens_opt )'')]\<close>

definition EBNF_properties :: "(string \<times> string) list" where
  "EBNF_properties =
     EBNF_keywords @
     EBNF_lexical @
     EBNF_literals @
     EBNF_basics @
     EBNF_expressions @
     EBNF_statements @
     EBNF_declarations @
     EBNF_modules @
     EBNF_classes @
     EBNF_overloading @
     EBNF_templates @
     EBNF_exceptions @
     EBNF_preprocessing"

text \<open>
  \<open>EBNF_DEFINITIONS\<close> is an object literal, so it inherits from \<open>Object.prototype\<close>:
  \<open>EBNF_DEFINITIONS[name]\<close> is the object's own property \<open>name\<close> when it has one, the
  property of \<open>Object.prototype\<close> when that has one, and \<open>undefined\<close> otherwise.
\<close>

definition EBNF_DEFINITIONS :: "(string \<times> string) list" where
  "EBNF_DEFINITIONS = object_literal EBNF_properties"

definition Object_prototype :: "string list" where
  "Object_prototype =
     [''constructor'', ''__defineGetter__'', ''__defineSetter__'', ''hasOwnProperty'',
      ''__lookupGetter__'', ''__lookupSetter__'', ''isPrototypeOf'', ''propertyIsEnumerable'',
      ''toString'', ''valueOf'', ''__proto__'', ''toLocaleString'']"

datatype property_value =
  Undefined
| String_value string
| Inherited string

definition get_property :: "(string \<times> string) list \<Rightarrow> string \<Rightarrow> property_value" where
  "get_property obj name =
     (case map_of obj name of
        Some v \<Rightarrow> String_value v
      | None \<Rightarrow> if name \<in> set Object_prototype then Inherited name else Undefined)"

text \<open>
  \<^verbatim>\<open>
  /**
   * Gets the EBNF definition for a given rule name.
   * Returns undefined if not found.
   */
  export function getEbnfDefinition(name: RuleName): string | undefined {
    return EBNF_DEFINITIONS[name];
  }

  export function getEbnfRuleNames(): string[] {
    return Object.keys(EBNF_DEFINITIONS);
  }
  \<close>
  \<open>Object.keys\<close> lists the object's own property names.
\<close>

definition getEbnfDefinition :: "string \<Rightarrow> property_value" where
  "getEbnfDefinition name = get_property EBNF_DEFINITIONS name"

definition getEbnfRuleNames :: "string list" where
  "getEbnfRuleNames = map fst EBNF_DEFINITIONS"


section \<open>Properties of the strings\<close>


lemma includes_str_empty: "includes_str s []"
  by (induction s) auto

lemma dropWhile_fixed: "xs = [] \<or> \<not> P (hd xs) \<Longrightarrow> dropWhile P xs = xs"
  by (cases xs) auto

lemma hd_dropWhile_rev:
  assumes "\<not> P (hd u)" and "dropWhile P (rev u) \<noteq> []"
  shows "\<not> P (hd (rev (dropWhile P (rev u))))"
proof -
  have "u \<noteq> []" using assms(2) by auto
  then obtain x xs where u: "u = x # xs" by (cases u) auto
  have "\<not> P x" using assms(1) u by simp
  then have "dropWhile P (rev xs @ [x]) = dropWhile P (rev xs) @ [x]"
    by (induction "rev xs" arbitrary: xs) (auto simp: dropWhile_append)
  then have "rev (dropWhile P (rev u)) = x # rev (dropWhile P (rev xs))"
    using u by simp
  then show ?thesis using \<open>\<not> P x\<close> by simp
qed

lemma trim_idem: "trim (trim s) = trim s"
proof -
  define W where "W = is_white_space"
  define u where "u = dropWhile W s"
  define t where "t = rev (dropWhile W (rev u))"
  have t: "trim s = t" by (simp add: trim_def t_def u_def W_def)
  have hu: "u = [] \<or> \<not> W (hd u)"
    unfolding u_def by (metis hd_dropWhile)
  have ht: "t = [] \<or> \<not> W (hd t)"
  proof (cases "dropWhile W (rev u) = []")
    case True
    then show ?thesis by (simp add: t_def)
  next
    case False
    then have "u \<noteq> []" by auto
    then have "\<not> W (hd u)" using hu by simp
    then show ?thesis unfolding t_def using False by (simp add: hd_dropWhile_rev)
  qed
  have 1: "dropWhile W t = t" using ht by (rule dropWhile_fixed)
  have 2: "dropWhile W (rev t) = rev t" by (simp add: t_def)
  have "trim t = rev (dropWhile W (rev (dropWhile W t)))" by (simp add: trim_def W_def)
  also have "\<dots> = t" by (simp add: 1 2)
  finally show ?thesis by (simp add: t)
qed

section \<open>The filter\<close>

text \<open>
  C2, as stated: every name of the filtered list contains the query \<open>q\<close> itself,
  compared case-insensitively. The query \<open>'' digit''\<close> (a leading space) keeps the name
  \<open>digit\<close>, which does not contain it: the filter compares with the trimmed query.
\<close>

theorem filterNames_untrimmed_counterexample:
  "filterNames '' digit'' [''digit''] = [''digit''] \<and>
   \<not> includes_str (toLowerCase ''digit'') (toLowerCase '' digit'')"
  by code_simp

text \<open>
  C2, amended: for every list of names and every query \<open>q\<close>, the filter returns an
  order-preserving subsequence of the list in which every name contains the trimmed query
  \<open>q.trim()\<close> case-insensitively, and a query that is empty or only whitespace returns the
  list unchanged.
\<close>

theorem filterNames_subseq_contains_trimmed:
  "subseq (filterNames q names) names \<and>
   (\<forall>n \<in> set (filterNames q names). includes_str (toLowerCase n) (toLowerCase (trim q))) \<and>
   (trim q = [] \<longrightarrow> filterNames q names = names)"
  by (auto simp: filterNames_def Let_def toLowerCase_def includes_str_empty)

theorem filterNames_subseq_contains_trimmed_witness:
  "filterNames ''EXPR '' [''expression'', ''digit'', ''constant-expression'']
     = [''expression'', ''constant-expression''] \<and>
   subseq (filterNames ''EXPR '' [''expression'', ''digit'', ''constant-expression''])
     [''expression'', ''digit'', ''constant-expression''] \<and>
   includes_str (toLowerCase ''expression'') (toLowerCase (trim ''EXPR '')) \<and>
   includes_str (toLowerCase ''constant-expression'') (toLowerCase (trim ''EXPR '')) \<and>
   trim ''  '' = [] \<and> filterNames ''  '' [''digit''] = [''digit'']"
proof -
  have r: "filterNames ''EXPR '' [''expression'', ''digit'', ''constant-expression'']
     = [''expression'', ''constant-expression'']"
    by code_simp
  have e: "trim ''  '' = []"
    by (simp add: trim_def is_white_space_def)
  show ?thesis
    using r e
      filterNames_subseq_contains_trimmed
        [of "''EXPR ''" "[''expression'', ''digit'', ''constant-expression'']"]
      filterNames_subseq_contains_trimmed [of "''  ''" "[''digit'']"]
    by simp
qed

text \<open>
  C10: for every list of names and every query \<open>q\<close>, filtering with \<open>q\<close> and filtering with
  \<open>q\<close> stripped of its leading and trailing whitespace give the same list.
\<close>

theorem filterNames_trim_invariant:
  "filterNames (trim q) names = filterNames q names"
  by (simp add: filterNames_def trim_idem)

section \<open>The renderer's fallback chain\<close>

text \<open>
  C9: given \<open>null\<close> or \<open>undefined\<close>, \<open>diagramToSvgString\<close> returns exactly
  \<open><!-- empty diagram -->\<close> and invokes no export method.
\<close>

theorem diagramToSvgString_nullish:
  "diagramToSvgString Js_null = ([], Inr ''<!-- empty diagram -->'') \<and>
   diagramToSvgString Js_undefined = ([], Inr ''<!-- empty diagram -->'')"
  by (simp add: diagramToSvgString_def)

text \<open>
  C4, as stated: when \<open>toSVG()\<close> returns neither a string nor a DOM element,
  \<open>diagram.toString()\<close> is used. For a diagram whose \<open>toSVG()\<close> returns such a value and
  whose \<open>toString()\<close> returns \<open>[object Object]\<close>, the function does not call \<open>toString\<close>
  and returns the marker for an unexpected value.
\<close>

theorem diagramToSvgString_chain_counterexample:
  "diagramToSvgString (Js_object (Some (Returns Svg_other)) (Some (Returns ''[object Object]'')))
     = ([Call_toSVG], Inr ''<!-- toSVG() returned unexpected value -->'') \<and>
   Call_toString \<notin> set (fst (diagramToSvgString
     (Js_object (Some (Returns Svg_other)) (Some (Returns ''[object Object]''))))) \<and>
   snd (diagramToSvgString
     (Js_object (Some (Returns Svg_other)) (Some (Returns ''[object Object]''))))
     \<noteq> Inr ''[object Object]''"
  by (simp add: diagramToSvgString_def try_block_def)

text \<open>
  C4, amended: for a diagram that is not falsy, \<open>diagramToSvgString\<close> applies this chain.
  When \<open>toSVG\<close> is a function it is called and \<open>toString\<close> is not: a string result is
  returned as it is; of a DOM element the \<open>outerHTML\<close> is returned, or the serializer's
  string when \<open>outerHTML\<close> is missing; any other result gives the marker
  \<open><!-- toSVG() returned unexpected value -->\<close>. Only when \<open>toSVG\<close> is not a function is
  \<open>toString()\<close> used, and when neither is a function the marker
  \<open><!-- Diagram does not support toSVG/toString -->\<close> is returned. An exception raised
  during export whose value has a message or a string conversion is caught and returned as
  \<open><!-- Render error: ... -->\<close>; in all these cases the function returns a string.
\<close>

theorem diagramToSvgString_chain:
  "(to_svg = Some (Returns (Svg_string s)) \<longrightarrow>
      diagramToSvgString (Js_object to_svg to_string) = ([Call_toSVG], Inr s)) \<and>
   (to_svg = Some (Returns (Svg_element (Some html) ser)) \<longrightarrow>
      diagramToSvgString (Js_object to_svg to_string) = ([Call_toSVG], Inr html)) \<and>
   (to_svg = Some (Returns (Svg_element None (Returns s))) \<longrightarrow>
      diagramToSvgString (Js_object to_svg to_string)
        = ([Call_toSVG, Call_serializeToString], Inr s)) \<and>
   (to_svg = Some (Returns Svg_other) \<longrightarrow>
      diagramToSvgString (Js_object to_svg to_string)
        = ([Call_toSVG], Inr ''<!-- toSVG() returned unexpected value -->'')) \<and>
   (to_svg = None \<and> to_string = Some (Returns s) \<longrightarrow>
      diagramToSvgString (Js_object to_svg to_string) = ([Call_toString], Inr s)) \<and>
   (to_svg = None \<and> to_string = None \<longrightarrow>
      diagramToSvgString (Js_object to_svg to_string)
        = ([], Inr ''<!-- Diagram does not support toSVG/toString -->'')) \<and>
   ((to_svg = Some (Throws e) \<or>
     to_svg = Some (Returns (Svg_element None (Throws e))) \<or>
     (to_svg = None \<and> to_string = Some (Throws e))) \<and> error_text e = Some m \<longrightarrow>
      snd (diagramToSvgString (Js_object to_svg to_string))
        = Inr (''<!-- Render error: '' @ m @ '' -->''))"
  by (auto simp: diagramToSvgString_def try_block_def catch_block_def)

theorem diagramToSvgString_chain_witness:
  "diagramToSvgString (Js_object (Some (Returns (Svg_string ''<svg/>''))) (Some (Returns ''d'')))
     = ([Call_toSVG], Inr ''<svg/>'') \<and>
   diagramToSvgString
     (Js_object (Some (Returns (Svg_element (Some ''<svg></svg>'') (Returns ''<svg/>'')))) None)
     = ([Call_toSVG], Inr ''<svg></svg>'') \<and>
   diagramToSvgString (Js_object (Some (Returns (Svg_element None (Returns ''<svg/>'')))) None)
     = ([Call_toSVG, Call_serializeToString], Inr ''<svg/>'') \<and>
   diagramToSvgString (Js_object (Some (Returns Svg_other)) (Some (Returns ''d'')))
     = ([Call_toSVG], Inr ''<!-- toSVG() returned unexpected value -->'') \<and>
   diagramToSvgString (Js_object None (Some (Returns ''d''))) = ([Call_toString], Inr ''d'') \<and>
   diagramToSvgString (Js_object None None)
     = ([], Inr ''<!-- Diagram does not support toSVG/toString -->'') \<and>
   error_text (Thrown_with_message ''boom'') = Some ''boom'' \<and>
   snd (diagramToSvgString (Js_object (Some (Throws (Thrown_with_message ''boom''))) None))
     = Inr ''<!-- Render error: boom -->''"
proof -
  have m: "error_text (Thrown_with_message ''boom'') = Some ''boom''"
    by (simp add: error_text_def)
  show ?thesis
    using m
      diagramToSvgString_chain [where to_svg = "Some (Returns (Svg_string ''<svg/>''))"
        and s = "''<svg/>''" and to_string = "Some (Returns ''d'')"]
      diagramToSvgString_chain
        [where to_svg = "Some (Returns (Svg_element (Some ''<svg></svg>'') (Returns ''<svg/>'')))"
        and html = "''<svg></svg>''" and ser = "Returns ''<svg/>''" and to_string = None]
      diagramToSvgString_chain [where to_svg = "Some (Returns (Svg_element None (Returns ''<svg/>'')))"
        and s = "''<svg/>''" and to_string = None]
      diagramToSvgString_chain [where to_svg = "Some (Returns Svg_other)"
        and to_string = "Some (Returns ''d'')"]
      diagramToSvgString_chain [where to_svg = None and to_string = "Some (Returns ''d'')"
        and s = "''d''"]
      diagramToSvgString_chain [where to_svg = None and to_string = None]
      diagramToSvgString_chain [where to_svg = "Some (Throws (Thrown_with_message ''boom''))"
        and to_string = None and e = "Thrown_with_message ''boom''" and m = "''boom''"]
    by simp
qed


section \<open>Checking lists of names\<close>

text \<open>
  Executable tests that the strings of a list are pairwise different and that two lists
  share no string. They stop at the first code unit that differs.
\<close>

fun str_eq :: "string \<Rightarrow> string \<Rightarrow> bool" where
  "str_eq [] [] = True"
| "str_eq (x # xs) (y # ys) = (if x = y then str_eq xs ys else False)"
| "str_eq [] (y # ys) = False"
| "str_eq (x # xs) [] = False"

fun fresh_in :: "string \<Rightarrow> string list \<Rightarrow> bool" where
  "fresh_in x [] = True"
| "fresh_in x (y # ys) = (if str_eq x y then False else fresh_in x ys)"

fun all_distinct :: "string list \<Rightarrow> bool" where
  "all_distinct [] = True"
| "all_distinct (x # xs) = (if fresh_in x xs then all_distinct xs else False)"

fun all_fresh_in :: "string list \<Rightarrow> string list \<Rightarrow> bool" where
  "all_fresh_in [] ys = True"
| "all_fresh_in (x # xs) ys = (if fresh_in x ys then all_fresh_in xs ys else False)"

lemma str_eq_iff: "str_eq xs ys \<longleftrightarrow> xs = ys"
  by (induction xs ys rule: str_eq.induct) auto

lemma fresh_in_iff: "fresh_in x ys \<longleftrightarrow> x \<notin> set ys"
  by (induction ys) (auto simp: str_eq_iff)

lemma all_distinct_iff: "all_distinct xs \<longleftrightarrow> distinct xs"
  by (induction xs) (auto simp: fresh_in_iff)

lemma all_fresh_in_iff: "all_fresh_in xs ys \<longleftrightarrow> set xs \<inter> set ys = {}"
  by (induction xs) (auto simp: fresh_in_iff)

text \<open>
  Congruence rules that keep the simplifier from walking through the arguments of the
  tests before it unfolds them.
\<close>

lemma str_eq_cong: "str_eq xs ys = str_eq xs ys"
  by (rule refl)

lemma fresh_in_cong: "fresh_in x ys = fresh_in x ys"
  by (rule refl)

lemma all_distinct_cong: "all_distinct xs = all_distinct xs"
  by (rule refl)

lemma all_fresh_in_cong: "all_fresh_in xs ys = all_fresh_in xs ys"
  by (rule refl)

lemmas name_test_congs = str_eq_cong fresh_in_cong all_distinct_cong all_fresh_in_cong

section \<open>Maps built from distinct keys\<close>

lemma update_fresh: "k \<notin> fst ` set al \<Longrightarrow> AList.update k v al = al @ [(k, v)]"
  by (induction al) auto

lemma fold_update_append:
  "distinct (map fst (acc @ es)) \<Longrightarrow>
   fold (\<lambda>(k, v) m. AList.update k v m) es acc = acc @ es"
proof (induction es arbitrary: acc)
  case Nil
  then show ?case by simp
next
  case (Cons e es)
  obtain k v where e: "e = (k, v)" by (cases e)
  have fresh: "k \<notin> fst ` set acc" using Cons.prems e by auto
  have d: "distinct (map fst ((acc @ [(k, v)]) @ es))" using Cons.prems e by simp
  have "fold (\<lambda>(k, v) m. AList.update k v m) (e # es) acc
      = fold (\<lambda>(k, v) m. AList.update k v m) es (acc @ [(k, v)])"
    using fresh e by (simp add: update_fresh)
  also have "\<dots> = (acc @ [(k, v)]) @ es" using d by (rule Cons.IH)
  finally show ?case using e by simp
qed

lemma fold_Map_set_distinct:
  "distinct (map fst es) \<Longrightarrow> fold (\<lambda>(k, v) m. Map_set m k v) es [] = es"
  using fold_update_append [of "[]" es] by (simp add: Map_set_def)

lemma object_literal_distinct:
  "distinct (map fst props) \<Longrightarrow> object_literal props = props"
  using fold_update_append [of "[]" props] by (simp add: object_literal_def)


section \<open>The names of the first grammar module\<close>

lemma keys_keywords_sd: "map fst rules_keywords_sd = SECTION_RULES_keywords_sd"
  by (simp add: rules_keywords_sd_def SECTION_RULES_keywords_sd_def)

lemma keys_lexical_sd: "map fst rules_lexical_sd = SECTION_RULES_lexical_sd"
  by (simp add: rules_lexical_sd_def SECTION_RULES_lexical_sd_def)

lemma keys_literals_sd: "map fst rules_literals_sd = SECTION_RULES_literals_sd"
  by (simp add: rules_literals_sd_def SECTION_RULES_literals_sd_def)

lemma keys_basics_sd: "map fst rules_basics_sd = SECTION_RULES_basics_sd"
  by (simp add: rules_basics_sd_def SECTION_RULES_basics_sd_def)

lemma keys_expressions_sd: "map fst rules_expressions_sd = SECTION_RULES_expressions_sd"
  by (simp add: rules_expressions_sd_def SECTION_RULES_expressions_sd_def)

lemma keys_statements_sd: "map fst rules_statements_sd = SECTION_RULES_statements_sd"
  by (simp add: rules_statements_sd_def SECTION_RULES_statements_sd_def)

lemma keys_declarations_sd: "map fst rules_declarations_sd = SECTION_RULES_declarations_sd"
  by (simp add: rules_declarations_sd_def SECTION_RULES_declarations_sd_def)

lemma keys_modules_sd: "map fst rules_modules_sd = SECTION_RULES_modules_sd"
  by (simp add: rules_modules_sd_def SECTION_RULES_modules_sd_def)

lemma keys_classes_sd: "map fst rules_classes_sd = SECTION_RULES_classes_sd"
  by (simp add: rules_classes_sd_def SECTION_RULES_classes_sd_def)

lemma keys_overloading_sd: "map fst rules_overloading_sd = SECTION_RULES_overloading_sd"
  by (simp add: rules_overloading_sd_def SECTION_RULES_overloading_sd_def)

lemma keys_templates_sd: "map fst rules_templates_sd = SECTION_RULES_templates_sd"
  by (simp add: rules_templates_sd_def SECTION_RULES_templates_sd_def)

lemma keys_exceptions_sd: "map fst rules_exceptions_sd = SECTION_RULES_exceptions_sd"
  by (simp add: rules_exceptions_sd_def SECTION_RULES_exceptions_sd_def)

lemma keys_preprocessing_sd: "map fst rules_preprocessing_sd = SECTION_RULES_preprocessing_sd"
  by (simp add: rules_preprocessing_sd_def SECTION_RULES_preprocessing_sd_def)

lemma distinct_keywords_sd: "all_distinct SECTION_RULES_keywords_sd"
  unfolding SECTION_RULES_keywords_sd_def by (simp cong: name_test_congs)

lemma distinct_lexical_sd: "all_distinct SECTION_RULES_lexical_sd"
  unfolding SECTION_RULES_lexical_sd_def by (simp cong: name_test_congs)

lemma distinct_literals_sd: "all_distinct SECTION_RULES_literals_sd"
  unfolding SECTION_RULES_literals_sd_def by (simp cong: name_test_congs)

lemma distinct_basics_sd: "all_distinct SECTION_RULES_basics_sd"
  unfolding SECTION_RULES_basics_sd_def by (simp cong: name_test_congs)

lemma distinct_expressions_sd: "all_distinct SECTION_RULES_expressions_sd"
  unfolding SECTION_RULES_expressions_sd_def by (simp cong: name_test_congs)

lemma distinct_statements_sd: "all_distinct SECTION_RULES_statements_sd"
  unfolding SECTION_RULES_statements_sd_def by (simp cong: name_test_congs)

lemma distinct_declarations_sd: "all_distinct SECTION_RULES_declarations_sd"
  unfolding SECTION_RULES_declarations_sd_def by (simp cong: name_test_congs)

lemma distinct_modules_sd: "all_distinct SECTION_RULES_modules_sd"
  unfolding SECTION_RULES_modules_sd_def by (simp cong: name_test_congs)

lemma distinct_classes_sd: "all_distinct SECTION_RULES_classes_sd"
  unfolding SECTION_RULES_classes_sd_def by (simp cong: name_test_congs)

lemma distinct_overloading_sd: "all_distinct SECTION_RULES_overloading_sd"
  unfolding SECTION_RULES_overloading_sd_def by (simp cong: name_test_congs)

lemma distinct_templates_sd: "all_distinct SECTION_RULES_templates_sd"
  unfolding SECTION_RULES_templates_sd_def by (simp cong: name_test_congs)

lemma distinct_exceptions_sd: "all_distinct SECTION_RULES_exceptions_sd"
  unfolding SECTION_RULES_exceptions_sd_def by (simp cong: name_test_congs)

lemma distinct_preprocessing_sd: "all_distinct SECTION_RULES_preprocessing_sd"
  unfolding SECTION_RULES_preprocessing_sd_def by (simp cong: name_test_congs)

lemma fresh_keywords_sd:
  "all_fresh_in SECTION_RULES_keywords_sd SECTION_RULES_lexical_sd \<and>
   all_fresh_in SECTION_RULES_keywords_sd SECTION_RULES_literals_sd \<and>
   all_fresh_in SECTION_RULES_keywords_sd SECTION_RULES_basics_sd \<and>
   all_fresh_in SECTION_RULES_keywords_sd SECTION_RULES_expressions_sd \<and>
   all_fresh_in SECTION_RULES_keywords_sd SECTION_RULES_statements_sd \<and>
   all_fresh_in SECTION_RULES_keywords_sd SECTION_RULES_declarations_sd \<and>
   all_fresh_in SECTION_RULES_keywords_sd SECTION_RULES_modules_sd \<and>
   all_fresh_in SECTION_RULES_keywords_sd SECTION_RULES_classes_sd \<and>
   all_fresh_in SECTION_RULES_keywords_sd SECTION_RULES_overloading_sd \<and>
   all_fresh_in SECTION_RULES_keywords_sd SECTION_RULES_templates_sd \<and>
   all_fresh_in SECTION_RULES_keywords_sd SECTION_RULES_exceptions_sd \<and>
   all_fresh_in SECTION_RULES_keywords_sd SECTION_RULES_preprocessing_sd"
  unfolding SECTION_RULES_keywords_sd_def SECTION_RULES_lexical_sd_def SECTION_RULES_literals_sd_def SECTION_RULES_basics_sd_def SECTION_RULES_expressions_sd_def SECTION_RULES_statements_sd_def SECTION_RULES_declarations_sd_def SECTION_RULES_modules_sd_def SECTION_RULES_classes_sd_def SECTION_RULES_overloading_sd_def SECTION_RULES_templates_sd_def SECTION_RULES_exceptions_sd_def SECTION_RULES_preprocessing_sd_def
  by (simp cong: name_test_congs)

lemma fresh_lexical_sd:
  "all_fresh_in SECTION_RULES_lexical_sd SECTION_RULES_literals_sd \<and>
   all_fresh_in SECTION_RULES_lexical_sd SECTION_RULES_basics_sd \<and>
   all_fresh_in SECTION_RULES_lexical_sd SECTION_RULES_expressions_sd \<and>
   all_fresh_in SECTION_RULES_lexical_sd SECTION_RULES_statements_sd \<and>
   all_fresh_in SECTION_RULES_lexical_sd SECTION_RULES_declarations_sd \<and>
   all_fresh_in SECTION_RULES_lexical_sd SECTION_RULES_modules_sd \<and>
   all_fresh_in SECTION_RULES_lexical_sd SECTION_RULES_classes_sd \<and>
   all_fresh_in SECTION_RULES_lexical_sd SECTION_RULES_overloading_sd \<and>
   all_fresh_in SECTION_RULES_lexical_sd SECTION_RULES_templates_sd \<and>
   all_fresh_in SECTION_RULES_lexical_sd SECTION_RULES_exceptions_sd \<and>
   all_fresh_in SECTION_RULES_lexical_sd SECTION_RULES_preprocessing_sd"
  unfolding SECTION_RULES_lexical_sd_def SECTION_RULES_literals_sd_def SECTION_RULES_basics_sd_def SECTION_RULES_expressions_sd_def SECTION_RULES_statements_sd_def SECTION_RULES_declarations_sd_def SECTION_RULES_modules_sd_def SECTION_RULES_classes_sd_def SECTION_RULES_overloading_sd_def SECTION_RULES_templates_sd_def SECTION_RULES_exceptions_sd_def SECTION_RULES_preprocessing_sd_def
  by (simp cong: name_test_congs)

lemma fresh_literals_sd:
  "all_fresh_in SECTION_RULES_literals_sd SECTION_RULES_basics_sd \<and>
   all_fresh_in SECTION_RULES_literals_sd SECTION_RULES_expressions_sd \<and>
   all_fresh_in SECTION_RULES_literals_sd SECTION_RULES_statements_sd \<and>
   all_fresh_in SECTION_RULES_literals_sd SECTION_RULES_declarations_sd \<and>
   all_fresh_in SECTION_RULES_literals_sd SECTION_RULES_modules_sd \<and>
   all_fresh_in SECTION_RULES_literals_sd SECTION_RULES_classes_sd \<and>
   all_fresh_in SECTION_RULES_literals_sd SECTION_RULES_overloading_sd \<and>
   all_fresh_in SECTION_RULES_literals_sd SECTION_RULES_templates_sd \<and>
   all_fresh_in SECTION_RULES_literals_sd SECTION_RULES_exceptions_sd \<and>
   all_fresh_in SECTION_RULES_literals_sd SECTION_RULES_preprocessing_sd"
  unfolding SECTION_RULES_literals_sd_def SECTION_RULES_basics_sd_def SECTION_RULES_expressions_sd_def SECTION_RULES_statements_sd_def SECTION_RULES_declarations_sd_def SECTION_RULES_modules_sd_def SECTION_RULES_classes_sd_def SECTION_RULES_overloading_sd_def SECTION_RULES_templates_sd_def SECTION_RULES_exceptions_sd_def SECTION_RULES_preprocessing_sd_def
  by (simp cong: name_test_congs)

lemma fresh_basics_sd:
  "all_fresh_in SECTION_RULES_basics_sd SECTION_RULES_expressions_sd \<and>
   all_fresh_in SECTION_RULES_basics_sd SECTION_RULES_statements_sd \<and>
   all_fresh_in SECTION_RULES_basics_sd SECTION_RULES_declarations_sd \<and>
   all_fresh_in SECTION_RULES_basics_sd SECTION_RULES_modules_sd \<and>
   all_fresh_in SECTION_RULES_basics_sd SECTION_RULES_classes_sd \<and>
   all_fresh_in SECTION_RULES_basics_sd SECTION_RULES_overloading_sd \<and>
   all_fresh_in SECTION_RULES_basics_sd SECTION_RULES_templates_sd \<and>
   all_fresh_in SECTION_RULES_basics_sd SECTION_RULES_exceptions_sd \<and>
   all_fresh_in SECTION_RULES_basics_sd SECTION_RULES_preprocessing_sd"
  unfolding SECTION_RULES_basics_sd_def SECTION_RULES_expressions_sd_def SECTION_RULES_statements_sd_def SECTION_RULES_declarations_sd_def SECTION_RULES_modules_sd_def SECTION_RULES_classes_sd_def SECTION_RULES_overloading_sd_def SECTION_RULES_templates_sd_def SECTION_RULES_exceptions_sd_def SECTION_RULES_preprocessing_sd_def
  by (simp cong: name_test_congs)

lemma fresh_expressions_sd:
  "all_fresh_in SECTION_RULES_expressions_sd SECTION_RULES_statements_sd \<and>
   all_fresh_in SECTION_RULES_expressions_sd SECTION_RULES_declarations_sd \<and>
   all_fresh_in SECTION_RULES_expressions_sd SECTION_RULES_modules_sd \<and>
   all_fresh_in SECTION_RULES_expressions_sd SECTION_RULES_classes_sd \<and>
   all_fresh_in SECTION_RULES_expressions_sd SECTION_RULES_overloading_sd \<and>
   all_fresh_in SECTION_RULES_expressions_sd SECTION_RULES_templates_sd \<and>
   all_fresh_in SECTION_RULES_expressions_sd SECTION_RULES_exceptions_sd \<and>
   all_fresh_in SECTION_RULES_expressions_sd SECTION_RULES_preprocessing_sd"
  unfolding SECTION_RULES_expressions_sd_def SECTION_RULES_statements_sd_def SECTION_RULES_declarations_sd_def SECTION_RULES_modules_sd_def SECTION_RULES_classes_sd_def SECTION_RULES_overloading_sd_def SECTION_RULES_templates_sd_def SECTION_RULES_exceptions_sd_def SECTION_RULES_preprocessing_sd_def
  by (simp cong: name_test_congs)

lemma fresh_statements_sd:
  "all_fresh_in SECTION_RULES_statements_sd SECTION_RULES_declarations_sd \<and>
   all_fresh_in SECTION_RULES_statements_sd SECTION_RULES_modules_sd \<and>
   all_fresh_in SECTION_RULES_statements_sd SECTION_RULES_classes_sd \<and>
   all_fresh_in SECTION_RULES_statements_sd SECTION_RULES_overloading_sd \<and>
   all_fresh_in SECTION_RULES_statements_sd SECTION_RULES_templates_sd \<and>
   all_fresh_in SECTION_RULES_statements_sd SECTION_RULES_exceptions_sd \<and>
   all_fresh_in SECTION_RULES_statements_sd SECTION_RULES_preprocessing_sd"
  unfolding SECTION_RULES_statements_sd_def SECTION_RULES_declarations_sd_def SECTION_RULES_modules_sd_def SECTION_RULES_classes_sd_def SECTION_RULES_overloading_sd_def SECTION_RULES_templates_sd_def SECTION_RULES_exceptions_sd_def SECTION_RULES_preprocessing_sd_def
  by (simp cong: name_test_congs)

lemma fresh_declarations_sd:
  "all_fresh_in SECTION_RULES_declarations_sd SECTION_RULES_modules_sd \<and>
   all_fresh_in SECTION_RULES_declarations_sd SECTION_RULES_classes_sd \<and>
   all_fresh_in SECTION_RULES_declarations_sd SECTION_RULES_overloading_sd \<and>
   all_fresh_in SECTION_RULES_declarations_sd SECTION_RULES_templates_sd \<and>
   all_fresh_in SECTION_RULES_declarations_sd SECTION_RULES_exceptions_sd \<and>
   all_fresh_in SECTION_RULES_declarations_sd SECTION_RULES_preprocessing_sd"
  unfolding SECTION_RULES_declarations_sd_def SECTION_RULES_modules_sd_def SECTION_RULES_classes_sd_def SECTION_RULES_overloading_sd_def SECTION_RULES_templates_sd_def SECTION_RULES_exceptions_sd_def SECTION_RULES_preprocessing_sd_def
  by (simp cong: name_test_congs)

lemma fresh_modules_sd:
  "all_fresh_in SECTION_RULES_modules_sd SECTION_RULES_classes_sd \<and>
   all_fresh_in SECTION_RULES_modules_sd SECTION_RULES_overloading_sd \<and>
   all_fresh_in SECTION_RULES_modules_sd SECTION_RULES_templates_sd \<and>
   all_fresh_in SECTION_RULES_modules_sd SECTION_RULES_exceptions_sd \<and>
   all_fresh_in SECTION_RULES_modules_sd SECTION_RULES_preprocessing_sd"
  unfolding SECTION_RULES_modules_sd_def SECTION_RULES_classes_sd_def SECTION_RULES_overloading_sd_def SECTION_RULES_templates_sd_def SECTION_RULES_exceptions_sd_def SECTION_RULES_preprocessing_sd_def
  by (simp cong: name_test_congs)

lemma fresh_classes_sd:
  "all_fresh_in SECTION_RULES_classes_sd SECTION_RULES_overloading_sd \<and>
   all_fresh_in SECTION_RULES_classes_sd SECTION_RULES_templates_sd \<and>
   all_fresh_in SECTION_RULES_classes_sd SECTION_RULES_exceptions_sd \<and>
   all_fresh_in SECTION_RULES_classes_sd SECTION_RULES_preprocessing_sd"
  unfolding SECTION_RULES_classes_sd_def SECTION_RULES_overloading_sd_def SECTION_RULES_templates_sd_def SECTION_RULES_exceptions_sd_def SECTION_RULES_preprocessing_sd_def
  by (simp cong: name_test_congs)

lemma fresh_overloading_sd:
  "all_fresh_in SECTION_RULES_overloading_sd SECTION_RULES_templates_sd \<and>
   all_fresh_in SECTION_RULES_overloading_sd SECTION_RULES_exceptions_sd \<and>
   all_fresh_in SECTION_RULES_overloading_sd SECTION_RULES_preprocessing_sd"
  unfolding SECTION_RULES_overloading_sd_def SECTION_RULES_templates_sd_def SECTION_RULES_exceptions_sd_def SECTION_RULES_preprocessing_sd_def
  by (simp cong: name_test_congs)

lemma fresh_templates_sd:
  "all_fresh_in SECTION_RULES_templates_sd SECTION_RULES_exceptions_sd \<and>
   all_fresh_in SECTION_RULES_templates_sd SECTION_RULES_preprocessing_sd"
  unfolding SECTION_RULES_templates_sd_def SECTION_RULES_exceptions_sd_def SECTION_RULES_preprocessing_sd_def
  by (simp cong: name_test_congs)

lemma fresh_exceptions_sd:
  "all_fresh_in SECTION_RULES_exceptions_sd SECTION_RULES_preprocessing_sd"
  unfolding SECTION_RULES_exceptions_sd_def SECTION_RULES_preprocessing_sd_def
  by (simp cong: name_test_congs)

lemma section_names_sd:
  "concat (map SECTION_RULES_sd SECTION_ORDER_sd) =
     SECTION_RULES_keywords_sd @
     SECTION_RULES_lexical_sd @
     SECTION_RULES_literals_sd @
     SECTION_RULES_basics_sd @
     SECTION_RULES_expressions_sd @
     SECTION_RULES_statements_sd @
     SECTION_RULES_declarations_sd @
     SECTION_RULES_modules_sd @
     SECTION_RULES_classes_sd @
     SECTION_RULES_overloading_sd @
     SECTION_RULES_templates_sd @
     SECTION_RULES_exceptions_sd @
     SECTION_RULES_preprocessing_sd"
  by (simp add: SECTION_ORDER_sd_def SECTION_RULES_sd_def)

lemma distinct_section_names_sd: "distinct (concat (map SECTION_RULES_sd SECTION_ORDER_sd))"
  unfolding section_names_sd distinct_append set_append Int_Un_distrib Un_empty
  using distinct_keywords_sd distinct_lexical_sd distinct_literals_sd distinct_basics_sd distinct_expressions_sd distinct_statements_sd distinct_declarations_sd distinct_modules_sd distinct_classes_sd distinct_overloading_sd distinct_templates_sd distinct_exceptions_sd distinct_preprocessing_sd
    fresh_keywords_sd fresh_lexical_sd fresh_literals_sd fresh_basics_sd fresh_expressions_sd fresh_statements_sd fresh_declarations_sd fresh_modules_sd fresh_classes_sd fresh_overloading_sd fresh_templates_sd fresh_exceptions_sd
  by (simp only: all_distinct_iff all_fresh_in_iff simp_thms)

lemma keys_rules_set_calls_sd:
  "map fst rules_set_calls_sd = concat (map SECTION_RULES_sd SECTION_ORDER_sd)"
  by (simp only: section_names_sd rules_set_calls_sd_def map_append
      keys_keywords_sd keys_lexical_sd keys_literals_sd keys_basics_sd keys_expressions_sd keys_statements_sd keys_declarations_sd keys_modules_sd keys_classes_sd keys_overloading_sd keys_templates_sd keys_exceptions_sd keys_preprocessing_sd)

lemma rules_sd_eq: "rules_sd = rules_set_calls_sd"
  unfolding rules_sd_def
  by (rule fold_Map_set_distinct) (simp only: keys_rules_set_calls_sd distinct_section_names_sd)

lemma Map_keys_rules_sd: "Map_keys rules_sd = concat (map SECTION_RULES_sd SECTION_ORDER_sd)"
  by (simp only: Map_keys_def rules_sd_eq keys_rules_set_calls_sd)

lemma distinct_rules_sd: "distinct (map fst rules_sd)"
  by (simp only: rules_sd_eq keys_rules_set_calls_sd distinct_section_names_sd)

section \<open>The names of the second grammar module\<close>

lemma keys_keywords: "map fst rules_keywords = SECTION_RULES_keywords"
  by (simp add: rules_keywords_def SECTION_RULES_keywords_def)

lemma keys_lexical: "map fst rules_lexical = SECTION_RULES_lexical"
  by (simp add: rules_lexical_def SECTION_RULES_lexical_def)

lemma keys_literals: "map fst rules_literals = SECTION_RULES_literals"
  by (simp add: rules_literals_def SECTION_RULES_literals_def)

lemma keys_basics: "map fst rules_basics = SECTION_RULES_basics"
  by (simp add: rules_basics_def SECTION_RULES_basics_def)

lemma keys_expressions: "map fst rules_expressions = SECTION_RULES_expressions"
  by (simp add: rules_expressions_def SECTION_RULES_expressions_def)

lemma keys_statements: "map fst rules_statements = SECTION_RULES_statements"
  by (simp add: rules_statements_def SECTION_RULES_statements_def)

lemma keys_declarations: "map fst rules_declarations = SECTION_RULES_declarations"
  by (simp add: rules_declarations_def SECTION_RULES_declarations_def)

lemma keys_modules: "map fst rules_modules = SECTION_RULES_modules"
  by (simp add: rules_modules_def SECTION_RULES_modules_def)

lemma keys_classes: "map fst rules_classes = SECTION_RULES_classes"
  by (simp add: rules_classes_def SECTION_RULES_classes_def)

lemma keys_overloading: "map fst rules_overloading = SECTION_RULES_overloading"
  by (simp add: rules_overloading_def SECTION_RULES_overloading_def)

lemma keys_templates: "map fst rules_templates = SECTION_RULES_templates"
  by (simp add: rules_templates_def SECTION_RULES_templates_def)

lemma keys_exceptions: "map fst rules_exceptions = SECTION_RULES_exceptions"
  by (simp add: rules_exceptions_def SECTION_RULES_exceptions_def)

lemma keys_preprocessing: "map fst rules_preprocessing = SECTION_RULES_preprocessing"
  by (simp add: rules_preprocessing_def SECTION_RULES_preprocessing_def)

lemma distinct_keywords: "all_distinct SECTION_RULES_keywords"
  unfolding SECTION_RULES_keywords_def by (simp cong: name_test_congs)

lemma distinct_lexical: "all_distinct SECTION_RULES_lexical"
  unfolding SECTION_RULES_lexical_def by (simp cong: name_test_congs)

lemma distinct_literals: "all_distinct SECTION_RULES_literals"
  unfolding SECTION_RULES_literals_def by (simp cong: name_test_congs)

lemma distinct_basics: "all_distinct SECTION_RULES_basics"
  unfolding SECTION_RULES_basics_def by (simp cong: name_test_congs)

lemma distinct_expressions: "all_distinct SECTION_RULES_expressions"
  unfolding SECTION_RULES_expressions_def by (simp cong: name_test_congs)

lemma distinct_statements: "all_distinct SECTION_RULES_statements"
  unfolding SECTION_RULES_statements_def by (simp cong: name_test_congs)

lemma distinct_declarations: "all_distinct SECTION_RULES_declarations"
  unfolding SECTION_RULES_declarations_def by (simp cong: name_test_congs)

lemma distinct_modules: "all_distinct SECTION_RULES_modules"
  unfolding SECTION_RULES_modules_def by (simp cong: name_test_congs)

lemma distinct_classes: "all_distinct SECTION_RULES_classes"
  unfolding SECTION_RULES_classes_def by (simp cong: name_test_congs)

lemma distinct_overloading: "all_distinct SECTION_RULES_overloading"
  unfolding SECTION_RULES_overloading_def by (simp cong: name_test_congs)

lemma distinct_templates: "all_distinct SECTION_RULES_templates"
  unfolding SECTION_RULES_templates_def by (simp cong: name_test_congs)

lemma distinct_exceptions: "all_distinct SECTION_RULES_exceptions"
  unfolding SECTION_RULES_exceptions_def by (simp cong: name_test_congs)

lemma distinct_preprocessing: "all_distinct SECTION_RULES_preprocessing"
  unfolding SECTION_RULES_preprocessing_def by (simp cong: name_test_congs)

lemma fresh_keywords:
  "all_fresh_in SECTION_RULES_keywords SECTION_RULES_lexical \<and>
   all_fresh_in SECTION_RULES_keywords SECTION_RULES_literals \<and>
   all_fresh_in SECTION_RULES_keywords SECTION_RULES_basics \<and>
   all_fresh_in SECTION_RULES_keywords SECTION_RULES_expressions \<and>
   all_fresh_in SECTION_RULES_keywords SECTION_RULES_statements \<and>
   all_fresh_in SECTION_RULES_keywords SECTION_RULES_declarations \<and>
   all_fresh_in SECTION_RULES_keywords SECTION_RULES_modules \<and>
   all_fresh_in SECTION_RULES_keywords SECTION_RULES_classes \<and>
   all_fresh_in SECTION_RULES_keywords SECTION_RULES_overloading \<and>
   all_fresh_in SECTION_RULES_keywords SECTION_RULES_templates \<and>
   all_fresh_in SECTION_RULES_keywords SECTION_RULES_exceptions \<and>
   all_fresh_in SECTION_RULES_keywords SECTION_RULES_preprocessing"
  unfolding SECTION_RULES_keywords_def SECTION_RULES_lexical_def SECTION_RULES_literals_def SECTION_RULES_basics_def SECTION_RULES_expressions_def SECTION_RULES_statements_def SECTION_RULES_declarations_def SECTION_RULES_modules_def SECTION_RULES_classes_def SECTION_RULES_overloading_def SECTION_RULES_templates_def SECTION_RULES_exceptions_def SECTION_RULES_preprocessing_def
  by (simp cong: name_test_congs)

lemma fresh_lexical:
  "all_fresh_in SECTION_RULES_lexical SECTION_RULES_literals \<and>
   all_fresh_in SECTION_RULES_lexical SECTION_RULES_basics \<and>
   all_fresh_in SECTION_RULES_lexical SECTION_RULES_expressions \<and>
   all_fresh_in SECTION_RULES_lexical SECTION_RULES_statements \<and>
   all_fresh_in SECTION_RULES_lexical SECTION_RULES_declarations \<and>
   all_fresh_in SECTION_RULES_lexical SECTION_RULES_modules \<and>
   all_fresh_in SECTION_RULES_lexical SECTION_RULES_classes \<and>
   all_fresh_in SECTION_RULES_lexical SECTION_RULES_overloading \<and>
   all_fresh_in SECTION_RULES_lexical SECTION_RULES_templates \<and>
   all_fresh_in SECTION_RULES_lexical SECTION_RULES_exceptions \<and>
   all_fresh_in SECTION_RULES_lexical SECTION_RULES_preprocessing"
  unfolding SECTION_RULES_lexical_def SECTION_RULES_literals_def SECTION_RULES_basics_def SECTION_RULES_expressions_def SECTION_RULES_statements_def SECTION_RULES_declarations_def SECTION_RULES_modules_def SECTION_RULES_classes_def SECTION_RULES_overloading_def SECTION_RULES_templates_def SECTION_RULES_exceptions_def SECTION_RULES_preprocessing_def
  by (simp cong: name_test_congs)

lemma fresh_literals:
  "all_fresh_in SECTION_RULES_literals SECTION_RULES_basics \<and>
   all_fresh_in SECTION_RULES_literals SECTION_RULES_expressions \<and>
   all_fresh_in SECTION_RULES_literals SECTION_RULES_statements \<and>
   all_fresh_in SECTION_RULES_literals SECTION_RULES_declarations \<and>
   all_fresh_in SECTION_RULES_literals SECTION_RULES_modules \<and>
   all_fresh_in SECTION_RULES_literals SECTION_RULES_classes \<and>
   all_fresh_in SECTION_RULES_literals SECTION_RULES_overloading \<and>
   all_fresh_in SECTION_RULES_literals SECTION_RULES_templates \<and>
   all_fresh_in SECTION_RULES_literals SECTION_RULES_exceptions \<and>
   all_fresh_in SECTION_RULES_literals SECTION_RULES_preprocessing"
  unfolding SECTION_RULES_literals_def SECTION_RULES_basics_def SECTION_RULES_expressions_def SECTION_RULES_statements_def SECTION_RULES_declarations_def SECTION_RULES_modules_def SECTION_RULES_classes_def SECTION_RULES_overloading_def SECTION_RULES_templates_def SECTION_RULES_exceptions_def SECTION_RULES_preprocessing_def
  by (simp cong: name_test_congs)

lemma fresh_basics:
  "all_fresh_in SECTION_RULES_basics SECTION_RULES_expressions \<and>
   all_fresh_in SECTION_RULES_basics SECTION_RULES_statements \<and>
   all_fresh_in SECTION_RULES_basics SECTION_RULES_declarations \<and>
   all_fresh_in SECTION_RULES_basics SECTION_RULES_modules \<and>
   all_fresh_in SECTION_RULES_basics SECTION_RULES_classes \<and>
   all_fresh_in SECTION_RULES_basics SECTION_RULES_overloading \<and>
   all_fresh_in SECTION_RULES_basics SECTION_RULES_templates \<and>
   all_fresh_in SECTION_RULES_basics SECTION_RULES_exceptions \<and>
   all_fresh_in SECTION_RULES_basics SECTION_RULES_preprocessing"
  unfolding SECTION_RULES_basics_def SECTION_RULES_expressions_def SECTION_RULES_statements_def SECTION_RULES_declarations_def SECTION_RULES_modules_def SECTION_RULES_classes_def SECTION_RULES_overloading_def SECTION_RULES_templates_def SECTION_RULES_exceptions_def SECTION_RULES_preprocessing_def
  by (simp cong: name_test_congs)

lemma fresh_expressions:
  "all_fresh_in SECTION_RULES_expressions SECTION_RULES_statements \<and>
   all_fresh_in SECTION_RULES_expressions SECTION_RULES_declarations \<and>
   all_fresh_in SECTION_RULES_expressions SECTION_RULES_modules \<and>
   all_fresh_in SECTION_RULES_expressions SECTION_RULES_classes \<and>
   all_fresh_in SECTION_RULES_expressions SECTION_RULES_overloading \<and>
   all_fresh_in SECTION_RULES_expressions SECTION_RULES_templates \<and>
   all_fresh_in SECTION_RULES_expressions SECTION_RULES_exceptions \<and>
   all_fresh_in SECTION_RULES_expressions SECTION_RULES_preprocessing"
  unfolding SECTION_RULES_expressions_def SECTION_RULES_statements_def SECTION_RULES_declarations_def SECTION_RULES_modules_def SECTION_RULES_classes_def SECTION_RULES_overloading_def SECTION_RULES_templates_def SECTION_RULES_exceptions_def SECTION_RULES_preprocessing_def
  by (simp cong: name_test_congs)

lemma fresh_statements:
  "all_fresh_in SECTION_RULES_statements SECTION_RULES_declarations \<and>
   all_fresh_in SECTION_RULES_statements SECTION_RULES_modules \<and>
   all_fresh_in SECTION_RULES_statements SECTION_RULES_classes \<and>
   all_fresh_in SECTION_RULES_statements SECTION_RULES_overloading \<and>
   all_fresh_in SECTION_RULES_statements SECTION_RULES_templates \<and>
   all_fresh_in SECTION_RULES_statements SECTION_RULES_exceptions \<and>
   all_fresh_in SECTION_RULES_statements SECTION_RULES_preprocessing"
  unfolding SECTION_RULES_statements_def SECTION_RULES_declarations_def SECTION_RULES_modules_def SECTION_RULES_classes_def SECTION_RULES_overloading_def SECTION_RULES_templates_def SECTION_RULES_exceptions_def SECTION_RULES_preprocessing_def
  by (simp cong: name_test_congs)

lemma fresh_declarations:
  "all_fresh_in SECTION_RULES_declarations SECTION_RULES_modules \<and>
   all_fresh_in SECTION_RULES_declarations SECTION_RULES_classes \<and>
   all_fresh_in SECTION_RULES_declarations SECTION_RULES_overloading \<and>
   all_fresh_in SECTION_RULES_declarations SECTION_RULES_templates \<and>
   all_fresh_in SECTION_RULES_declarations SECTION_RULES_exceptions \<and>
   all_fresh_in SECTION_RULES_declarations SECTION_RULES_preprocessing"
  unfolding SECTION_RULES_declarations_def SECTION_RULES_modules_def SECTION_RULES_classes_def SECTION_RULES_overloading_def SECTION_RULES_templates_def SECTION_RULES_exceptions_def SECTION_RULES_preprocessing_def
  by (simp cong: name_test_congs)

lemma fresh_modules:
  "all_fresh_in SECTION_RULES_modules SECTION_RULES_classes \<and>
   all_fresh_in SECTION_RULES_modules SECTION_RULES_overloading \<and>
   all_fresh_in SECTION_RULES_modules SECTION_RULES_templates \<and>
   all_fresh_in SECTION_RULES_modules SECTION_RULES_exceptions \<and>
   all_fresh_in SECTION_RULES_modules SECTION_RULES_preprocessing"
  unfolding SECTION_RULES_modules_def SECTION_RULES_classes_def SECTION_RULES_overloading_def SECTION_RULES_templates_def SECTION_RULES_exceptions_def SECTION_RULES_preprocessing_def
  by (simp cong: name_test_congs)

lemma fresh_classes:
  "all_fresh_in SECTION_RULES_classes SECTION_RULES_overloading \<and>
   all_fresh_in SECTION_RULES_classes SECTION_RULES_templates \<and>
   all_fresh_in SECTION_RULES_classes SECTION_RULES_exceptions \<and>
   all_fresh_in SECTION_RULES_classes SECTION_RULES_preprocessing"
  unfolding SECTION_RULES_classes_def SECTION_RULES_overloading_def SECTION_RULES_templates_def SECTION_RULES_exceptions_def SECTION_RULES_preprocessing_def
  by (simp cong: name_test_congs)

lemma fresh_overloading:
  "all_fresh_in SECTION_RULES_overloading SECTION_RULES_templates \<and>
   all_fresh_in SECTION_RULES_overloading SECTION_RULES_exceptions \<and>
   all_fresh_in SECTION_RULES_overloading SECTION_RULES_preprocessing"
  unfolding SECTION_RULES_overloading_def SECTION_RULES_templates_def SECTION_RULES_exceptions_def SECTION_RULES_preprocessing_def
  by (simp cong: name_test_congs)

lemma fresh_templates:
  "all_fresh_in SECTION_RULES_templates SECTION_RULES_exceptions \<and>
   all_fresh_in SECTION_RULES_templates SECTION_RULES_preprocessing"
  unfolding SECTION_RULES_templates_def SECTION_RULES_exceptions_def SECTION_RULES_preprocessing_def
  by (simp cong: name_test_congs)

lemma fresh_exceptions:
  "all_fresh_in SECTION_RULES_exceptions SECTION_RULES_preprocessing"
  unfolding SECTION_RULES_exceptions_def SECTION_RULES_preprocessing_def
  by (simp cong: name_test_congs)

lemma section_names:
  "concat (map SECTION_RULES SECTION_ORDER) =
     SECTION_RULES_keywords @
     SECTION_RULES_lexical @
     SECTION_RULES_literals @
     SECTION_RULES_basics @
     SECTION_RULES_expressions @
     SECTION_RULES_statements @
     SECTION_RULES_declarations @
     SECTION_RULES_modules @
     SECTION_RULES_classes @
     SECTION_RULES_overloading @
     SECTION_RULES_templates @
     SECTION_RULES_exceptions @
     SECTION_RULES_preprocessing"
  by (simp add: SECTION_ORDER_def SECTION_RULES_def)

lemma distinct_section_names: "distinct (concat (map SECTION_RULES SECTION_ORDER))"
  unfolding section_names distinct_append set_append Int_Un_distrib Un_empty
  using distinct_keywords distinct_lexical distinct_literals distinct_basics distinct_expressions distinct_statements distinct_declarations distinct_modules distinct_classes distinct_overloading distinct_templates distinct_exceptions distinct_preprocessing
    fresh_keywords fresh_lexical fresh_literals fresh_basics fresh_expressions fresh_statements fresh_declarations fresh_modules fresh_classes fresh_overloading fresh_templates fresh_exceptions
  by (simp only: all_distinct_iff all_fresh_in_iff simp_thms)

lemma keys_rules_set_calls:
  "map fst rules_set_calls = concat (map SECTION_RULES SECTION_ORDER)"
  by (simp only: section_names rules_set_calls_def map_append
      keys_keywords keys_lexical keys_literals keys_basics keys_expressions keys_statements keys_declarations keys_modules keys_classes keys_overloading keys_templates keys_exceptions keys_preprocessing)

lemma rules_eq: "rules = rules_set_calls"
  unfolding rules_def
  by (rule fold_Map_set_distinct) (simp only: keys_rules_set_calls distinct_section_names)

lemma Map_keys_rules: "Map_keys rules = concat (map SECTION_RULES SECTION_ORDER)"
  by (simp only: Map_keys_def rules_eq keys_rules_set_calls)




lemma constructor_fresh:
  "fresh_in ''constructor'' SECTION_RULES_keywords \<and>
   fresh_in ''constructor'' SECTION_RULES_lexical \<and>
   fresh_in ''constructor'' SECTION_RULES_literals \<and>
   fresh_in ''constructor'' SECTION_RULES_basics \<and>
   fresh_in ''constructor'' SECTION_RULES_expressions \<and>
   fresh_in ''constructor'' SECTION_RULES_statements \<and>
   fresh_in ''constructor'' SECTION_RULES_declarations \<and>
   fresh_in ''constructor'' SECTION_RULES_modules \<and>
   fresh_in ''constructor'' SECTION_RULES_classes \<and>
   fresh_in ''constructor'' SECTION_RULES_overloading \<and>
   fresh_in ''constructor'' SECTION_RULES_templates \<and>
   fresh_in ''constructor'' SECTION_RULES_exceptions \<and>
   fresh_in ''constructor'' SECTION_RULES_preprocessing"
  unfolding SECTION_RULES_keywords_def SECTION_RULES_lexical_def SECTION_RULES_literals_def SECTION_RULES_basics_def SECTION_RULES_expressions_def SECTION_RULES_statements_def SECTION_RULES_declarations_def SECTION_RULES_modules_def SECTION_RULES_classes_def SECTION_RULES_overloading_def SECTION_RULES_templates_def SECTION_RULES_exceptions_def SECTION_RULES_preprocessing_def
  by (simp cong: name_test_congs)

section \<open>Building a node\<close>















section \<open>Looking up a rule\<close>




























lemma registered_factory_sd:
  assumes "(r, f) \<in> set rules_set_calls_sd"
  shows "Map_get rules_sd r = Some f"
proof -
  have "(r, f) \<in> set rules_sd" using assms by (simp only: rules_sd_eq)
  then show ?thesis
    unfolding Map_get_def using distinct_rules_sd by (rule_tac map_of_is_SomeI)
qed












lemma SECTION_ORDER_all:
  "distinct SECTION_ORDER \<and> set SECTION_ORDER = UNIV \<and>
   distinct SECTION_ORDER_sd \<and> set SECTION_ORDER_sd = UNIV"
proof -
  have "s \<in> set SECTION_ORDER" for s by (cases s) (simp_all add: SECTION_ORDER_def)
  then have a: "set SECTION_ORDER = UNIV" by blast
  have "s \<in> set SECTION_ORDER_sd" for s by (cases s) (simp_all add: SECTION_ORDER_sd_def)
  then have b: "set SECTION_ORDER_sd = UNIV" by blast
  have c: "distinct SECTION_ORDER" by (simp add: SECTION_ORDER_def)
  have d: "distinct SECTION_ORDER_sd" by (simp add: SECTION_ORDER_sd_def)
  show ?thesis using a b c d by simp
qed

text \<open>
  C8: every registered rule name appears exactly once across the section lists of
  \<open>SECTION_RULES\<close>, in both modules: the lists of all sections together hold exactly the
  registered names, and no name twice, neither within one list nor in two of them.
  (\<open>SECTION_ORDER\<close> names every section once, by \<open>SECTION_ORDER_all\<close>.)
\<close>

theorem section_lists_name_each_rule_once:
  "distinct (concat (map SECTION_RULES_sd SECTION_ORDER_sd)) \<and>
   set (concat (map SECTION_RULES_sd SECTION_ORDER_sd)) = set (Map_keys rules_sd) \<and>
   distinct (concat (map SECTION_RULES SECTION_ORDER)) \<and>
   set (concat (map SECTION_RULES SECTION_ORDER)) = set getRuleNames"
  by (simp only: distinct_section_names_sd distinct_section_names Map_keys_rules_sd
      Map_keys_rules getRuleNames_def simp_thms)

section \<open>The EBNF texts\<close>


lemma keys_EBNF_keywords: "map fst EBNF_keywords = SECTION_RULES_keywords"
  by (simp add: EBNF_keywords_def SECTION_RULES_keywords_def)

lemma keys_EBNF_lexical: "map fst EBNF_lexical = SECTION_RULES_lexical"
  by (simp add: EBNF_lexical_def SECTION_RULES_lexical_def)

lemma keys_EBNF_literals: "map fst EBNF_literals = SECTION_RULES_literals"
  by (simp add: EBNF_literals_def SECTION_RULES_literals_def)

lemma keys_EBNF_basics: "map fst EBNF_basics = SECTION_RULES_basics"
  by (simp add: EBNF_basics_def SECTION_RULES_basics_def)

lemma keys_EBNF_expressions: "map fst EBNF_expressions = SECTION_RULES_expressions"
  by (simp add: EBNF_expressions_def SECTION_RULES_expressions_def)

lemma keys_EBNF_statements: "map fst EBNF_statements = SECTION_RULES_statements"
  by (simp add: EBNF_statements_def SECTION_RULES_statements_def)

lemma keys_EBNF_declarations: "map fst EBNF_declarations = SECTION_RULES_declarations"
  by (simp add: EBNF_declarations_def SECTION_RULES_declarations_def)

lemma keys_EBNF_modules: "map fst EBNF_modules = SECTION_RULES_modules"
  by (simp add: EBNF_modules_def SECTION_RULES_modules_def)

lemma keys_EBNF_classes: "map fst EBNF_classes = SECTION_RULES_classes"
  by (simp add: EBNF_classes_def SECTION_RULES_classes_def)

lemma keys_EBNF_overloading: "map fst EBNF_overloading = SECTION_RULES_overloading"
  by (simp add: EBNF_overloading_def SECTION_RULES_overloading_def)

lemma keys_EBNF_templates: "map fst EBNF_templates = SECTION_RULES_templates"
  by (simp add: EBNF_templates_def SECTION_RULES_templates_def)

lemma keys_EBNF_exceptions: "map fst EBNF_exceptions = SECTION_RULES_exceptions"
  by (simp add: EBNF_exceptions_def SECTION_RULES_exceptions_def)

lemma keys_EBNF_preprocessing: "map fst EBNF_preprocessing = SECTION_RULES_preprocessing"
  by (simp add: EBNF_preprocessing_def SECTION_RULES_preprocessing_def)

lemma keys_EBNF_properties:
  "map fst EBNF_properties = concat (map SECTION_RULES SECTION_ORDER)"
  by (simp only: section_names EBNF_properties_def map_append
      keys_EBNF_keywords keys_EBNF_lexical keys_EBNF_literals keys_EBNF_basics keys_EBNF_expressions keys_EBNF_statements keys_EBNF_declarations keys_EBNF_modules keys_EBNF_classes keys_EBNF_overloading keys_EBNF_templates keys_EBNF_exceptions keys_EBNF_preprocessing)

lemma EBNF_DEFINITIONS_eq: "EBNF_DEFINITIONS = EBNF_properties"
  unfolding EBNF_DEFINITIONS_def
  by (rule object_literal_distinct) (simp only: keys_EBNF_properties distinct_section_names)

lemma getEbnfRuleNames_eq: "getEbnfRuleNames = concat (map SECTION_RULES SECTION_ORDER)"
  by (simp only: getEbnfRuleNames_def EBNF_DEFINITIONS_eq keys_EBNF_properties)

text \<open>
  C7: the rule names with a registered diagram factory (\<open>getRuleNames\<close>) and the rule names
  with a registered EBNF definition (\<open>getEbnfRuleNames\<close>) are the same set.
\<close>

theorem diagram_names_are_ebnf_names:
  "set getRuleNames = set getEbnfRuleNames"
  by (simp only: getRuleNames_def Map_keys_rules getEbnfRuleNames_eq)

text \<open>
  For every property written in \<open>EBNF_DEFINITIONS\<close>, \<open>getEbnfDefinition\<close> returns the
  authored text, and for a name that is neither a property of \<open>EBNF_DEFINITIONS\<close> nor one
  of \<open>Object.prototype\<close> it returns \<open>undefined\<close>.
\<close>

lemma getEbnfDefinition_registered:
  assumes "(name, text) \<in> set EBNF_properties"
  shows "getEbnfDefinition name = String_value text"
proof -
  have "distinct (map fst EBNF_properties)"
    by (simp only: keys_EBNF_properties distinct_section_names)
  then have "map_of EBNF_properties name = Some text"
    using assms by (rule_tac map_of_is_SomeI)
  then show ?thesis
    by (simp add: getEbnfDefinition_def get_property_def EBNF_DEFINITIONS_eq)
qed

lemma getEbnfDefinition_unregistered:
  assumes "name \<notin> set getEbnfRuleNames" and "name \<notin> set Object_prototype"
  shows "getEbnfDefinition name = Undefined"
proof -
  have "map_of EBNF_DEFINITIONS name = None"
    using assms(1) by (simp add: getEbnfRuleNames_def map_of_eq_None_iff)
  then show ?thesis using assms(2) by (simp add: getEbnfDefinition_def get_property_def)
qed

text \<open>
  C5 says that \<open>getEbnfDefinition\<close> returns \<open>undefined\<close> for every string that is not a
  registered rule name, as the function's own comment does (``Returns undefined if not
  found''). The string \<open>constructor\<close> is not a registered rule name, and for it the lookup
  \<open>EBNF_DEFINITIONS[name]\<close> returns the property inherited from \<open>Object.prototype\<close>.
\<close>

theorem getEbnfDefinition_constructor:
  "''constructor'' \<notin> set getEbnfRuleNames \<and>
   getEbnfDefinition ''constructor'' = Inherited ''constructor'' \<and>
   getEbnfDefinition ''constructor'' \<noteq> Undefined"
proof -
  have n: "''constructor'' \<notin> set getEbnfRuleNames"
    unfolding getEbnfRuleNames_eq section_names set_append Un_iff
    using constructor_fresh by (simp only: fresh_in_iff simp_thms)
  then have "map_of EBNF_DEFINITIONS ''constructor'' = None"
    by (simp add: getEbnfRuleNames_def map_of_eq_None_iff)
  then have "getEbnfDefinition ''constructor'' = Inherited ''constructor''"
    by (simp add: getEbnfDefinition_def get_property_def Object_prototype_def)
  then show ?thesis using n by simp
qed


section \<open>The two grammar modules\<close>

text \<open>
  The first module registers three rules more than the second, all in the section
  \<open>modules\<close>; they have no EBNF text. Every other section lists the same names in both.
\<close>

lemma same_keywords: "SECTION_RULES_keywords_sd = SECTION_RULES_keywords"
  by (simp only: SECTION_RULES_keywords_sd_def SECTION_RULES_keywords_def)

lemma same_lexical: "SECTION_RULES_lexical_sd = SECTION_RULES_lexical"
  by (simp only: SECTION_RULES_lexical_sd_def SECTION_RULES_lexical_def)

lemma same_literals: "SECTION_RULES_literals_sd = SECTION_RULES_literals"
  by (simp only: SECTION_RULES_literals_sd_def SECTION_RULES_literals_def)

lemma same_basics: "SECTION_RULES_basics_sd = SECTION_RULES_basics"
  by (simp only: SECTION_RULES_basics_sd_def SECTION_RULES_basics_def)

lemma same_expressions: "SECTION_RULES_expressions_sd = SECTION_RULES_expressions"
  by (simp only: SECTION_RULES_expressions_sd_def SECTION_RULES_expressions_def)

lemma same_statements: "SECTION_RULES_statements_sd = SECTION_RULES_statements"
  by (simp only: SECTION_RULES_statements_sd_def SECTION_RULES_statements_def)

lemma same_declarations: "SECTION_RULES_declarations_sd = SECTION_RULES_declarations"
  by (simp only: SECTION_RULES_declarations_sd_def SECTION_RULES_declarations_def)

lemma same_modules:
  "SECTION_RULES_modules_sd =
     SECTION_RULES_modules @ [''import-keyword'', ''module-keyword'', ''export-keyword'']"
  by (simp add: SECTION_RULES_modules_sd_def SECTION_RULES_modules_def)

lemma same_classes: "SECTION_RULES_classes_sd = SECTION_RULES_classes"
  by (simp only: SECTION_RULES_classes_sd_def SECTION_RULES_classes_def)

lemma same_overloading: "SECTION_RULES_overloading_sd = SECTION_RULES_overloading"
  by (simp only: SECTION_RULES_overloading_sd_def SECTION_RULES_overloading_def)

lemma same_templates: "SECTION_RULES_templates_sd = SECTION_RULES_templates"
  by (simp only: SECTION_RULES_templates_sd_def SECTION_RULES_templates_def)

lemma same_exceptions: "SECTION_RULES_exceptions_sd = SECTION_RULES_exceptions"
  by (simp only: SECTION_RULES_exceptions_sd_def SECTION_RULES_exceptions_def)

lemma same_preprocessing: "SECTION_RULES_preprocessing_sd = SECTION_RULES_preprocessing"
  by (simp only: SECTION_RULES_preprocessing_sd_def SECTION_RULES_preprocessing_def)

lemma first_module_names:
  "set (Map_keys rules_sd) =
     set getEbnfRuleNames \<union> {''import-keyword'', ''module-keyword'', ''export-keyword''}"
  unfolding Map_keys_rules_sd getEbnfRuleNames_eq section_names_sd section_names
    same_keywords same_lexical same_literals same_basics same_expressions same_statements same_declarations same_modules same_classes same_overloading same_templates same_exceptions same_preprocessing
  by auto

end
